theory Spec2Isabelle
  imports Main "HOL-Library.Word" "HOL-Library.Multiset"
begin

section \<open>The shader dispatch cache of libplacebo (src/dispatch.c)\<close>

text \<open>
  The development embeds the dispatch object of \<^verbatim>\<open>src/dispatch.c\<close>: the pool of
  shader accumulators, the array of compiled passes, the array of loaded but not yet
  compiled programs, the frame and identity counters, the eviction of old passes and the
  binary cache format, the construction and lookup of passes and the three dispatch
  entry points. Functions keep the names of the C source. What the C code obtains from
  other translation units (the GPU backend, \<^verbatim>\<open>shaders.c\<close>, \<^verbatim>\<open>gpu.c\<close>) is a field of
  the record \<open>backend\<close> and thereby a parameter of the theorems.
\<close>

subsection \<open>Data model\<close>

type_synonym byte = "8 word"
type_synonym u32 = "32 word"
type_synonym u64 = "64 word"

text \<open>
  A texture format (\<^verbatim>\<open>const struct pl_fmt *\<close>) is only compared by pointer and is
  represented by its address.
\<close>

type_synonym addr = nat

text \<open>
  What stops a C function before it returns: a read or pointer step outside the cache
  blob handed to \<^verbatim>\<open>pl_dispatch_load\<close> or outside an array (undefined in C), a failed
  \<^verbatim>\<open>assert\<close>/\<^verbatim>\<open>pl_assert\<close>, a call of \<^verbatim>\<open>abort()\<close>, and the dereference of a null
  shader pointer.
\<close>

datatype error = OutOfBounds | AssertionFailed | Aborted | NullPointer

datatype log_level = PL_LOG_ERR | PL_LOG_WARN

datatype pass_var_type = PASS_VAR_NONE | PASS_VAR_GLOBAL | PASS_VAR_UBO | PASS_VAR_PUSHC

datatype pl_pass_type = PL_PASS_RASTER | PL_PASS_COMPUTE

datatype pl_prim_type = PL_PRIM_TRIANGLE_LIST | PL_PRIM_TRIANGLE_STRIP | PL_PRIM_TRIANGLE_FAN

datatype pl_blend_mode =
  PL_BLEND_ZERO | PL_BLEND_ONE | PL_BLEND_SRC_ALPHA | PL_BLEND_ONE_MINUS_SRC_ALPHA

datatype pl_shader_sig = PL_SHADER_SIG_NONE | PL_SHADER_SIG_COLOR

record pl_blend_params =
  src_rgb :: pl_blend_mode
  dst_rgb :: pl_blend_mode
  src_alpha :: pl_blend_mode
  dst_alpha :: pl_blend_mode

record pl_var =
  var_name :: string
  dim_v :: int
  dim_m :: int
  dim_a :: int

record pl_var_layout =
  lay_offset :: nat
  lay_stride :: nat
  lay_size :: nat

record pl_shader_var =
  sv_var :: pl_var
  sv_data :: "byte list"
  sv_dynamic :: bool

text \<open>\<^verbatim>\<open>struct pass_var\<close>: the placement of one variable and the bytes last written.\<close>

record pass_var =
  pv_index :: nat
  pv_type :: pass_var_type
  pv_layout :: pl_var_layout
  pv_cached_data :: "byte list option"

text \<open>
  The fields of \<^verbatim>\<open>struct pl_pass_params\<close> that \<^verbatim>\<open>dispatch.c\<close> reads back from a
  created pass or compares in its cache lookup. The generated GLSL text, the vertex
  attribute table and the descriptor table are built for the backend only and are not
  part of the model; a \<^verbatim>\<open>cached_program\<close> of length 0 is the empty list.
\<close>

record pl_pass_params =
  pp_type :: pl_pass_type
  pp_target_format :: addr
  pp_blend_params :: "pl_blend_params option"
  pp_load_target :: bool
  pp_vertex_type :: pl_prim_type
  pp_vertex_stride :: nat
  pp_push_constants_size :: nat
  pp_variables :: "pl_var list"
  pp_num_descriptors :: nat
  pp_cached_program :: "byte list"

record pl_pass =
  pass_params :: pl_pass_params

text \<open>
  \<^verbatim>\<open>struct pass\<close>. A null \<^verbatim>\<open>pass\<close> or \<^verbatim>\<open>ubo\<close> pointer is \<open>None\<close>; the owned uniform
  buffer is represented by its size. The synthetic UBO descriptor \<^verbatim>\<open>ubo_desc\<close> is the
  list of the variables placed in it.
\<close>

record pass =
  signature :: u64
  pass :: "pl_pass option"
  last_index :: int
  vars :: "pass_var list"
  ubo :: "nat option"
  ubo_desc :: "(pl_var \<times> pl_var_layout) list"

record cached_pass =
  cp_signature :: u64
  cached_program :: "byte list"

text \<open>
  \<^verbatim>\<open>struct pl_shader_params\<close> as \<^verbatim>\<open>pl_dispatch_begin_ex\<close> fills it, and the fields of
  the accumulator \<^verbatim>\<open>struct pl_shader\<close> that \<^verbatim>\<open>dispatch.c\<close> reads: the flags, the input and
  output signature, what \<^verbatim>\<open>pl_shader_is_compute\<close> returns for it, the variables, the
  number of descriptors and, for every vertex attribute, the texel size of its format.
\<close>

record pl_shader_params =
  sp_id :: byte
  sp_index :: byte

record pl_shader =
  sh_params :: pl_shader_params
  sh_failed :: bool
  sh_mutable :: bool
  sh_input :: pl_shader_sig
  sh_output :: pl_shader_sig
  sh_is_compute :: bool
  sh_vars :: "pl_shader_var list"
  sh_num_descs :: nat
  sh_vas :: "nat list"

text \<open>
  The parameters of a target texture that are looked at. \<open>tex_dimension\<close> is the value
  of \<^verbatim>\<open>pl_tex_params_dimension\<close>.
\<close>

record pl_tex =
  tex_w :: int
  tex_h :: int
  tex_dimension :: int
  tex_format :: addr
  tex_renderable :: bool
  tex_storable :: bool

record pl_rect2d =
  x0 :: int
  y0 :: int
  x1 :: int
  y1 :: int

text \<open>
  The calls that leave \<^verbatim>\<open>dispatch.c\<close> with an effect, in the order in which they are
  made. Of the log macros only \<^verbatim>\<open>PL_ERR\<close> and \<^verbatim>\<open>PL_WARN\<close> are recorded. \<open>PassCreate\<close> is
  a call of \<^verbatim>\<open>pl_pass_create\<close> for a record with the given signature, \<open>PassDestroy\<close> the
  \<^verbatim>\<open>pass_destroy\<close> of such a record, \<open>PassRun i\<close> the \<^verbatim>\<open>pl_pass_run\<close> on the run
  parameters of the record at index \<open>i\<close> of \<^verbatim>\<open>dp->passes\<close>.
\<close>

datatype event =
    Log log_level string
  | BufCreate nat
  | PassCreate u64 pl_pass_params
  | PassDestroy u64
  | VarUpdate nat "byte list"
  | BufWrite nat nat
  | PushcWrite pl_var_layout
  | PassRun nat

text \<open>
  \<^verbatim>\<open>struct pl_dispatch\<close>. Both counters are \<^verbatim>\<open>uint8_t\<close>, \<^verbatim>\<open>max_passes\<close> is an \<^verbatim>\<open>int\<close>;
  the three arrays are lists, their \<^verbatim>\<open>num\<close> fields the lengths. The pool \<^verbatim>\<open>shaders\<close>
  holds the accumulators handed back; the four scratch text buffers are not modelled.
\<close>

record pl_dispatch =
  current_ident :: byte
  current_index :: byte
  max_passes :: int
  shaders :: "pl_shader list"
  passes :: "pass list"
  cached_passes :: "cached_pass list"

text \<open>
  The parameters of \<^verbatim>\<open>pl_dispatch_vertex\<close> that are looked at; the vertex attributes are
  given by the texel sizes of their formats. Vertex and index data, scissors, coordinate
  mode and timer only reach the backend.
\<close>

record pl_dispatch_vertex_params =
  vp_shader :: "pl_shader option"
  vp_target :: pl_tex
  vp_blend_params :: "pl_blend_params option"
  vp_vertex_attribs :: "nat list"
  vp_vertex_position_idx :: int
  vp_vertex_type :: pl_prim_type
  vp_vertex_stride :: nat

text \<open>
  The GPU and the functions of other translation units. The first six fields are
  \<^verbatim>\<open>gpu->caps\<close>, \<^verbatim>\<open>gpu->glsl\<close> and \<^verbatim>\<open>gpu->limits\<close>. \<open>sh_buf_desc_append\<close> returns \<open>None\<close>
  where the C function returns false, and otherwise the extended descriptor and the
  layout it stores. \<open>pl_buf_create\<close> tells whether a uniform buffer of that size is
  created. \<open>pl_pass_create\<close> gets the parameters and the accumulator the shader text is
  generated from; \<open>None\<close> is a null pass, \<open>Some prog\<close> a pass whose parameters are a copy
  of the given ones with \<^verbatim>\<open>cached_program\<close> set to \<open>prog\<close>. The next five stand for the
  steps between the checks of an entry point and its call of \<^verbatim>\<open>find_pass\<close>, which only
  extend the accumulator through \<^verbatim>\<open>sh_var\<close>, \<^verbatim>\<open>sh_desc\<close>, \<^verbatim>\<open>sh_attr_vec2\<close> and the GLSL
  macros of \<^verbatim>\<open>shaders.c\<close>. The objects bound to the descriptors, the names of the
  identifiers and the formats of the vertex attributes are not part of the model;
  \<open>glsl_stop\<close> tells where \<^verbatim>\<open>generate_shaders\<close> stops because of them, for the pass
  parameters, the accumulator and the vertex parameters it works on.
\<close>

record backend =
  gpu_input_variables :: bool
  gpu_parallel_compute :: bool
  glsl_vulkan :: bool
  glsl_version :: int
  max_pushc_size :: nat
  max_ubo_size :: nat
  pl_shader_signature :: "pl_shader \<Rightarrow> u64"
  pl_shader_output_size :: "pl_shader \<Rightarrow> (int \<times> int) option"
  pl_std430_layout :: "nat \<Rightarrow> pl_var \<Rightarrow> pl_var_layout"
  pl_var_host_layout :: "nat \<Rightarrow> pl_var \<Rightarrow> pl_var_layout"
  sh_buf_desc_append ::
    "(pl_var \<times> pl_var_layout) list \<Rightarrow> pl_var \<Rightarrow>
     ((pl_var \<times> pl_var_layout) list \<times> pl_var_layout) option"
  sh_buf_desc_size :: "(pl_var \<times> pl_var_layout) list \<Rightarrow> nat"
  pl_buf_create :: "nat \<Rightarrow> bool"
  pl_pass_create :: "pl_pass_params \<Rightarrow> pl_shader \<Rightarrow> byte list option"
  sh_try_compute :: "pl_shader \<Rightarrow> pl_shader"
  translate_compute_shader :: "pl_shader \<Rightarrow> pl_rect2d \<Rightarrow> bool \<Rightarrow> pl_shader"
  sh_attr_vec2 :: "pl_shader \<Rightarrow> pl_rect2d \<Rightarrow> pl_tex \<Rightarrow> pl_shader"
  compute_vertex_attribs :: "pl_shader \<Rightarrow> int \<Rightarrow> int \<Rightarrow> pl_shader"
  sh_var_proj :: "pl_shader \<Rightarrow> pl_dispatch_vertex_params \<Rightarrow> pl_shader"
  glsl_stop ::
    "pl_pass_params \<Rightarrow> pl_shader \<Rightarrow> pl_dispatch_vertex_params option \<Rightarrow> error option"

definition MAX_PASSES :: int where
  "MAX_PASSES = 100"

definition MIN_AGE :: int where
  "MIN_AGE = 10"

definition pl_dispatch_create :: pl_dispatch where
  "pl_dispatch_create =
     \<lparr>current_ident = 0, current_index = 0, max_passes = MAX_PASSES,
      shaders = [], passes = [], cached_passes = []\<rparr>"

text \<open>Sequencing of steps that may stop with an error.\<close>

definition bindE :: "'e + 'a \<Rightarrow> ('a \<Rightarrow> 'e + 'b) \<Rightarrow> 'e + 'b" where
  "bindE m f = (case m of Inl e \<Rightarrow> Inl e | Inr x \<Rightarrow> f x)"

subsection \<open>The binary cache: byte order, \<^verbatim>\<open>WRITE\<close> and \<^verbatim>\<open>LOAD\<close>\<close>

text \<open>
  \<^verbatim>\<open>WRITE(type, var)\<close> and \<^verbatim>\<open>LOAD(var)\<close> copy the object representation of an unsigned
  integer with \<^verbatim>\<open>memcpy\<close>; the model fixes it as little-endian.
\<close>

fun le_bytes :: "nat \<Rightarrow> nat \<Rightarrow> byte list" where
  "le_bytes 0 v = []"
| "le_bytes (Suc n) v = word_of_nat (v mod 256) # le_bytes n (v div 256)"

fun le_value :: "byte list \<Rightarrow> nat" where
  "le_value [] = 0"
| "le_value (b # bs) = unat b + 256 * le_value bs"

definition cache_magic :: "byte list" where
  "cache_magic = [0x50, 0x4C, 0x44, 0x50]"

definition cache_version :: u32 where
  "cache_version = 1"

text \<open>
  \<^verbatim>\<open>write_buf\<close> appends \<open>src\<close> to what has been written so far. The returned position is
  the length of the list; with a null \<^verbatim>\<open>out\<close> the C function only counts, which is the
  length of the same list. The \<^verbatim>\<open>assert(size)\<close> is kept.
\<close>

definition write_buf :: "byte list \<Rightarrow> byte list \<Rightarrow> error + byte list" where
  "write_buf buf src = (if src = [] then Inl AssertionFailed else Inr (buf @ src))"

definition write_u32 :: "byte list \<Rightarrow> u32 \<Rightarrow> error + byte list" where
  "write_u32 buf v = write_buf buf (le_bytes 4 (unat v))"

definition write_u64 :: "byte list \<Rightarrow> u64 \<Rightarrow> error + byte list" where
  "write_u64 buf v = write_buf buf (le_bytes 8 (unat v))"

text \<open>One serialized entry: signature, program length, program bytes.\<close>

definition write_entry :: "byte list \<Rightarrow> u64 \<Rightarrow> byte list \<Rightarrow> error + byte list" where
  "write_entry buf sig prog =
     bindE (write_u64 buf sig) (\<lambda>b1.
     bindE (write_u64 b1 (word_of_nat (length prog))) (\<lambda>b2.
     write_buf b2 prog))"

text \<open>The first loop of \<^verbatim>\<open>pl_dispatch_save\<close>, over the compiled passes.\<close>

fun save_passes :: "pass list \<Rightarrow> byte list \<Rightarrow> error + byte list" where
  "save_passes [] buf = Inr buf"
| "save_passes (p # ps) buf =
     (case pass p of
        None \<Rightarrow> save_passes ps buf
      | Some pp \<Rightarrow>
          if pp_cached_program (pass_params pp) = [] then save_passes ps buf
          else bindE (write_entry buf (signature p) (pp_cached_program (pass_params pp)))
                 (save_passes ps))"

text \<open>The second loop, over the loaded but not yet compiled programs.\<close>

fun save_cached :: "cached_pass list \<Rightarrow> byte list \<Rightarrow> error + byte list" where
  "save_cached [] buf = Inr buf"
| "save_cached (c # cs) buf =
     bindE (write_entry buf (cp_signature c) (cached_program c)) (save_cached cs)"

text \<open>
  \<^verbatim>\<open>pl_dispatch_save\<close>: the bytes written to \<^verbatim>\<open>out\<close>; the C return value is their number.
  The entry count is the \<^verbatim>\<open>int\<close> sum \<^verbatim>\<open>dp->passes.num + dp->cached_passes.num\<close> converted
  to \<^verbatim>\<open>uint32_t\<close>.
\<close>

definition pl_dispatch_save :: "pl_dispatch \<Rightarrow> error + byte list" where
  "pl_dispatch_save dp =
     bindE (write_buf [] cache_magic) (\<lambda>b1.
     bindE (write_u32 b1 cache_version) (\<lambda>b2.
     bindE (write_u32 b2 (word_of_nat (length (passes dp) + length (cached_passes dp)))) (\<lambda>b3.
     bindE (save_passes (passes dp) b3) (\<lambda>b4.
     save_cached (cached_passes dp) b4))))"

text \<open>
  \<^verbatim>\<open>LOAD\<close> reads from the cursor and advances it. The blob is the list of the bytes from
  the cursor to its end; the C function has no length and reading on is undefined, which
  the model reports as \<open>OutOfBounds\<close>.
\<close>

definition load_bytes :: "nat \<Rightarrow> byte list \<Rightarrow> error + (byte list \<times> byte list)" where
  "load_bytes n cache =
     (if n \<le> length cache then Inr (take n cache, drop n cache) else Inl OutOfBounds)"

definition load_uint :: "nat \<Rightarrow> byte list \<Rightarrow> error + (nat \<times> byte list)" where
  "load_uint n cache = bindE (load_bytes n cache) (\<lambda>(bs, rest). Inr (le_value bs, rest))"

text \<open>
  The inner loop of \<^verbatim>\<open>pl_dispatch_load\<close> under the comment "Skip passes that are already
  compiled". Its \<^verbatim>\<open>continue\<close> belongs to this inner loop: for every compiled pass with
  the signature the cursor moves on by \<open>size\<close>, and the loop goes on to the next pass.
\<close>

fun skip_compiled :: "pass list \<Rightarrow> u64 \<Rightarrow> nat \<Rightarrow> byte list \<Rightarrow> error + byte list" where
  "skip_compiled [] sig sz cache = Inr cache"
| "skip_compiled (p # ps) sig sz cache =
     (if signature p = sig
      then bindE (load_bytes sz cache) (\<lambda>(skipped, rest). skip_compiled ps sig sz rest)
      else skip_compiled ps sig sz cache)"

text \<open>
  The search for a \<^verbatim>\<open>cached_pass\<close> with the signature, the append of a new entry when
  there is none, and the replacement of the entry's program by the copied bytes.
\<close>

fun store_cached :: "u64 \<Rightarrow> byte list \<Rightarrow> cached_pass list \<Rightarrow> cached_pass list" where
  "store_cached sig prog [] = [\<lparr>cp_signature = sig, cached_program = prog\<rparr>]"
| "store_cached sig prog (c # cs) =
     (if cp_signature c = sig then c\<lparr>cached_program := prog\<rparr> # cs
      else c # store_cached sig prog cs)"

text \<open>
  The outer loop of \<^verbatim>\<open>pl_dispatch_load\<close>, \<open>k\<close> entries still to read. After the inner
  loop the body goes on to store the entry in every case.
\<close>

fun load_entries :: "nat \<Rightarrow> pl_dispatch \<Rightarrow> byte list \<Rightarrow> error + pl_dispatch" where
  "load_entries 0 dp cache = Inr dp"
| "load_entries (Suc k) dp cache =
     bindE (load_uint 8 cache) (\<lambda>(sg, c1).
     bindE (load_uint 8 c1) (\<lambda>(sz, c2).
     if sz = 0 then load_entries k dp c2
     else
       bindE (skip_compiled (passes dp) (word_of_nat sg) sz c2) (\<lambda>c3.
       bindE (load_bytes sz c3) (\<lambda>(prog, c4).
       load_entries k
         (dp\<lparr>cached_passes := store_cached (word_of_nat sg) prog (cached_passes dp)\<rparr>) c4))))"

text \<open>
  \<^verbatim>\<open>pl_dispatch_load\<close> returns the dispatch object and the messages logged. A wrong magic is reported with \<^verbatim>\<open>PL_ERR\<close>, a wrong version with
  \<^verbatim>\<open>PL_WARN\<close>; both return early.
\<close>

definition pl_dispatch_load ::
  "pl_dispatch \<Rightarrow> byte list \<Rightarrow> error + (pl_dispatch \<times> event list)" where
  "pl_dispatch_load dp cache =
     bindE (load_bytes 4 cache) (\<lambda>(magic, c1).
     if magic \<noteq> cache_magic
     then Inr (dp, [Log PL_LOG_ERR ''Failed loading dispatch cache: invalid magic bytes''])
     else
       bindE (load_uint 4 c1) (\<lambda>(version, c2).
       if version \<noteq> unat cache_version
       then Inr (dp, [Log PL_LOG_WARN ''Failed loading dispatch cache: wrong version''])
       else
         bindE (load_uint 4 c2) (\<lambda>(num, c3).
         bindE (load_entries num dp c3) (\<lambda>dp'. Inr (dp', [])))))"

subsection \<open>The accumulator pool\<close>

text \<open>
  Modelled from the spec: \<^verbatim>\<open>pl_shader_alloc\<close> and \<^verbatim>\<open>pl_shader_reset\<close> belong to
  \<^verbatim>\<open>shaders.c\<close>, which is not part of the sources at hand. The specification says that
  \<^verbatim>\<open>begin\<close> returns a cleared accumulator, created empty, which is tagged with the
  identity handed over; a recycled accumulator keeps nothing but its memory.
\<close>

definition pl_shader_alloc :: "pl_shader_params \<Rightarrow> pl_shader" where
  "pl_shader_alloc params =
     \<lparr>sh_params = params, sh_failed = False, sh_mutable = True,
      sh_input = PL_SHADER_SIG_NONE, sh_output = PL_SHADER_SIG_NONE,
      sh_is_compute = False, sh_vars = [], sh_num_descs = 0, sh_vas = []\<rparr>"

definition pl_shader_reset :: "pl_shader \<Rightarrow> pl_shader_params \<Rightarrow> pl_shader" where
  "pl_shader_reset sh params = pl_shader_alloc params"

text \<open>
  \<^verbatim>\<open>pl_dispatch_begin_ex\<close>: the post-increment \<^verbatim>\<open>dp->current_ident++\<close> is evaluated only
  for a unique accumulator and wraps around as \<^verbatim>\<open>uint8_t\<close> addition does; \<^verbatim>\<open>PL_ARRAY_POP\<close>
  takes the last element of the pool.
\<close>

definition pl_dispatch_begin_ex :: "pl_dispatch \<Rightarrow> bool \<Rightarrow> pl_shader \<times> pl_dispatch" where
  "pl_dispatch_begin_ex dp unique =
     (let params = \<lparr>sp_id = (if unique then current_ident dp else 0),
                    sp_index = current_index dp\<rparr>;
          dp1 = (if unique then dp\<lparr>current_ident := current_ident dp + 1\<rparr> else dp)
      in if shaders dp1 = [] then (pl_shader_alloc params, dp1)
         else (pl_shader_reset (last (shaders dp1)) params,
               dp1\<lparr>shaders := butlast (shaders dp1)\<rparr>))"

definition pl_dispatch_begin :: "pl_dispatch \<Rightarrow> pl_shader \<times> pl_dispatch" where
  "pl_dispatch_begin dp = pl_dispatch_begin_ex dp False"

definition pl_dispatch_reset_frame :: "pl_dispatch \<Rightarrow> pl_dispatch" where
  "pl_dispatch_reset_frame dp =
     dp\<lparr>current_ident := 0, current_index := current_index dp + 1\<rparr>"

text \<open>
  \<^verbatim>\<open>pl_dispatch_abort\<close> gets the caller's handle \<^verbatim>\<open>struct pl_shader **psh\<close>; the pointer
  stored in it is \<open>None\<close> when null. It returns the dispatch object and the handle.
\<close>

definition pl_dispatch_abort ::
  "pl_dispatch \<Rightarrow> pl_shader option \<Rightarrow> pl_dispatch \<times> pl_shader option" where
  "pl_dispatch_abort dp psh =
     (case psh of
        None \<Rightarrow> (dp, psh)
      | Some sh \<Rightarrow> (dp\<lparr>shaders := shaders dp @ [sh]\<rparr>, None))"

subsection \<open>Eviction\<close>

text \<open>
  \<^verbatim>\<open>pass_age\<close> subtracts the \<^verbatim>\<open>int\<close> field \<^verbatim>\<open>last_index\<close> from the \<^verbatim>\<open>uint8_t\<close> frame index
  after its promotion to \<^verbatim>\<open>int\<close>. \<^verbatim>\<open>last_index\<close> only ever receives values of the frame
  index, so that neither difference below leaves the range of \<^verbatim>\<open>int\<close>.
\<close>

definition pass_age :: "pl_dispatch \<Rightarrow> pass \<Rightarrow> int" where
  "pass_age dp p = uint (current_index dp) - last_index p"

definition cmp_pass_age :: "pass \<Rightarrow> pass \<Rightarrow> int" where
  "cmp_pass_age a b = last_index b - last_index a"

text \<open>
  \<^verbatim>\<open>qsort\<close> with a comparison function. The C library leaves the order of elements that
  compare equal open; the model is the insertion sort that keeps their order.
\<close>

fun qsort_insert :: "('a \<Rightarrow> 'a \<Rightarrow> int) \<Rightarrow> 'a \<Rightarrow> 'a list \<Rightarrow> 'a list" where
  "qsort_insert cmp a [] = [a]"
| "qsort_insert cmp a (b # bs) =
     (if cmp a b \<le> 0 then a # b # bs else b # qsort_insert cmp a bs)"

fun qsort :: "('a \<Rightarrow> 'a \<Rightarrow> int) \<Rightarrow> 'a list \<Rightarrow> 'a list" where
  "qsort cmp [] = []"
| "qsort cmp (a # as) = qsort_insert cmp a (qsort cmp as)"

text \<open>The \<^verbatim>\<open>while\<close> loop of \<^verbatim>\<open>garbage_collect_passes\<close> that steps over young passes.\<close>

function gc_scan :: "pl_dispatch \<Rightarrow> pass list \<Rightarrow> nat \<Rightarrow> nat" where
  "gc_scan dp ps idx =
     (if idx < length ps \<and> pass_age dp (ps ! idx) < MIN_AGE
      then gc_scan dp ps (Suc idx) else idx)"
  by pat_completeness auto
termination
  by (relation "measure (\<lambda>(dp, ps, idx). length ps - idx)") auto

declare gc_scan.simps [simp del]

text \<open>
  \<^verbatim>\<open>garbage_collect_passes\<close> returns the dispatch object and one \<open>PassDestroy\<close> for every
  record handed to \<^verbatim>\<open>pass_destroy\<close>, which destroys its uniform buffer and its pass.
\<close>

definition garbage_collect_passes :: "pl_dispatch \<Rightarrow> pl_dispatch \<times> event list" where
  "garbage_collect_passes dp =
     (if int (length (passes dp)) \<le> max_passes dp then (dp, [])
      else
        let sorted = qsort cmp_pass_age (passes dp);
            idx = gc_scan dp sorted (length sorted div 2);
            evicted = drop idx sorted;
            dp1 = dp\<lparr>passes := take idx sorted\<rparr>
        in (if length evicted \<noteq> 0 then dp1 else dp1\<lparr>max_passes := max_passes dp1 * 2\<rparr>,
            map (\<lambda>p. PassDestroy (signature p)) evicted))"

subsection \<open>Placing the variables\<close>

text \<open>
  Modelled from the spec: the macro \<^verbatim>\<open>PL_ALIGN2\<close> comes from \<^verbatim>\<open>common.h\<close>, which is not
  part of the sources at hand; "push-constant region size is rounded up to a 4-byte
  multiple".
\<close>

definition PL_ALIGN2 :: "nat \<Rightarrow> nat \<Rightarrow> nat" where
  "PL_ALIGN2 x a = ((x + a - 1) div a) * a"

text \<open>
  \<^verbatim>\<open>add_pass_var\<close> works on the variable's \<^verbatim>\<open>pass_var\<close>, on \<^verbatim>\<open>pass->ubo_desc\<close> and on
  the fields \<^verbatim>\<open>push_constants_size\<close> and \<^verbatim>\<open>variables\<close> of the pass parameters. It returns
  the C result, the three of them, and the error message when it gives up. The layout of
  a push constant is stored before the size check, as in the source.
\<close>

definition add_pass_var ::
  "backend \<Rightarrow> (pl_var \<times> pl_var_layout) list \<Rightarrow> pl_pass_params \<Rightarrow> pl_shader_var \<Rightarrow>
   pass_var \<Rightarrow> bool \<Rightarrow>
   bool \<times> pass_var \<times> (pl_var \<times> pl_var_layout) list \<times> pl_pass_params \<times> event list" where
  "add_pass_var be ud params sv pv greedy =
     (if pv_type pv \<noteq> PASS_VAR_NONE then (True, pv, ud, params, [])
      else
        let try_pushc = (greedy \<or> (dim_m (sv_var sv) = 1 \<and> dim_a (sv_var sv) = 1)
                          \<or> sv_dynamic sv);
            try_it = (try_pushc \<and> glsl_vulkan be \<and> max_pushc_size be \<noteq> 0);
            lay = pl_std430_layout be (pp_push_constants_size params) (sv_var sv);
            pv1 = (if try_it then pv\<lparr>pv_layout := lay\<rparr> else pv);
            new_size = lay_offset lay + lay_size lay
        in if try_it \<and> new_size \<le> max_pushc_size be
           then (True, pv1\<lparr>pv_type := PASS_VAR_PUSHC\<rparr>, ud,
                 params\<lparr>pp_push_constants_size := new_size\<rparr>, [])
           else if \<not> greedy then (True, pv1, ud, params, [])
           else
             let try_ubo = (\<not> gpu_input_variables be \<or> \<not> sv_dynamic sv);
                 appended = (if try_ubo \<and> glsl_version be \<ge> 440 \<and> max_ubo_size be \<noteq> 0
                             then sh_buf_desc_append be ud (sv_var sv) else None)
             in case appended of
                  Some (ud', ulay) \<Rightarrow>
                    (True, pv1\<lparr>pv_layout := ulay, pv_type := PASS_VAR_UBO\<rparr>, ud', params, [])
                | None \<Rightarrow>
                    if gpu_input_variables be
                    then (True,
                          pv1\<lparr>pv_type := PASS_VAR_GLOBAL,
                              pv_index := length (pp_variables params),
                              pv_layout := pl_var_host_layout be 0 (sv_var sv)\<rparr>,
                          ud, params\<lparr>pp_variables := pp_variables params @ [sv_var sv]\<rparr>, [])
                    else (False, pv1, ud, params,
                          [Log PL_LOG_ERR ''Unable to add input variable'']))"

text \<open>
  One of the two loops of \<^verbatim>\<open>find_pass\<close> over the variables, which stops at the first
  failure (\<^verbatim>\<open>goto error\<close>). \<^verbatim>\<open>pass->vars\<close> has been allocated with one zeroed entry for
  every variable of the accumulator.
\<close>

fun place_vars ::
  "backend \<Rightarrow> bool \<Rightarrow> pl_shader_var list \<Rightarrow> pass_var list \<Rightarrow> (pl_var \<times> pl_var_layout) list \<Rightarrow>
   pl_pass_params \<Rightarrow>
   bool \<times> pass_var list \<times> (pl_var \<times> pl_var_layout) list \<times> pl_pass_params \<times> event list" where
  "place_vars be greedy (sv # svs) (pv # pvs) ud params =
     (case add_pass_var be ud params sv pv greedy of
        (ok, pv', ud', params', ev) \<Rightarrow>
          if \<not> ok then (False, pv' # pvs, ud', params', ev)
          else (case place_vars be greedy svs pvs ud' params' of
                  (ok', pvs', ud'', params'', ev') \<Rightarrow>
                    (ok', pv' # pvs', ud'', params'', ev @ ev')))"
| "place_vars be greedy svs pvs ud params = (True, pvs, ud, params, [])"

subsection \<open>Looking up and building a pass\<close>

definition blend_equal :: "pl_blend_params option \<Rightarrow> pl_blend_params option \<Rightarrow> bool" where
  "blend_equal a b =
     (case a of
        None \<Rightarrow> b = None
      | Some x \<Rightarrow>
          (case b of
             None \<Rightarrow> False
           | Some y \<Rightarrow> src_rgb x = src_rgb y \<and> dst_rgb x = dst_rgb y \<and>
                       src_alpha x = src_alpha y \<and> dst_alpha x = dst_alpha y))"

text \<open>
  The scan of \<^verbatim>\<open>find_pass\<close> over \<^verbatim>\<open>dp->passes\<close>, from index \<open>i\<close> on: the index of the first
  record that is returned, if any. A record with a null pass matches on its signature
  alone. \<^verbatim>\<open>pl_assert(target)\<close> is kept.
\<close>

fun lookup_pass ::
  "backend \<Rightarrow> pl_shader \<Rightarrow> u64 \<Rightarrow> pl_tex option \<Rightarrow> pl_blend_params option \<Rightarrow> bool \<Rightarrow>
   pl_dispatch_vertex_params option \<Rightarrow> pass list \<Rightarrow> nat \<Rightarrow> error + nat option" where
  "lookup_pass be sh sig target blend load vparams [] i = Inr None"
| "lookup_pass be sh sig target blend load vparams (p # ps) i =
     (if signature p \<noteq> sig then lookup_pass be sh sig target blend load vparams ps (Suc i)
      else
        case pass p of
          None \<Rightarrow> Inr (Some i)
        | Some pp \<Rightarrow>
            if sh_is_compute sh then Inr (Some i)
            else
              (case target of
                 None \<Rightarrow> Inl AssertionFailed
               | Some t \<Rightarrow>
                   if tex_format t = pp_target_format (pass_params pp) \<and>
                      blend_equal (pp_blend_params (pass_params pp)) blend \<and>
                      load = pp_load_target (pass_params pp) \<and>
                      (case vparams of
                         None \<Rightarrow> True
                       | Some vp \<Rightarrow>
                           pp_vertex_type (pass_params pp) = vp_vertex_type vp \<and>
                           pp_vertex_stride (pass_params pp) = vp_vertex_stride vp)
                   then Inr (Some i)
                   else lookup_pass be sh sig target blend load vparams ps (Suc i)))"

text \<open>
  The search of \<^verbatim>\<open>dp->cached_passes\<close> for the signature: the program of the first entry
  that has it, and the array without that entry (\<^verbatim>\<open>PL_ARRAY_REMOVE_AT\<close>).
\<close>

fun take_cached :: "u64 \<Rightarrow> cached_pass list \<Rightarrow> byte list \<times> cached_pass list" where
  "take_cached sig [] = ([], [])"
| "take_cached sig (c # cs) =
     (if cp_signature c = sig then (cached_program c, cs)
      else (case take_cached sig cs of (prog, cs') \<Rightarrow> (prog, c # cs')))"

text \<open>
  \<^verbatim>\<open>generate_shaders\<close> writes the GLSL text of the pass, which is not modelled. What is
  kept is where it stops before it returns. While it walks over the descriptors and the
  vertex attributes it reaches \<^verbatim>\<open>abort()\<close> on a sampler or descriptor type it does not
  know, and \<^verbatim>\<open>pl_assert\<close> fails for a sampled texture without a GLSL type or prefix, for
  a raster pass without a position identifier and for a position attribute that has not
  two components: these stops are \<open>glsl_stop\<close>. After them come the two assertions on
  the signature of the finalized shader: its input is \<^verbatim>\<open>PL_SHADER_SIG_NONE\<close>, and for a
  raster pass its output is \<^verbatim>\<open>PL_SHADER_SIG_COLOR\<close>.
\<close>

definition generate_shaders ::
  "backend \<Rightarrow> pl_pass_params \<Rightarrow> pl_shader \<Rightarrow> pl_dispatch_vertex_params option \<Rightarrow>
   error option" where
  "generate_shaders be params sh vparams =
     (case glsl_stop be params sh vparams of
        Some e \<Rightarrow> Some e
      | None \<Rightarrow>
          if sh_input sh \<noteq> PL_SHADER_SIG_NONE then Some AssertionFailed
          else if pp_type params = PL_PASS_RASTER \<and> sh_output sh \<noteq> PL_SHADER_SIG_COLOR
          then Some AssertionFailed
          else None)"

text \<open>
  The construction of a record from the placement of the variables up to the label
  \<^verbatim>\<open>error\<close>, which every path that does not stop reaches: the record, the accumulator
  (which gets the UBO descriptor appended through \<^verbatim>\<open>sh_desc\<close>) and the events. The
  descriptor bindings are not modelled.
\<close>

definition construct_pass ::
  "backend \<Rightarrow> pl_shader \<Rightarrow> pass \<Rightarrow> pl_pass_params \<Rightarrow> pl_dispatch_vertex_params option \<Rightarrow>
   error + (pass \<times> pl_shader \<times> event list)" where
  "construct_pass be sh pass0 params0 vparams =
     (let vars0 = replicate (length (sh_vars sh))
                    \<lparr>pv_index = 0, pv_type = PASS_VAR_NONE,
                     pv_layout = \<lparr>lay_offset = 0, lay_stride = 0, lay_size = 0\<rparr>,
                     pv_cached_data = None\<rparr>
      in case place_vars be False (sh_vars sh) vars0 (ubo_desc pass0) params0 of
        (ok1, vars1, ud1, params1, ev1) \<Rightarrow>
          if \<not> ok1 then Inr (pass0\<lparr>vars := vars1, ubo_desc := ud1\<rparr>, sh, ev1)
          else
           (case place_vars be True (sh_vars sh) vars1 ud1 params1 of
              (ok2, vars2, ud2, params2, ev2) \<Rightarrow>
                let pass2 = pass0\<lparr>vars := vars2, ubo_desc := ud2\<rparr>;
                    ubo_size = sh_buf_desc_size be ud2
                in if \<not> ok2 then Inr (pass2, sh, ev1 @ ev2)
                   else if ubo_size \<noteq> 0 \<and> \<not> pl_buf_create be ubo_size
                   then Inr (pass2, sh,
                         ev1 @ ev2 @ [BufCreate ubo_size,
                           Log PL_LOG_ERR ''Failed creating uniform buffer for dispatch''])
                   else
                     let pass3 = (if ubo_size \<noteq> 0 then pass2\<lparr>ubo := Some ubo_size\<rparr> else pass2);
                         sh3 = (if ubo_size \<noteq> 0 then sh\<lparr>sh_num_descs := sh_num_descs sh + 1\<rparr>
                                else sh);
                         ev3 = ev1 @ ev2 @ (if ubo_size \<noteq> 0 then [BufCreate ubo_size] else []);
                         params3 = params2
                           \<lparr>pp_num_descriptors := sh_num_descs sh3,
                            pp_push_constants_size :=
                              PL_ALIGN2 (pp_push_constants_size params2) 4\<rparr>
                     in case generate_shaders be params3 sh3 vparams of
                          Some e \<Rightarrow> Inl e
                        | None \<Rightarrow>
                           (case pl_pass_create be params3 sh3 of
                              None \<Rightarrow>
                                Inr (pass3, sh3,
                                     ev3 @ [PassCreate (signature pass0) params3,
                                       Log PL_LOG_ERR ''Failed creating render pass for dispatch''])
                            | Some prog \<Rightarrow>
                                Inr (pass3\<lparr>pass := Some \<lparr>pass_params =
                                           params3\<lparr>pp_cached_program := prog\<rparr>\<rparr>\<rparr>,
                                     sh3, ev3 @ [PassCreate (signature pass0) params3]))))"

text \<open>
  The pass parameters as \<^verbatim>\<open>find_pass\<close> sets them up before the variables are placed,
  with the cached program \<open>prog\<close> found for the signature. For a raster pass
  \<^verbatim>\<open>assert(target)\<close> is kept, and the vertex stride is the sum of the texel sizes of the
  attributes unless the caller gives one.
\<close>

definition init_params ::
  "pl_shader \<Rightarrow> byte list \<Rightarrow> pl_tex option \<Rightarrow> pl_blend_params option \<Rightarrow> bool \<Rightarrow>
   pl_dispatch_vertex_params option \<Rightarrow> error + pl_pass_params" where
  "init_params sh prog target blend load vparams =
     (let params0 = \<lparr>pp_type = (if sh_is_compute sh then PL_PASS_COMPUTE
                                else PL_PASS_RASTER),
                     pp_target_format = 0, pp_blend_params = blend, pp_load_target = False,
                     pp_vertex_type = (case vparams of None \<Rightarrow> PL_PRIM_TRIANGLE_STRIP
                                       | Some vp \<Rightarrow> vp_vertex_type vp),
                     pp_vertex_stride = (case vparams of None \<Rightarrow> 0
                                         | Some vp \<Rightarrow> vp_vertex_stride vp),
                     pp_push_constants_size = 0, pp_variables = [],
                     pp_num_descriptors = sh_num_descs sh,
                     pp_cached_program = prog\<rparr>
      in if pp_type params0 = PL_PASS_RASTER
         then (case target of
                 None \<Rightarrow> Inl AssertionFailed
               | Some t \<Rightarrow>
                   Inr (params0\<lparr>pp_target_format := tex_format t, pp_load_target := load,
                          pp_vertex_stride :=
                            (case vparams of None \<Rightarrow> sum_list (sh_vas sh)
                             | Some vp \<Rightarrow> vp_vertex_stride vp)\<rparr>))
         else Inr params0)"

text \<open>
  The part of \<^verbatim>\<open>find_pass\<close> after an unsuccessful scan. The cached program with the
  signature, if any, is taken out of \<^verbatim>\<open>dp->cached_passes\<close>. After the label \<^verbatim>\<open>error\<close>
  the temporary descriptor is cleared, then \<^verbatim>\<open>garbage_collect_passes\<close> runs, then the
  record is appended. Where \<^verbatim>\<open>generate_shaders\<close> stops, nothing of this happens.
\<close>

definition new_pass ::
  "backend \<Rightarrow> pl_dispatch \<Rightarrow> pl_shader \<Rightarrow> u64 \<Rightarrow> pl_tex option \<Rightarrow> pl_blend_params option \<Rightarrow>
   bool \<Rightarrow> pl_dispatch_vertex_params option \<Rightarrow>
   error + (pl_dispatch \<times> nat \<times> pl_shader \<times> event list)" where
  "new_pass be dp sh sig target blend load vparams =
     (let pass0 = \<lparr>signature = sig, pass = None, last_index = uint (current_index dp),
                   vars = [], ubo = None, ubo_desc = []\<rparr>;
          found = take_cached sig (cached_passes dp);
          dp0 = dp\<lparr>cached_passes := snd found\<rparr>
      in bindE (init_params sh (fst found) target blend load vparams)
           (\<lambda>params1.
              bindE (construct_pass be sh pass0 params1 vparams)
                (\<lambda>(pass1, sh1, ev).
                   case garbage_collect_passes dp0 of
                     (dp1, evgc) \<Rightarrow>
                       Inr (dp1\<lparr>passes := passes dp1 @ [pass1\<lparr>ubo_desc := []\<rparr>]\<rparr>,
                            length (passes dp1), sh1, ev @ evgc))))"

text \<open>
  \<^verbatim>\<open>find_pass\<close> returns the dispatch object, the index in \<^verbatim>\<open>dp->passes\<close> of the record
  whose address the C function returns, the accumulator and the events.
\<close>

definition find_pass ::
  "backend \<Rightarrow> pl_dispatch \<Rightarrow> pl_shader \<Rightarrow> pl_tex option \<Rightarrow> pl_blend_params option \<Rightarrow>
   bool \<Rightarrow> pl_dispatch_vertex_params option \<Rightarrow>
   error + (pl_dispatch \<times> nat \<times> pl_shader \<times> event list)" where
  "find_pass be dp sh target blend load vparams =
     (let sig = pl_shader_signature be sh
      in bindE (lookup_pass be sh sig target blend load vparams (passes dp) 0)
           (\<lambda>hit. case hit of
                     Some i \<Rightarrow>
                       Inr (dp\<lparr>passes := (passes dp)
                                  [i := (passes dp ! i)\<lparr>last_index := uint (current_index dp)\<rparr>]\<rparr>,
                            i, sh, [])
                   | None \<Rightarrow> new_pass be dp sh sig target blend load vparams))"

subsection \<open>Updating the variables and running the pass\<close>

text \<open>
  \<^verbatim>\<open>update_pass_var\<close>. The cache holds the first \<^verbatim>\<open>host_layout.size\<close> bytes of the value
  last written. An unplaced variable reaches \<^verbatim>\<open>abort()\<close>. The loop that assembles a
  strided UBO write steps by the host stride and does not end when that is 0, which the
  model reports as \<open>Aborted\<close> as well; the bytes written to the buffer and to the
  push-constant block are not modelled, only the calls.
\<close>

definition update_pass_var ::
  "backend \<Rightarrow> pass \<Rightarrow> pl_shader_var \<Rightarrow> pass_var \<Rightarrow> error + (pass_var \<times> event list)" where
  "update_pass_var be p sv pv =
     (let host_layout = pl_var_host_layout be 0 (sv_var sv);
          cur = take (lay_size host_layout) (sv_data sv);
          pv' = pv\<lparr>pv_cached_data := Some cur\<rparr>
      in if lay_size host_layout = 0 then Inl AssertionFailed
         else if pv_cached_data pv = Some cur then Inr (pv, [])
         else
           case pv_type pv of
             PASS_VAR_NONE \<Rightarrow> Inl Aborted
           | PASS_VAR_GLOBAL \<Rightarrow> Inr (pv', [VarUpdate (pv_index pv) (sv_data sv)])
           | PASS_VAR_UBO \<Rightarrow>
               if ubo p = None then Inl AssertionFailed
               else if lay_stride host_layout = lay_stride (pv_layout pv)
               then (if lay_size host_layout = lay_size (pv_layout pv)
                     then Inr (pv', [BufWrite (lay_offset (pv_layout pv)) (lay_size host_layout)])
                     else Inl AssertionFailed)
               else if lay_stride host_layout = 0 then Inl Aborted
               else Inr (pv', [BufWrite (lay_offset (pv_layout pv)) (lay_size (pv_layout pv))])
           | PASS_VAR_PUSHC \<Rightarrow> Inr (pv', [PushcWrite (pv_layout pv)]))"

text \<open>
  The loop \<^verbatim>\<open>for (i < sh->vars.num) update_pass_var(..., &sh->vars.elem[i], &pass->vars[i])\<close>.
  A record with fewer variables than the accumulator is read outside its array.
\<close>

fun update_vars ::
  "backend \<Rightarrow> pass \<Rightarrow> pl_shader_var list \<Rightarrow> pass_var list \<Rightarrow>
   error + (pass_var list \<times> event list)" where
  "update_vars be p [] pvs = Inr (pvs, [])"
| "update_vars be p (sv # svs) [] = Inl OutOfBounds"
| "update_vars be p (sv # svs) (pv # pvs) =
     bindE (update_pass_var be p sv pv) (\<lambda>(pv', ev).
     bindE (update_vars be p svs pvs) (\<lambda>(pvs', ev').
     Inr (pv' # pvs', ev @ ev')))"

text \<open>
  What the three entry points have in common from their call of \<^verbatim>\<open>find_pass\<close> to the
  label \<^verbatim>\<open>error\<close>: a record without a pass ends the call with \<^verbatim>\<open>false\<close>; otherwise the
  variables are updated and the pass is run. \<open>groups_ok\<close> is the \<^verbatim>\<open>pl_assert\<close> that
  \<^verbatim>\<open>pl_dispatch_compute\<close> makes before the run. The result is the returned boolean, the
  dispatch object, the accumulator and the events. The contents of the run parameters
  (bindings, vertex data, group counts, scissors, target, timer) are not modelled.
\<close>

definition dispatch_pass ::
  "backend \<Rightarrow> pl_dispatch \<Rightarrow> pl_shader \<Rightarrow> pl_tex option \<Rightarrow> pl_blend_params option \<Rightarrow>
   bool \<Rightarrow> pl_dispatch_vertex_params option \<Rightarrow> bool \<Rightarrow>
   error + (bool \<times> pl_dispatch \<times> pl_shader \<times> event list)" where
  "dispatch_pass be dp sh target blend load vparams groups_ok =
     bindE (find_pass be dp sh target blend load vparams) (\<lambda>(dp1, i, sh1, ev).
       let p = passes dp1 ! i
       in if pass p = None then Inr (False, dp1, sh1, ev)
          else
            bindE (update_vars be p (sh_vars sh1) (vars p)) (\<lambda>(pvs, ev').
              if \<not> groups_ok then Inl AssertionFailed
              else Inr (True, dp1\<lparr>passes := (passes dp1)[i := p\<lparr>vars := pvs\<rparr>]\<rparr>, sh1,
                        ev @ ev' @ [PassRun i])))"

subsection \<open>The dispatch entry points\<close>

record pl_dispatch_params =
  dp_shader :: "pl_shader option"
  dp_target :: pl_tex
  dp_rect :: pl_rect2d
  dp_blend_params :: "pl_blend_params option"

record pl_dispatch_compute_params =
  cp_shader :: "pl_shader option"
  cp_dispatch_size :: "int \<times> int \<times> int"
  cp_width :: int
  cp_height :: int

definition pl_rect_w :: "pl_rect2d \<Rightarrow> int" where
  "pl_rect_w rc = x1 rc - x0 rc"

definition pl_rect_h :: "pl_rect2d \<Rightarrow> int" where
  "pl_rect_h rc = y1 rc - y0 rc"

text \<open>
  The rectangle after \<^verbatim>\<open>pl_rect2d_normalize\<close>, which orders the corners, and the clipping
  to the target, as computed for \<^verbatim>\<open>load\<close> in \<^verbatim>\<open>pl_dispatch_finish\<close>.
\<close>

definition rc_norm :: "pl_rect2d \<Rightarrow> pl_tex \<Rightarrow> pl_rect2d" where
  "rc_norm rc t =
     \<lparr>x0 = max (min (x0 rc) (x1 rc)) 0, y0 = max (min (y0 rc) (y1 rc)) 0,
      x1 = min (max (x0 rc) (x1 rc)) (tex_w t), y1 = min (max (y0 rc) (y1 rc)) (tex_h t)\<rparr>"

text \<open>
  The body of \<^verbatim>\<open>pl_dispatch_finish\<close> for a non-null shader, up to the label \<^verbatim>\<open>error\<close>.
  Every \<^verbatim>\<open>goto error\<close> leaves with \<^verbatim>\<open>ret = false\<close>.
\<close>

definition finish_body ::
  "backend \<Rightarrow> pl_dispatch \<Rightarrow> pl_shader \<Rightarrow> pl_dispatch_params \<Rightarrow>
   error + (bool \<times> pl_dispatch \<times> pl_shader \<times> event list)" where
  "finish_body be dp sh params =
     (let t = dp_target params in
      if sh_failed sh
      then Inr (False, dp, sh, [Log PL_LOG_ERR ''Trying to dispatch a failed shader.''])
      else if \<not> sh_mutable sh
      then Inr (False, dp, sh, [Log PL_LOG_ERR ''Trying to dispatch non-mutable shader?''])
      else if sh_input sh \<noteq> PL_SHADER_SIG_NONE \<or> sh_output sh \<noteq> PL_SHADER_SIG_COLOR
      then Inr (False, dp, sh,
                [Log PL_LOG_ERR ''Trying to dispatch shader with incompatible signature!''])
      else if tex_dimension t \<noteq> 2 \<or> \<not> tex_renderable t
      then Inr (False, dp, sh,
                [Log PL_LOG_ERR ''Trying to dispatch a shader using an invalid target texture.''])
      else if sh_is_compute sh \<and> \<not> tex_storable t
      then Inr (False, dp, sh,
                [Log PL_LOG_ERR ''Trying to dispatch using a compute shader with a non-storable target texture.''])
      else
        let sh1 = (if tex_storable t \<and> gpu_parallel_compute be then sh_try_compute be sh
                   else sh);
            rc0 = dp_rect params;
            rc1 = (if pl_rect_w rc0 = 0 then rc0\<lparr>x0 := 0, x1 := tex_w t\<rparr> else rc0);
            rc = (if pl_rect_h rc1 = 0 then rc1\<lparr>y0 := 0, y1 := tex_h t\<rparr> else rc1);
            tw = \<bar>pl_rect_w rc\<bar>;
            th = \<bar>pl_rect_h rc\<bar>
        in if (case pl_shader_output_size be sh1 of
                 None \<Rightarrow> False
               | Some (w, h) \<Rightarrow> w \<noteq> tw \<or> h \<noteq> th)
           then Inr (False, dp, sh1,
                     [Log PL_LOG_ERR ''Trying to dispatch a shader with explicit output size requirements.''])
           else
             let sh2 = (if sh_is_compute sh1
                        then translate_compute_shader be sh1 rc (dp_blend_params params \<noteq> None)
                        else sh_attr_vec2 be sh1 rc t);
                 full = \<lparr>x0 = 0, y0 = 0, x1 = tex_w t, y1 = tex_h t\<rparr>;
                 load = (dp_blend_params params \<noteq> None \<or> rc_norm rc t \<noteq> full)
             in dispatch_pass be dp sh2 (Some t) (dp_blend_params params) load None True)"

text \<open>
  An entry point reads \<^verbatim>\<open>*params->shader\<close> and dereferences it at once. Its result is the
  returned boolean, the dispatch object, the caller's handle and the events. After the
  label \<^verbatim>\<open>error\<close> the scratch buffers are reset and \<^verbatim>\<open>pl_dispatch_abort\<close> is called on
  the handle.
\<close>

definition pl_dispatch_finish ::
  "backend \<Rightarrow> pl_dispatch \<Rightarrow> pl_dispatch_params \<Rightarrow>
   error + (bool \<times> pl_dispatch \<times> pl_shader option \<times> event list)" where
  "pl_dispatch_finish be dp params =
     (case dp_shader params of
        None \<Rightarrow> Inl NullPointer
      | Some sh \<Rightarrow>
          bindE (finish_body be dp sh params) (\<lambda>(ret, dp1, sh1, ev).
            case pl_dispatch_abort dp1 (Some sh1) of
              (dp2, psh) \<Rightarrow> Inr (ret, dp2, psh, ev)))"

text \<open>
  \<^verbatim>\<open>pl_dispatch_compute\<close> multiplies the three dispatch sizes into \<^verbatim>\<open>int groups\<close>, one
  after the other. Where a product leaves the range of \<^verbatim>\<open>int\<close>, which C leaves
  undefined, the model wraps it around to 32 bits in two's complement, so that
  \<^verbatim>\<open>groups\<close> can be 0 with no size being 0; the assertion on the width and the height is
  then made as well.
\<close>

definition int_mul :: "int \<Rightarrow> int \<Rightarrow> int" where
  "int_mul x y = sint (word_of_int (x * y) :: 32 word)"

definition compute_body ::
  "backend \<Rightarrow> pl_dispatch \<Rightarrow> pl_shader \<Rightarrow> pl_dispatch_compute_params \<Rightarrow>
   error + (bool \<times> pl_dispatch \<times> pl_shader \<times> event list)" where
  "compute_body be dp sh params =
     (if sh_failed sh
      then Inr (False, dp, sh, [Log PL_LOG_ERR ''Trying to dispatch a failed shader.''])
      else if \<not> sh_mutable sh
      then Inr (False, dp, sh, [Log PL_LOG_ERR ''Trying to dispatch non-mutable shader?''])
      else if sh_input sh \<noteq> PL_SHADER_SIG_NONE
      then Inr (False, dp, sh,
                [Log PL_LOG_ERR ''Trying to dispatch shader with incompatible signature!''])
      else if \<not> sh_is_compute sh
      then Inr (False, dp, sh,
                [Log PL_LOG_ERR ''Trying to dispatch a non-compute shader using `pl_dispatch_compute`!''])
      else if sh_vas sh \<noteq> [] \<and> (cp_width params = 0 \<or> cp_height params = 0)
      then Inr (False, dp, sh,
                [Log PL_LOG_ERR ''Trying to dispatch a targetless compute shader that uses vertex attributes.''])
      else
        let sh1 = (if sh_vas sh \<noteq> []
                   then compute_vertex_attribs be sh (cp_width params) (cp_height params)
                   else sh);
            groups = (case cp_dispatch_size params of
                        (a, b, c) \<Rightarrow> int_mul (int_mul (int_mul 1 a) b) c)
        in dispatch_pass be dp sh1 None None False None
             (groups \<noteq> 0 \<or> (cp_width params \<noteq> 0 \<and> cp_height params \<noteq> 0)))"

definition pl_dispatch_compute ::
  "backend \<Rightarrow> pl_dispatch \<Rightarrow> pl_dispatch_compute_params \<Rightarrow>
   error + (bool \<times> pl_dispatch \<times> pl_shader option \<times> event list)" where
  "pl_dispatch_compute be dp params =
     (case cp_shader params of
        None \<Rightarrow> Inl NullPointer
      | Some sh \<Rightarrow>
          bindE (compute_body be dp sh params) (\<lambda>(ret, dp1, sh1, ev).
            case pl_dispatch_abort dp1 (Some sh1) of
              (dp2, psh) \<Rightarrow> Inr (ret, dp2, psh, ev)))"

text \<open>
  \<^verbatim>\<open>pl_dispatch_vertex\<close> attaches the caller's vertex attributes to the accumulator and
  may add the projection matrix as a variable, which \<open>sh_var_proj\<close> stands for.
\<close>

definition vertex_body ::
  "backend \<Rightarrow> pl_dispatch \<Rightarrow> pl_shader \<Rightarrow> pl_dispatch_vertex_params \<Rightarrow>
   error + (bool \<times> pl_dispatch \<times> pl_shader \<times> event list)" where
  "vertex_body be dp sh params =
     (let t = vp_target params in
      if sh_failed sh
      then Inr (False, dp, sh, [Log PL_LOG_ERR ''Trying to dispatch a failed shader.''])
      else if \<not> sh_mutable sh
      then Inr (False, dp, sh, [Log PL_LOG_ERR ''Trying to dispatch non-mutable shader?''])
      else if sh_input sh \<noteq> PL_SHADER_SIG_NONE \<or> sh_output sh \<noteq> PL_SHADER_SIG_COLOR
      then Inr (False, dp, sh,
                [Log PL_LOG_ERR ''Trying to dispatch shader with incompatible signature!''])
      else if tex_dimension t \<noteq> 2 \<or> \<not> tex_renderable t
      then Inr (False, dp, sh,
                [Log PL_LOG_ERR ''Trying to dispatch a shader using an invalid target texture.''])
      else if sh_is_compute sh
      then Inr (False, dp, sh,
                [Log PL_LOG_ERR ''Trying to dispatch a compute shader using pl_dispatch_vertex.''])
      else if sh_vas sh \<noteq> []
      then Inr (False, dp, sh,
                [Log PL_LOG_ERR ''Trying to dispatch a custom vertex shader with already attached vertex attributes.''])
      else if vp_vertex_position_idx params < 0 \<or>
              vp_vertex_position_idx params \<ge> int (length (vp_vertex_attribs params))
      then Inr (False, dp, sh, [Log PL_LOG_ERR ''Vertex position index out of range?''])
      else
        let sh1 = sh_var_proj be (sh\<lparr>sh_vas := vp_vertex_attribs params\<rparr>) params
        in dispatch_pass be dp sh1 (Some t) (vp_blend_params params) True (Some params) True)"

definition pl_dispatch_vertex ::
  "backend \<Rightarrow> pl_dispatch \<Rightarrow> pl_dispatch_vertex_params \<Rightarrow>
   error + (bool \<times> pl_dispatch \<times> pl_shader option \<times> event list)" where
  "pl_dispatch_vertex be dp params =
     (case vp_shader params of
        None \<Rightarrow> Inl NullPointer
      | Some sh \<Rightarrow>
          bindE (vertex_body be dp sh params) (\<lambda>(ret, dp1, sh1, ev).
            case pl_dispatch_abort dp1 (Some sh1) of
              (dp2, psh) \<Rightarrow> Inr (ret, dp2, psh, ev)))"

subsection \<open>Sequences of calls\<close>


text \<open>
  A sequence of calls on one dispatch object: frame boundaries and compute dispatches
  of the given accumulators with one work group. The events of all calls are collected.
\<close>

datatype call = ResetFrame | Compute pl_shader

fun run_calls :: "backend \<Rightarrow> pl_dispatch \<Rightarrow> call list \<Rightarrow> error + (pl_dispatch \<times> event list)" where
  "run_calls be dp [] = Inr (dp, [])"
| "run_calls be dp (ResetFrame # cs) = run_calls be (pl_dispatch_reset_frame dp) cs"
| "run_calls be dp (Compute sh # cs) =
     bindE (pl_dispatch_compute be dp
              \<lparr>cp_shader = Some sh, cp_dispatch_size = (1, 1, 1), cp_width = 0, cp_height = 0\<rparr>)
       (\<lambda>(ret, dp1, psh, ev).
          bindE (run_calls be dp1 cs) (\<lambda>(dp2, ev'). Inr (dp2, ev @ ev')))"

text \<open>
  A sequence of calls of the functions of \<^verbatim>\<open>dispatch.c\<close> that change the dispatch object,
  with any arguments, on one dispatch object: the object after the last call and the
  events of all calls. The accumulators handed to the entry points are given with the
  calls.
\<close>

datatype api_call =
    ApiResetFrame
  | ApiBegin bool
  | ApiAbort "pl_shader option"
  | ApiLoad "byte list"
  | ApiFinish pl_dispatch_params
  | ApiCompute pl_dispatch_compute_params
  | ApiVertex pl_dispatch_vertex_params

fun run_api :: "backend \<Rightarrow> pl_dispatch \<Rightarrow> api_call list \<Rightarrow> error + (pl_dispatch \<times> event list)" where
  "run_api be dp [] = Inr (dp, [])"
| "run_api be dp (ApiResetFrame # cs) = run_api be (pl_dispatch_reset_frame dp) cs"
| "run_api be dp (ApiBegin unique # cs) = run_api be (snd (pl_dispatch_begin_ex dp unique)) cs"
| "run_api be dp (ApiAbort psh # cs) = run_api be (fst (pl_dispatch_abort dp psh)) cs"
| "run_api be dp (ApiLoad cache # cs) =
     bindE (pl_dispatch_load dp cache) (\<lambda>(dp1, ev).
       bindE (run_api be dp1 cs) (\<lambda>(dp2, ev'). Inr (dp2, ev @ ev')))"
| "run_api be dp (ApiFinish params # cs) =
     bindE (pl_dispatch_finish be dp params) (\<lambda>(ret, dp1, psh, ev).
       bindE (run_api be dp1 cs) (\<lambda>(dp2, ev'). Inr (dp2, ev @ ev')))"
| "run_api be dp (ApiCompute params # cs) =
     bindE (pl_dispatch_compute be dp params) (\<lambda>(ret, dp1, psh, ev).
       bindE (run_api be dp1 cs) (\<lambda>(dp2, ev'). Inr (dp2, ev @ ev')))"
| "run_api be dp (ApiVertex params # cs) =
     bindE (pl_dispatch_vertex be dp params) (\<lambda>(ret, dp1, psh, ev).
       bindE (run_api be dp1 cs) (\<lambda>(dp2, ev'). Inr (dp2, ev @ ev')))"

subsection \<open>The cache format as specified\<close>







subsection \<open>Placement of a record\<close>

text \<open>
  A record is placed when, if it has a pass, every entry of \<^verbatim>\<open>pass->vars\<close> has a placement
  and the push-constant size of the pass is a multiple of 4 within the budget
  \<^verbatim>\<open>gpu->limits.max_pushc_size\<close>.
\<close>

definition pass_placed :: "backend \<Rightarrow> pass \<Rightarrow> bool" where
  "pass_placed be p =
     (case pass p of
        None \<Rightarrow> True
      | Some pp \<Rightarrow>
          (\<forall>pv \<in> set (vars p). pv_type pv \<noteq> PASS_VAR_NONE) \<and>
          4 dvd pp_push_constants_size (pass_params pp) \<and>
          pp_push_constants_size (pass_params pp) \<le> max_pushc_size be)"

text \<open>
  What is assumed of the GPU and of \<^verbatim>\<open>pl_std430_layout\<close>, which \<^verbatim>\<open>gpu.c\<close> defines: the
  push-constant budget is a multiple of 4, or every std430 layout ends on a multiple of 4
  (all GLSL scalars have four bytes).
\<close>

definition pushc_aligned :: "backend \<Rightarrow> bool" where
  "pushc_aligned be =
     (4 dvd max_pushc_size be \<or>
      (\<forall>off v. 4 dvd lay_offset (pl_std430_layout be off v) +
                      lay_size (pl_std430_layout be off v)))"

text \<open>The push-constant size while the variables are being placed.\<close>

definition pushc_ok :: "backend \<Rightarrow> nat \<Rightarrow> bool" where
  "pushc_ok be s = (s \<le> max_pushc_size be \<and> (4 dvd max_pushc_size be \<or> 4 dvd s))"

subsection \<open>Records of a failed pass\<close>

text \<open>
  The records with signature \<open>s\<close> are sentinels: there is a record with that signature,
  and every record with that signature has a null pass. This is the state that a first
  \<^verbatim>\<open>pl_pass_create\<close> for \<open>s\<close> that failed leaves behind.
\<close>

definition sentinel_only :: "u64 \<Rightarrow> pl_dispatch \<Rightarrow> bool" where
  "sentinel_only s dp =
     ((\<exists>p \<in> set (passes dp). signature p = s) \<and>
      (\<forall>p \<in> set (passes dp). signature p = s \<longrightarrow> pass p = None))"

subsection \<open>Example states\<close>

text \<open>
  Parameters of a compute pass with the given program, a record with such a pass, and a
  record whose pass could not be created.
\<close>

definition example_params :: "byte list \<Rightarrow> pl_pass_params" where
  "example_params prog =
     \<lparr>pp_type = PL_PASS_COMPUTE, pp_target_format = 0, pp_blend_params = None,
      pp_load_target = False, pp_vertex_type = PL_PRIM_TRIANGLE_STRIP, pp_vertex_stride = 0,
      pp_push_constants_size = 0, pp_variables = [], pp_num_descriptors = 0,
      pp_cached_program = prog\<rparr>"

definition live_pass :: "u64 \<Rightarrow> int \<Rightarrow> byte list \<Rightarrow> pass" where
  "live_pass sig idx prog =
     \<lparr>signature = sig, pass = Some \<lparr>pass_params = example_params prog\<rparr>, last_index = idx,
      vars = [], ubo = None, ubo_desc = []\<rparr>"

definition failed_pass :: "u64 \<Rightarrow> int \<Rightarrow> pass" where
  "failed_pass sig idx =
     \<lparr>signature = sig, pass = None, last_index = idx, vars = [], ubo = None, ubo_desc = []\<rparr>"

text \<open>
  A cache blob with two entries: signature \<open>0xA1\<close> with the program \<open>[0x11]\<close>, and
  signature \<open>0xB2\<close> with the program \<open>[0x00]\<close>.
\<close>

definition skip_blob :: "byte list" where
  "skip_blob =
     [0x50, 0x4C, 0x44, 0x50,  1, 0, 0, 0,  2, 0, 0, 0,
      0xA1, 0, 0, 0, 0, 0, 0, 0,  1, 0, 0, 0, 0, 0, 0, 0,  0x11,
      0xB2, 0, 0, 0, 0, 0, 0, 0,  1, 0, 0, 0, 0, 0, 0, 0,  0x00]"



text \<open>A dispatch object with two compiled passes and one cached program.\<close>

definition warm_dispatch :: pl_dispatch where
  "warm_dispatch =
     pl_dispatch_create
       \<lparr>passes := [live_pass 5 0 [1], live_pass 7 0 [2, 3]],
        cached_passes := [\<lparr>cp_signature = 9, cached_program = [4]\<rparr>]\<rparr>"

text \<open>
  A backend for the examples: a Vulkan-like GPU with 128 bytes of push constants. The
  signature of an accumulator is its number of descriptors, every variable takes four
  bytes in every layout, uniform buffers hold up to 64 bytes, the shader text is
  generated for every accumulator, and a pass is created unless the accumulator has
  exactly 13 descriptors.
\<close>

definition example_backend :: backend where
  "example_backend =
     \<lparr>gpu_input_variables = True, gpu_parallel_compute = False, glsl_vulkan = True,
      glsl_version = 450, max_pushc_size = 128, max_ubo_size = 64,
      pl_shader_signature = (\<lambda>sh. word_of_nat (sh_num_descs sh)),
      pl_shader_output_size = (\<lambda>sh. None),
      pl_std430_layout = (\<lambda>off v. \<lparr>lay_offset = off, lay_stride = 4, lay_size = 4\<rparr>),
      pl_var_host_layout = (\<lambda>off v. \<lparr>lay_offset = off, lay_stride = 4, lay_size = 4\<rparr>),
      sh_buf_desc_append =
        (\<lambda>ud v. if 4 * length ud + 4 \<le> 64
                 then Some (ud @ [(v, \<lparr>lay_offset = 4 * length ud, lay_stride = 4, lay_size = 4\<rparr>)],
                            \<lparr>lay_offset = 4 * length ud, lay_stride = 4, lay_size = 4\<rparr>)
                 else None),
      sh_buf_desc_size = (\<lambda>ud. 4 * length ud),
      pl_buf_create = (\<lambda>n. True),
      pl_pass_create = (\<lambda>params sh. if sh_num_descs sh = 13 then None else Some [0x2A]),
      sh_try_compute = (\<lambda>sh. sh),
      translate_compute_shader =
        (\<lambda>sh rc blend. sh\<lparr>sh_num_descs := sh_num_descs sh + 1, sh_output := PL_SHADER_SIG_NONE\<rparr>),
      sh_attr_vec2 = (\<lambda>sh rc t. sh\<lparr>sh_vas := sh_vas sh @ [8]\<rparr>),
      compute_vertex_attribs = (\<lambda>sh w h. sh),
      sh_var_proj = (\<lambda>sh params. sh),
      glsl_stop = (\<lambda>params sh vparams. None)\<rparr>"

text \<open>A compute shader with \<open>n\<close> descriptors and no variables, as a shader builder leaves it.\<close>

definition compute_shader :: "nat \<Rightarrow> pl_shader" where
  "compute_shader n =
     (pl_shader_alloc \<lparr>sp_id = 0, sp_index = 0\<rparr>)\<lparr>sh_is_compute := True, sh_num_descs := n\<rparr>"

text \<open>Five records last used in frame 0, in frame 20, with room for four.\<close>

definition five_old :: pl_dispatch where
  "five_old =
     pl_dispatch_create
       \<lparr>current_index := 20, max_passes := 4,
        passes := [live_pass 1 0 [1], live_pass 2 0 [1], live_pass 3 0 [1], live_pass 4 0 [1],
                   live_pass 5 0 [1]]\<rparr>"

text \<open>The same with the fifth record used in the current frame.\<close>

definition four_old :: pl_dispatch where
  "four_old =
     pl_dispatch_create
       \<lparr>current_index := 20, max_passes := 4,
        passes := [live_pass 1 0 [1], live_pass 2 0 [1], live_pass 3 0 [1], live_pass 4 0 [1],
                   live_pass 5 20 [1]]\<rparr>"

text \<open>
  The parameters handed to \<^verbatim>\<open>pl_pass_create\<close> for \<open>compute_shader n\<close>, the record that
  \<^verbatim>\<open>find_pass\<close> appends when the pass is created in frame \<open>idx\<close>, and the call that
  dispatches the shader.
\<close>

definition compute_params :: "nat \<Rightarrow> pl_pass_params" where
  "compute_params n = (example_params [])\<lparr>pp_num_descriptors := n\<rparr>"

definition compute_record :: "nat \<Rightarrow> int \<Rightarrow> pass" where
  "compute_record n idx =
     \<lparr>signature = word_of_nat n,
      pass = Some \<lparr>pass_params = (compute_params n)\<lparr>pp_cached_program := [0x2A]\<rparr>\<rparr>,
      last_index = idx, vars = [], ubo = None, ubo_desc = []\<rparr>"

definition compute_call :: "nat \<Rightarrow> pl_dispatch_compute_params" where
  "compute_call n =
     \<lparr>cp_shader = Some (compute_shader n), cp_dispatch_size = (1, 1, 1),
      cp_width = 0, cp_height = 0\<rparr>"

text \<open>
  A compute shader with two variables, a vector and a 3x3 matrix, and the call that
  dispatches it.
\<close>

definition var_shader :: pl_shader where
  "var_shader =
     (compute_shader 2)
       \<lparr>sh_vars :=
          [\<lparr>sv_var = \<lparr>var_name = ''tint'', dim_v = 4, dim_m = 1, dim_a = 1\<rparr>,
            sv_data = [1, 2, 3, 4], sv_dynamic = False\<rparr>,
           \<lparr>sv_var = \<lparr>var_name = ''proj'', dim_v = 3, dim_m = 3, dim_a = 1\<rparr>,
            sv_data = [5, 6, 7, 8], sv_dynamic = False\<rparr>]\<rparr>"

definition var_call :: pl_dispatch_compute_params where
  "var_call =
     \<lparr>cp_shader = Some var_shader, cp_dispatch_size = (1, 1, 1), cp_width = 0, cp_height = 0\<rparr>"

text \<open>A renderable 2D target of 64 by 64 texels, and a fragment shader for it.\<close>

definition example_tex :: pl_tex where
  "example_tex =
     \<lparr>tex_w = 64, tex_h = 64, tex_dimension = 2, tex_format = 7, tex_renderable = True,
      tex_storable = False\<rparr>"

definition fragment_shader :: pl_shader where
  "fragment_shader =
     (pl_shader_alloc \<lparr>sp_id = 0, sp_index = 0\<rparr>)\<lparr>sh_output := PL_SHADER_SIG_COLOR\<rparr>"

text \<open>
  The parameters handed to \<^verbatim>\<open>pl_pass_create\<close> for \<open>var_shader\<close> and the record after
  its first dispatch: both variables are push constants.
\<close>

definition var_params :: pl_pass_params where
  "var_params = (example_params [])\<lparr>pp_num_descriptors := 2, pp_push_constants_size := 8\<rparr>"

definition var_record :: pass where
  "var_record =
     \<lparr>signature = 2,
      pass = Some \<lparr>pass_params = var_params\<lparr>pp_cached_program := [0x2A]\<rparr>\<rparr>,
      last_index = 0,
      vars = [\<lparr>pv_index = 0, pv_type = PASS_VAR_PUSHC,
               pv_layout = \<lparr>lay_offset = 0, lay_stride = 4, lay_size = 4\<rparr>,
               pv_cached_data = Some [1, 2, 3, 4]\<rparr>,
              \<lparr>pv_index = 0, pv_type = PASS_VAR_PUSHC,
               pv_layout = \<lparr>lay_offset = 4, lay_stride = 4, lay_size = 4\<rparr>,
               pv_cached_data = Some [5, 6, 7, 8]\<rparr>],
      ubo = None, ubo_desc = []\<rparr>"

text \<open>
  A raster dispatch of a shader that has failed, and a vertex dispatch whose position
  index is outside the two attributes given.
\<close>

definition failed_call :: pl_dispatch_params where
  "failed_call =
     \<lparr>dp_shader = Some (fragment_shader\<lparr>sh_failed := True\<rparr>), dp_target = example_tex,
      dp_rect = \<lparr>x0 = 0, y0 = 0, x1 = 0, y1 = 0\<rparr>, dp_blend_params = None\<rparr>"

definition bad_index_call :: pl_dispatch_vertex_params where
  "bad_index_call =
     \<lparr>vp_shader = Some fragment_shader, vp_target = example_tex, vp_blend_params = None,
      vp_vertex_attribs = [8, 16], vp_vertex_position_idx = 2,
      vp_vertex_type = PL_PRIM_TRIANGLE_LIST, vp_vertex_stride = 24\<rparr>"

section \<open>Properties\<close>

subsection \<open>Evaluation rules\<close>

lemma bindE_Inl: "bindE (Inl e) f = Inl e"
  by (simp add: bindE_def)

lemma bindE_Inr: "bindE (Inr x) f = f x"
  by (simp add: bindE_def)

lemma le_bytes_step:
  "0 < n \<Longrightarrow> le_bytes n v = word_of_nat (v mod 256) # le_bytes (n - 1) (v div 256)"
  by (cases n) simp_all

lemma load_entries_step:
  "0 < k \<Longrightarrow> load_entries k dp cache =
     bindE (load_uint 8 cache) (\<lambda>(sg, c1).
     bindE (load_uint 8 c1) (\<lambda>(sz, c2).
     if sz = 0 then load_entries (k - 1) dp c2
     else
       bindE (skip_compiled (passes dp) (word_of_nat sg) sz c2) (\<lambda>c3.
       bindE (load_bytes sz c3) (\<lambda>(prog, c4).
       load_entries (k - 1)
         (dp\<lparr>cached_passes := store_cached (word_of_nat sg) prog (cached_passes dp)\<rparr>) c4))))"
  by (cases k) (simp_all cong: if_cong)

lemmas load_defs = pl_dispatch_load_def load_bytes_def load_uint_def bindE_def cache_magic_def
  cache_version_def pl_dispatch_create_def MAX_PASSES_def load_entries_step

lemmas save_defs = pl_dispatch_save_def write_buf_def write_u32_def write_u64_def
  write_entry_def bindE_def cache_magic_def cache_version_def pl_dispatch_create_def
  MAX_PASSES_def le_bytes_step

lemma int_mul_1_1: "int_mul 1 1 = 1"
  by (simp add: int_mul_def)

subsection \<open>The binary cache\<close>


















text \<open>
  C1: the claim describes what the comment in the source announces, and the code does
  something else. With a compiled pass of signature \<open>0xA1\<close>, the entry for \<open>0xA1\<close> of
  \<open>skip_blob\<close> is not skipped: after the cursor has moved past its program once, the
  entry is stored as a cached program with the byte that follows (the first byte of the
  next entry), the cursor moves on a second time, and the entry for \<open>0xB2\<close> is lost.
\<close>

theorem load_compiled_signature_not_skipped:
  "pl_dispatch_load (pl_dispatch_create\<lparr>passes := [live_pass 0xA1 0 [7]]\<rparr>) skip_blob =
   Inr (pl_dispatch_create\<lparr>passes := [live_pass 0xA1 0 [7]],
          cached_passes := [\<lparr>cp_signature = 0xA1, cached_program = [0xB2]\<rparr>]\<rparr>, [])"
  by (simp add: load_defs skip_blob_def live_pass_def)

text \<open>
  C2: the count written is the number of records plus the number of cached programs,
  also when a record is passed over by the first loop. For one record whose pass could
  not be created the blob announces one entry and contains none.
\<close>

theorem save_counts_unsaved_record:
  "pl_dispatch_save (pl_dispatch_create\<lparr>passes := [failed_pass 5 0]\<rparr>) =
   Inr [0x50, 0x4C, 0x44, 0x50,  1, 0, 0, 0,  1, 0, 0, 0]"
  by (simp add: save_defs failed_pass_def)

text \<open>
  C8, as the claim states it, fails on the kind of message: a blob with the magic
  \<^verbatim>\<open>PLDX\<close> leaves the dispatch object unchanged, but what is logged is an error
  (\<^verbatim>\<open>PL_ERR\<close>), not a warning.
\<close>

theorem load_bad_magic_counterexample:
  "pl_dispatch_load pl_dispatch_create [0x50, 0x4C, 0x44, 0x58, 1, 0, 0, 0, 0, 0, 0, 0] =
   Inr (pl_dispatch_create,
        [Log PL_LOG_ERR ''Failed loading dispatch cache: invalid magic bytes''])"
  by (simp add: load_defs)

text \<open>
  C8 (amended): \<^verbatim>\<open>pl_dispatch_load\<close> on a blob whose first four bytes are not the magic
  returns the dispatch object unchanged and logs one message at error level; on a blob
  with the right magic whose version field is not 1 it returns the dispatch object
  unchanged and logs one warning. In both cases the function returns normally.
\<close>

theorem load_header_mismatch:
  "(4 \<le> length cache \<and> take 4 cache \<noteq> cache_magic \<longrightarrow>
      pl_dispatch_load dp cache =
        Inr (dp, [Log PL_LOG_ERR ''Failed loading dispatch cache: invalid magic bytes''])) \<and>
   (8 \<le> length cache \<and> take 4 cache = cache_magic \<and>
      le_value (take 4 (drop 4 cache)) \<noteq> unat cache_version \<longrightarrow>
      pl_dispatch_load dp cache =
        Inr (dp, [Log PL_LOG_WARN ''Failed loading dispatch cache: wrong version'']))"
  by (auto simp add: pl_dispatch_load_def load_bytes_def load_uint_def bindE_Inr)

text \<open>Both cases of C8 (amended), on a dispatch object with a pass and a cached program.\<close>

theorem load_header_mismatch_witness:
  "pl_dispatch_load warm_dispatch [0x50, 0x4C, 0x44, 0x58, 1, 0, 0, 0, 0, 0, 0, 0] =
     Inr (warm_dispatch,
          [Log PL_LOG_ERR ''Failed loading dispatch cache: invalid magic bytes'']) \<and>
   pl_dispatch_load warm_dispatch [0x50, 0x4C, 0x44, 0x50, 2, 0, 0, 0, 0, 0, 0, 0] =
     Inr (warm_dispatch, [Log PL_LOG_WARN ''Failed loading dispatch cache: wrong version''])"
  using load_header_mismatch [of "[0x50, 0x4C, 0x44, 0x58, 1, 0, 0, 0, 0, 0, 0, 0]" warm_dispatch]
    load_header_mismatch [of "[0x50, 0x4C, 0x44, 0x50, 2, 0, 0, 0, 0, 0, 0, 0]" warm_dispatch]
  by (simp add: cache_magic_def cache_version_def)






subsection \<open>The identity counter\<close>








subsection \<open>Eviction\<close>

lemma mset_qsort_insert: "mset (qsort_insert cmp a xs) = add_mset a (mset xs)"
  by (induction xs) simp_all

lemma mset_qsort: "mset (qsort cmp xs) = mset xs"
  by (induction xs) (simp_all add: mset_qsort_insert)

lemma set_qsort_insert: "set (qsort_insert cmp a xs) = insert a (set xs)"
  by (induction xs) auto

lemma length_qsort: "length (qsort cmp xs) = length xs"
  using mset_qsort [of cmp xs] by (metis size_mset)

lemma sorted_qsort_insert:
  "sorted_wrt (\<lambda>a b. last_index b \<le> last_index a) xs \<Longrightarrow>
   sorted_wrt (\<lambda>a b. last_index b \<le> last_index a) (qsort_insert cmp_pass_age a xs)"
  by (induction xs) (auto simp: set_qsort_insert cmp_pass_age_def)

lemma sorted_qsort:
  "sorted_wrt (\<lambda>a b. last_index b \<le> last_index a) (qsort cmp_pass_age xs)"
  by (induction xs) (simp_all add: sorted_qsort_insert)

lemma gc_scan_ge: "idx \<le> gc_scan dp ps idx"
proof (induction dp ps idx rule: gc_scan.induct)
  case (1 dp ps idx)
  show ?case
  proof (cases "idx < length ps \<and> pass_age dp (ps ! idx) < MIN_AGE")
    case True
    with "1.IH" have "Suc idx \<le> gc_scan dp ps (Suc idx)" by simp
    with True show ?thesis by (subst gc_scan.simps) simp
  next
    case False
    then show ?thesis by (subst gc_scan.simps) auto
  qed
qed

lemma gc_scan_le: "idx \<le> length ps \<Longrightarrow> gc_scan dp ps idx \<le> length ps"
proof (induction dp ps idx rule: gc_scan.induct)
  case (1 dp ps idx)
  show ?case
  proof (cases "idx < length ps \<and> pass_age dp (ps ! idx) < MIN_AGE")
    case True
    with "1.IH" have "gc_scan dp ps (Suc idx) \<le> length ps" by simp
    with True show ?thesis by (subst gc_scan.simps) simp
  next
    case False
    with "1.prems" show ?thesis by (subst gc_scan.simps) auto
  qed
qed

lemma gc_scan_stop:
  "gc_scan dp ps idx < length ps \<Longrightarrow> MIN_AGE \<le> pass_age dp (ps ! gc_scan dp ps idx)"
proof (induction dp ps idx rule: gc_scan.induct)
  case (1 dp ps idx)
  show ?case
  proof (cases "idx < length ps \<and> pass_age dp (ps ! idx) < MIN_AGE")
    case True
    then have eq: "gc_scan dp ps idx = gc_scan dp ps (Suc idx)"
      by (subst gc_scan.simps) simp
    with "1.IH" [OF True] "1.prems" show ?thesis by simp
  next
    case False
    then have eq: "gc_scan dp ps idx = idx"
      by (subst gc_scan.simps) auto
    with False "1.prems" show ?thesis by auto
  qed
qed

lemma evicted_old:
  assumes "sorted_wrt (\<lambda>a b. last_index b \<le> last_index a) ps"
    and "p \<in> set (drop (gc_scan dp ps idx) ps)"
  shows "MIN_AGE \<le> pass_age dp p"
proof -
  let ?k = "gc_scan dp ps idx"
  from assms(2) obtain j where j: "j < length (drop ?k ps)" "p = drop ?k ps ! j"
    by (auto simp: in_set_conv_nth)
  then have lt: "?k + j < length ps" and p: "p = ps ! (?k + j)" by simp_all
  from lt have k: "?k < length ps" by simp
  have "last_index (ps ! (?k + j)) \<le> last_index (ps ! ?k)"
  proof (cases "j = 0")
    case True
    then show ?thesis by simp
  next
    case False
    then have "?k < ?k + j" by simp
    with assms(1) lt show ?thesis by (simp add: sorted_wrt_iff_nth_less)
  qed
  with gc_scan_stop [OF k] p show ?thesis by (simp add: pass_age_def)
qed

lemma gc_scan_eval:
  "gc_scan dp ps idx =
     (if idx < length ps \<and> pass_age dp (ps ! idx) < MIN_AGE then gc_scan dp ps (Suc idx) else idx)"
  by (subst gc_scan.simps) simp

lemma gc_unfold:
  assumes "\<not> int (length (passes dp)) \<le> max_passes dp"
    and "qsort cmp_pass_age (passes dp) = s"
    and "gc_scan dp s (length s div 2) = k"
  shows "garbage_collect_passes dp =
     (if length (drop k s) \<noteq> 0 then dp\<lparr>passes := take k s\<rparr>
      else dp\<lparr>passes := take k s, max_passes := max_passes dp * 2\<rparr>,
      map (\<lambda>p. PassDestroy (signature p)) (drop k s))"
  using assms by (simp add: garbage_collect_passes_def Let_def)

lemma five_old_gc:
  "garbage_collect_passes five_old =
     (five_old\<lparr>passes := [live_pass 1 0 [1], live_pass 2 0 [1]]\<rparr>,
      [PassDestroy 3, PassDestroy 4, PassDestroy 5])"
proof -
  have a: "\<not> int (length (passes five_old)) \<le> max_passes five_old"
    by (simp add: five_old_def pl_dispatch_create_def)
  have s: "qsort cmp_pass_age (passes five_old) = passes five_old"
    by (simp add: five_old_def cmp_pass_age_def live_pass_def pl_dispatch_create_def)
  have k: "gc_scan five_old (passes five_old) (length (passes five_old) div 2) = 2"
    by (simp add: gc_scan_eval five_old_def pass_age_def MIN_AGE_def live_pass_def
        pl_dispatch_create_def)
  show ?thesis
    by (simp add: gc_unfold [OF a s k]) (simp add: five_old_def pl_dispatch_create_def live_pass_def)
qed

lemma four_old_gc:
  "garbage_collect_passes four_old =
     (four_old\<lparr>passes := [live_pass 5 20 [1], live_pass 1 0 [1]]\<rparr>,
      [PassDestroy 2, PassDestroy 3, PassDestroy 4])"
proof -
  let ?s = "[live_pass 5 20 [1], live_pass 1 0 [1], live_pass 2 0 [1], live_pass 3 0 [1],
             live_pass 4 0 [1]]"
  have a: "\<not> int (length (passes four_old)) \<le> max_passes four_old"
    by (simp add: four_old_def pl_dispatch_create_def)
  have s: "qsort cmp_pass_age (passes four_old) = ?s"
    by (simp add: four_old_def cmp_pass_age_def live_pass_def pl_dispatch_create_def)
  have k: "gc_scan four_old ?s (length ?s div 2) = 2"
    by (simp add: gc_scan_eval four_old_def pass_age_def MIN_AGE_def live_pass_def
        pl_dispatch_create_def)
  show ?thesis
    by (simp add: gc_unfold [OF a s k]) (simp add: live_pass_def)
qed

text \<open>
  C3, as the claim states it, fails for an odd number of records: the scan starts at
  \<^verbatim>\<open>num / 2\<close>, rounded down. Of five records that are all old enough, two remain.
\<close>

theorem gc_floor_counterexample:
  "length (passes five_old) = 5 \<and>
   length (passes (fst (garbage_collect_passes five_old))) = 2"
  by (simp add: five_old_gc) (simp add: five_old_def pl_dispatch_create_def)

text \<open>
  C3 (amended): after an eviction pass over \<open>n\<close> live records at least \<open>n div 2\<close> (half of
  them, rounded down) remain; the records that remain are records that were live before;
  every record that is gone has an age (current frame index minus its \<^verbatim>\<open>last_index\<close>) of
  at least \<open>MIN_AGE\<close>, so that no younger record is evicted; and \<^verbatim>\<open>pass_destroy\<close> is
  called once for every record that is gone.
\<close>

theorem gc_floor:
  assumes "garbage_collect_passes dp = (dp', ev)"
  shows "length (passes dp) div 2 \<le> length (passes dp') \<and>
         mset (passes dp') \<subseteq># mset (passes dp) \<and>
         (\<forall>p \<in># mset (passes dp) - mset (passes dp'). MIN_AGE \<le> pass_age dp p) \<and>
         length ev = length (passes dp) - length (passes dp')"
proof (cases "int (length (passes dp)) \<le> max_passes dp")
  case True
  with assms show ?thesis by (auto simp: garbage_collect_passes_def)
next
  case False
  let ?s = "qsort cmp_pass_age (passes dp)"
  let ?k = "gc_scan dp ?s (length ?s div 2)"
  from False assms have ps: "passes dp' = take ?k ?s" and ev: "ev = map (\<lambda>p. PassDestroy (signature p)) (drop ?k ?s)"
    by (auto simp: garbage_collect_passes_def Let_def split: if_splits)
  have k1: "length ?s div 2 \<le> ?k" by (rule gc_scan_ge)
  have k2: "?k \<le> length ?s" by (rule gc_scan_le) simp
  have split: "mset (passes dp) = mset (take ?k ?s) + mset (drop ?k ?s)"
    by (metis append_take_drop_id mset_append mset_qsort)
  have "length (passes dp) div 2 \<le> length (passes dp')"
    using k1 k2 by (simp add: ps length_qsort)
  moreover have "mset (passes dp') \<subseteq># mset (passes dp)"
    by (simp add: ps split)
  moreover have "\<forall>p \<in># mset (passes dp) - mset (passes dp'). MIN_AGE \<le> pass_age dp p"
    using evicted_old [OF sorted_qsort] by (simp add: ps split)
  moreover have "length ev = length (passes dp) - length (passes dp')"
    using k2 by (simp add: ev ps length_qsort)
  ultimately show ?thesis by simp
qed

text \<open>
  C3 (amended) where records are evicted: of five records, four last used twenty frames
  ago and one in the current frame, the young one and one old one remain.
\<close>

theorem gc_floor_witness:
  "garbage_collect_passes four_old =
     (four_old\<lparr>passes := [live_pass 5 20 [1], live_pass 1 0 [1]]\<rparr>,
      [PassDestroy 2, PassDestroy 3, PassDestroy 4]) \<and>
   length (passes four_old) div 2 \<le> length [live_pass 5 20 [1], live_pass 1 0 [1]] \<and>
   MIN_AGE \<le> pass_age four_old (live_pass 2 0 [1]) \<and>
   MIN_AGE \<le> pass_age four_old (live_pass 3 0 [1]) \<and>
   MIN_AGE \<le> pass_age four_old (live_pass 4 0 [1])"
proof -
  let ?gone = "mset (passes four_old) - mset [live_pass 5 20 [1], live_pass 1 0 [1]]"
  from gc_floor [OF four_old_gc]
  have half: "length (passes four_old) div 2 \<le> length [live_pass 5 20 [1], live_pass 1 0 [1]]"
    and old: "\<forall>p \<in># ?gone. MIN_AGE \<le> pass_age four_old p"
    by simp_all
  have "?gone = {#live_pass 2 0 [1], live_pass 3 0 [1], live_pass 4 0 [1]#}"
    by (simp add: four_old_def pl_dispatch_create_def live_pass_def)
  with old have "MIN_AGE \<le> pass_age four_old (live_pass 2 0 [1])"
    "MIN_AGE \<le> pass_age four_old (live_pass 3 0 [1])"
    "MIN_AGE \<le> pass_age four_old (live_pass 4 0 [1])"
    by simp_all
  with half four_old_gc show ?thesis by simp
qed

subsection \<open>Looking up and building passes\<close>

lemma lookup_pass_miss:
  "sig \<notin> signature ` set ps \<Longrightarrow> lookup_pass be sh sig target blend load vparams ps i = Inr None"
  by (induction ps arbitrary: i) auto

lemma take_cached_none:
  "sig \<notin> cp_signature ` set cs \<Longrightarrow> take_cached sig cs = ([], cs)"
  by (induction cs) auto

lemma gc_noop:
  "int (length (passes dp)) \<le> max_passes dp \<Longrightarrow> garbage_collect_passes dp = (dp, [])"
  by (simp add: garbage_collect_passes_def)

lemma example_construct:
  "construct_pass example_backend (compute_shader n) 
      \<lparr>signature = word_of_nat n, pass = None, last_index = idx, vars = [], ubo = None, ubo_desc = []\<rparr>
      (compute_params n) None =
   Inr (if n = 13
        then (failed_pass (word_of_nat n) idx, compute_shader n,
              [PassCreate (word_of_nat n) (compute_params n),
               Log PL_LOG_ERR ''Failed creating render pass for dispatch''])
        else (compute_record n idx, compute_shader n,
              [PassCreate (word_of_nat n) (compute_params n)]))"
  by (simp add: construct_pass_def generate_shaders_def example_backend_def compute_shader_def
      pl_shader_alloc_def compute_params_def example_params_def PL_ALIGN2_def failed_pass_def
      compute_record_def)

lemma example_find_miss:
  assumes "word_of_nat n \<notin> signature ` set (passes dp)"
    and "word_of_nat n \<notin> cp_signature ` set (cached_passes dp)"
    and "garbage_collect_passes dp = (dp1, evgc)"
  shows "find_pass example_backend dp (compute_shader n) None None False None =
     Inr (dp1\<lparr>passes := passes dp1 @
                 [if n = 13 then failed_pass (word_of_nat n) (uint (current_index dp))
                  else compute_record n (uint (current_index dp))]\<rparr>,
          length (passes dp1), compute_shader n,
          PassCreate (word_of_nat n) (compute_params n) #
          (if n = 13 then [Log PL_LOG_ERR ''Failed creating render pass for dispatch''] else []) @
          evgc)"
proof -
  have sig: "pl_shader_signature example_backend (compute_shader n) = word_of_nat n"
    by (simp add: example_backend_def compute_shader_def)
  have p0: "\<lparr>pp_type = PL_PASS_COMPUTE, pp_target_format = 0, pp_blend_params = None,
             pp_load_target = False, pp_vertex_type = PL_PRIM_TRIANGLE_STRIP,
             pp_vertex_stride = 0, pp_push_constants_size = 0, pp_variables = [],
             pp_num_descriptors = n, pp_cached_program = []\<rparr> = compute_params n"
    by (simp add: compute_params_def example_params_def)
  have comp: "sh_is_compute (compute_shader n)" "sh_num_descs (compute_shader n) = n"
    by (simp_all add: compute_shader_def)
  have ubo: "failed_pass s i\<lparr>ubo_desc := []\<rparr> = failed_pass s i"
    "compute_record n i\<lparr>ubo_desc := []\<rparr> = compute_record n i" for s i
    by (simp_all add: failed_pass_def compute_record_def)
  show ?thesis
    using assms(3)
    by (simp add: find_pass_def sig lookup_pass_miss [OF assms(1)] bindE_Inr new_pass_def
        init_params_def take_cached_none [OF assms(2)] comp p0 example_construct ubo)
qed


lemma example_compute_miss:
  assumes "word_of_nat n \<notin> signature ` set (passes dp)"
    and "word_of_nat n \<notin> cp_signature ` set (cached_passes dp)"
    and "garbage_collect_passes dp = (dp1, evgc)"
  shows "pl_dispatch_compute example_backend dp (compute_call n) =
     Inr (n \<noteq> 13,
          dp1\<lparr>passes := passes dp1 @
                 [if n = 13 then failed_pass (word_of_nat n) (uint (current_index dp))
                  else compute_record n (uint (current_index dp))],
              shaders := shaders dp1 @ [compute_shader n]\<rparr>,
          None,
          PassCreate (word_of_nat n) (compute_params n) #
          (if n = 13 then [Log PL_LOG_ERR ''Failed creating render pass for dispatch''] else []) @
          evgc @ (if n = 13 then [] else [PassRun (length (passes dp1))]))"
proof -
  have sh: "\<not> sh_failed (compute_shader n)" "sh_mutable (compute_shader n)"
    "sh_input (compute_shader n) = PL_SHADER_SIG_NONE" "sh_is_compute (compute_shader n)"
    "sh_vas (compute_shader n) = []" "sh_vars (compute_shader n) = []"
    by (simp_all add: compute_shader_def pl_shader_alloc_def)
  have rec: "pass (failed_pass s i) = None" "pass (compute_record n i) \<noteq> None"
    "vars (compute_record n i) = []" for s i
    by (simp_all add: failed_pass_def compute_record_def)
  show ?thesis
    by (simp add: pl_dispatch_compute_def compute_call_def compute_body_def sh dispatch_pass_def
        example_find_miss [OF assms] bindE_Inr rec pl_dispatch_abort_def int_mul_1_1)
qed

lemma run_calls_compute:
  "pl_dispatch_compute be dp \<lparr>cp_shader = Some sh, cp_dispatch_size = (1, 1, 1), cp_width = 0, cp_height = 0\<rparr>
     = Inr (ret, dp1, psh, ev) \<Longrightarrow>
   run_calls be dp1 cs = Inr (dp2, ev') \<Longrightarrow>
   run_calls be dp (Compute sh # cs) = Inr (dp2, ev @ ev')"
  by (simp add: bindE_Inr)



lemma gc_eval:
  "\<not> int (length (passes dp)) \<le> max_passes dp \<Longrightarrow>
   garbage_collect_passes dp =
     (if length (drop (gc_scan dp (qsort cmp_pass_age (passes dp))
                        (length (qsort cmp_pass_age (passes dp)) div 2))
                  (qsort cmp_pass_age (passes dp))) \<noteq> 0
      then dp\<lparr>passes := take (gc_scan dp (qsort cmp_pass_age (passes dp))
                                 (length (qsort cmp_pass_age (passes dp)) div 2))
                           (qsort cmp_pass_age (passes dp))\<rparr>
      else dp\<lparr>passes := take (gc_scan dp (qsort cmp_pass_age (passes dp))
                                 (length (qsort cmp_pass_age (passes dp)) div 2))
                           (qsort cmp_pass_age (passes dp)),
              max_passes := max_passes dp * 2\<rparr>,
      map (\<lambda>p. PassDestroy (signature p))
        (drop (gc_scan dp (qsort cmp_pass_age (passes dp))
                 (length (qsort cmp_pass_age (passes dp)) div 2))
           (qsort cmp_pass_age (passes dp))))"
  by (simp add: garbage_collect_passes_def Let_def)

lemma run_calls_miss:
  assumes "word_of_nat n \<notin> signature ` set (passes dp)"
    and "word_of_nat n \<notin> cp_signature ` set (cached_passes dp)"
  shows "run_calls example_backend dp (Compute (compute_shader n) # cs) =
     bindE (Inr (garbage_collect_passes dp)) (\<lambda>(dp1, evgc).
       bindE (run_calls example_backend
                (dp1\<lparr>passes := passes dp1 @
                       [if n = 13 then failed_pass (word_of_nat n) (uint (current_index dp))
                        else compute_record n (uint (current_index dp))],
                     shaders := shaders dp1 @ [compute_shader n]\<rparr>) cs)
         (\<lambda>(dp2, ev'). Inr (dp2,
            (PassCreate (word_of_nat n) (compute_params n) #
             (if n = 13 then [Log PL_LOG_ERR ''Failed creating render pass for dispatch'']
              else []) @
             evgc @ (if n = 13 then [] else [PassRun (length (passes dp1))])) @ ev')))"
proof -
  obtain dp1 evgc where gc: "garbage_collect_passes dp = (dp1, evgc)"
    by (cases "garbage_collect_passes dp")
  show ?thesis
    using example_compute_miss [OF assms gc]
    by (simp add: compute_call_def bindE_Inr gc)
qed

lemma sig_simps:
  "signature (compute_record n i) = word_of_nat n" "signature (failed_pass s i) = s"
  "last_index (compute_record n i) = i" "last_index (failed_pass s i) = i"
  by (simp_all add: compute_record_def failed_pass_def)

text \<open>
  C4: the source announces \<^verbatim>\<open>MAX_PASSES\<close> as the "maximum number of passes to keep around
  at once", with eviction "if full" and doubling "failing that". \<^verbatim>\<open>find_pass\<close> calls
  \<^verbatim>\<open>garbage_collect_passes\<close> before it appends the new record, and that function returns
  at once unless the number of records already exceeds the bound. With a bound of 4, five
  different shaders dispatched in one frame leave five live records and the bound at 4;
  the eviction controller has not run and nothing has doubled.
\<close>

theorem five_shaders_capacity_four:
  "run_calls example_backend (pl_dispatch_create\<lparr>max_passes := 4\<rparr>)
     [Compute (compute_shader 1), Compute (compute_shader 2), Compute (compute_shader 3),
      Compute (compute_shader 4), Compute (compute_shader 5)] =
   Inr (pl_dispatch_create
          \<lparr>max_passes := 4,
           passes := [compute_record 1 0, compute_record 2 0, compute_record 3 0,
                      compute_record 4 0, compute_record 5 0],
           shaders := [compute_shader 1, compute_shader 2, compute_shader 3,
                       compute_shader 4, compute_shader 5]\<rparr>,
        [PassCreate 1 (compute_params 1), PassRun 0, PassCreate 2 (compute_params 2), PassRun 1,
         PassCreate 3 (compute_params 3), PassRun 2, PassCreate 4 (compute_params 4), PassRun 3,
         PassCreate 5 (compute_params 5), PassRun 4])"
  by (simp add: run_calls_miss pl_dispatch_create_def sig_simps gc_noop bindE_Inr
      del: run_calls.simps(3))


text \<open>
  C5, as the claim states it, fails: the record of a failed pass is evicted like any
  other. With a bound of one record, the shader with signature 13 fails to compile in
  frame 0; ten frames later two other shaders are dispatched, the second of which evicts
  the record of 13; the next dispatch of 13 calls \<^verbatim>\<open>pl_pass_create\<close> for it a second time.
\<close>

theorem failed_signature_recompiled:
  "run_calls example_backend (pl_dispatch_create\<lparr>max_passes := 1\<rparr>)
     [Compute (compute_shader 13),
      ResetFrame, ResetFrame, ResetFrame, ResetFrame, ResetFrame,
      ResetFrame, ResetFrame, ResetFrame, ResetFrame, ResetFrame,
      Compute (compute_shader 1), Compute (compute_shader 2), Compute (compute_shader 13)] =
   Inr (pl_dispatch_create
          \<lparr>current_index := 10, max_passes := 2,
           passes := [compute_record 1 10, compute_record 2 10, failed_pass 13 10],
           shaders := [compute_shader 13, compute_shader 1, compute_shader 2,
                       compute_shader 13]\<rparr>,
        [PassCreate 13 (compute_params 13),
         Log PL_LOG_ERR ''Failed creating render pass for dispatch'',
         PassCreate 1 (compute_params 1), PassRun 1,
         PassCreate 2 (compute_params 2), PassDestroy 13, PassRun 1,
         PassCreate 13 (compute_params 13),
         Log PL_LOG_ERR ''Failed creating render pass for dispatch''])"
  by (simp add: run_calls_miss pl_dispatch_create_def sig_simps gc_noop gc_eval gc_scan_eval
      cmp_pass_age_def pass_age_def MIN_AGE_def pl_dispatch_reset_frame_def bindE_Inr
      del: run_calls.simps(3))

subsection \<open>The steps of a lookup\<close>

lemma new_pass_cases:
  assumes np: "new_pass be dp sh sig target blend load vparams = Inr (dp', i, sh', ev)"
  obtains params1 pass1 ev1 dp1 evgc where
    "init_params sh (fst (take_cached sig (cached_passes dp))) target blend load vparams =
       Inr params1"
    "construct_pass be sh
       \<lparr>signature = sig, pass = None, last_index = uint (current_index dp),
        vars = [], ubo = None, ubo_desc = []\<rparr> params1 vparams = Inr (pass1, sh', ev1)"
    "garbage_collect_passes (dp\<lparr>cached_passes := snd (take_cached sig (cached_passes dp))\<rparr>) =
       (dp1, evgc)"
    "dp' = dp1\<lparr>passes := passes dp1 @ [pass1\<lparr>ubo_desc := []\<rparr>]\<rparr>"
    "i = length (passes dp1)" "ev = ev1 @ evgc"
proof -
  let ?pass0 = "\<lparr>signature = sig, pass = None, last_index = uint (current_index dp),
                 vars = [], ubo = None, ubo_desc = []\<rparr>"
  let ?dp0 = "dp\<lparr>cached_passes := snd (take_cached sig (cached_passes dp))\<rparr>"
  from np obtain params1 where
    ip: "init_params sh (fst (take_cached sig (cached_passes dp))) target blend load vparams =
           Inr params1"
    by (cases "init_params sh (fst (take_cached sig (cached_passes dp))) target blend load vparams")
      (auto simp: new_pass_def Let_def bindE_Inl)
  note r = np [unfolded new_pass_def Let_def ip bindE_Inr]
  from r obtain c where cp0: "construct_pass be sh ?pass0 params1 vparams = Inr c"
    by (cases "construct_pass be sh ?pass0 params1 vparams") (auto simp: bindE_Inl)
  obtain pass1 sh1 ev1 where c: "c = (pass1, sh1, ev1)"
    by (cases c)
  obtain dp1 evgc where gc: "garbage_collect_passes ?dp0 = (dp1, evgc)"
    by (cases "garbage_collect_passes ?dp0")
  from r have e: "dp' = dp1\<lparr>passes := passes dp1 @ [pass1\<lparr>ubo_desc := []\<rparr>]\<rparr>"
    "i = length (passes dp1)" "sh' = sh1" "ev = ev1 @ evgc"
    by (simp_all add: cp0 c gc bindE_Inr)
  from ip cp0 c gc e that show thesis by simp
qed

lemma find_pass_cases:
  assumes fp: "find_pass be dp sh target blend load vparams = Inr (dp', i, sh', ev)"
  obtains
    (hit) "lookup_pass be sh (pl_shader_signature be sh) target blend load vparams (passes dp) 0 =
             Inr (Some i)"
      "dp' = dp\<lparr>passes := (passes dp)
                  [i := (passes dp ! i)\<lparr>last_index := uint (current_index dp)\<rparr>]\<rparr>"
      "sh' = sh" "ev = []"
  | (miss) "lookup_pass be sh (pl_shader_signature be sh) target blend load vparams (passes dp) 0 =
             Inr None"
      "new_pass be dp sh (pl_shader_signature be sh) target blend load vparams =
         Inr (dp', i, sh', ev)"
proof (cases "lookup_pass be sh (pl_shader_signature be sh) target blend load vparams (passes dp) 0")
  case (Inl e)
  with fp show ?thesis by (simp add: find_pass_def bindE_Inl)
next
  case (Inr h)
  show ?thesis
  proof (cases h)
    case None
    with Inr fp show ?thesis by (intro miss) (simp_all add: find_pass_def bindE_Inr)
  next
    case (Some j)
    with Inr fp show ?thesis by (intro hit) (auto simp: find_pass_def bindE_Inr)
  qed
qed

lemma dispatch_pass_cases:
  assumes d: "dispatch_pass be dp sh target blend load vparams g = Inr (ret, dp', sh', ev)"
  obtains
    (failed) dp1 i where
      "find_pass be dp sh target blend load vparams = Inr (dp1, i, sh', ev)"
      "pass (passes dp1 ! i) = None" "\<not> ret" "dp' = dp1"
  | (run) dp1 i ev1 pvs ev2 where
      "find_pass be dp sh target blend load vparams = Inr (dp1, i, sh', ev1)"
      "pass (passes dp1 ! i) \<noteq> None"
      "update_vars be (passes dp1 ! i) (sh_vars sh') (vars (passes dp1 ! i)) = Inr (pvs, ev2)"
      "ret" "dp' = dp1\<lparr>passes := (passes dp1)[i := (passes dp1 ! i)\<lparr>vars := pvs\<rparr>]\<rparr>"
      "ev = ev1 @ ev2 @ [PassRun i]"
proof -
  from d obtain dp1 i sh1 ev1 where
    fp: "find_pass be dp sh target blend load vparams = Inr (dp1, i, sh1, ev1)"
    by (cases "find_pass be dp sh target blend load vparams")
      (auto simp: dispatch_pass_def bindE_Inl)
  let ?p = "passes dp1 ! i"
  show ?thesis
  proof (cases "pass ?p = None")
    case True
    with d fp have "ret = False" "dp' = dp1" "sh' = sh1" "ev = ev1"
      by (simp_all add: dispatch_pass_def bindE_Inr Let_def)
    with fp True show ?thesis by (intro failed [of dp1 i]) simp_all
  next
    case False
    with d fp obtain pvs ev2 where
      u: "update_vars be ?p (sh_vars sh1) (vars ?p) = Inr (pvs, ev2)"
      by (cases "update_vars be ?p (sh_vars sh1) (vars ?p)")
        (auto simp: dispatch_pass_def bindE_Inr bindE_Inl Let_def)
    from d fp False u have e: "ret" "dp' = dp1\<lparr>passes := (passes dp1)[i := ?p\<lparr>vars := pvs\<rparr>]\<rparr>"
      "sh' = sh1" "ev = ev1 @ ev2 @ [PassRun i]"
      by (auto simp: dispatch_pass_def bindE_Inr Let_def split: if_splits)
    with fp False u show ?thesis by (intro run [of dp1 i ev1 pvs ev2]) simp_all
  qed
qed

subsection \<open>Placement of the variables\<close>

lemma align4_dvd: "4 dvd PL_ALIGN2 x 4"
  by (simp add: PL_ALIGN2_def)

lemma align4_id: "4 dvd x \<Longrightarrow> PL_ALIGN2 x 4 = x"
  by (auto simp: PL_ALIGN2_def elim!: dvdE)

lemma align4_le: "x \<le> m \<Longrightarrow> 4 dvd m \<Longrightarrow> PL_ALIGN2 x 4 \<le> m"
  by (auto simp: PL_ALIGN2_def elim!: dvdE)

lemma pushc_ok_final:
  "pushc_ok be s \<Longrightarrow> 4 dvd PL_ALIGN2 s 4 \<and> PL_ALIGN2 s 4 \<le> max_pushc_size be"
  by (auto simp: pushc_ok_def align4_dvd align4_id align4_le)

lemma add_pass_var_pushc:
  assumes "pushc_aligned be" and "pushc_ok be (pp_push_constants_size params)"
    and "add_pass_var be ud params sv pv greedy = (ok, pv', ud', params', ev)"
  shows "pushc_ok be (pp_push_constants_size params')"
  using assms
  by (auto simp: add_pass_var_def Let_def pushc_ok_def pushc_aligned_def
      split: if_splits option.splits)

lemma add_pass_var_placed:
  assumes "add_pass_var be ud params sv pv greedy = (ok, pv', ud', params', ev)"
  shows "(pv_type pv \<noteq> PASS_VAR_NONE \<longrightarrow> pv_type pv' \<noteq> PASS_VAR_NONE) \<and>
         (greedy \<and> ok \<longrightarrow> pv_type pv' \<noteq> PASS_VAR_NONE)"
  using assms
  by (auto simp: add_pass_var_def Let_def split: if_splits option.splits)


lemma place_vars_pushc:
  assumes "pushc_aligned be"
  shows "pushc_ok be (pp_push_constants_size params) \<Longrightarrow>
         place_vars be greedy svs pvs ud params = (ok, pvs', ud', params', ev) \<Longrightarrow>
         pushc_ok be (pp_push_constants_size params')"
proof (induction svs arbitrary: pvs ud params ok pvs' ud' params' ev)
  case Nil
  then show ?case by simp
next
  case (Cons sv svs)
  show ?case
  proof (cases pvs)
    case Nil
    with Cons.prems show ?thesis by simp
  next
    case c: (Cons pv pvs0)
    obtain ok1 pv1 ud1 params1 ev1 where
      a: "add_pass_var be ud params sv pv greedy = (ok1, pv1, ud1, params1, ev1)"
      by (cases "add_pass_var be ud params sv pv greedy")
    have ok1: "pushc_ok be (pp_push_constants_size params1)"
      by (rule add_pass_var_pushc [OF assms Cons.prems(1) a])
    show ?thesis
    proof (cases ok1)
      case False
      with a c Cons.prems(2) ok1 show ?thesis by simp
    next
      case True
      obtain ok2 pvs2 ud2 params2 ev2 where
        r: "place_vars be greedy svs pvs0 ud1 params1 = (ok2, pvs2, ud2, params2, ev2)"
        by (cases "place_vars be greedy svs pvs0 ud1 params1")
      from Cons.IH [OF ok1 r] have "pushc_ok be (pp_push_constants_size params2)" .
      with a r c True Cons.prems(2) show ?thesis by simp
    qed
  qed
qed

lemma place_vars_placed:
  "place_vars be greedy svs pvs ud params = (ok, pvs', ud', params', ev) \<Longrightarrow>
   length pvs' = length pvs \<and>
   (\<forall>i<length pvs. pv_type (pvs ! i) \<noteq> PASS_VAR_NONE \<longrightarrow> pv_type (pvs' ! i) \<noteq> PASS_VAR_NONE) \<and>
   (greedy \<and> ok \<longrightarrow> (\<forall>i<min (length svs) (length pvs). pv_type (pvs' ! i) \<noteq> PASS_VAR_NONE))"
proof (induction svs arbitrary: pvs ud params ok pvs' ud' params' ev)
  case Nil
  then show ?case by simp
next
  case (Cons sv svs)
  show ?case
  proof (cases pvs)
    case Nil
    with Cons.prems show ?thesis by simp
  next
    case c: (Cons pv pvs0)
    obtain ok1 pv1 ud1 params1 ev1 where
      a: "add_pass_var be ud params sv pv greedy = (ok1, pv1, ud1, params1, ev1)"
      by (cases "add_pass_var be ud params sv pv greedy")
    note h = add_pass_var_placed [OF a]
    show ?thesis
    proof (cases ok1)
      case False
      with a c Cons.prems have "pvs' = pv1 # pvs0" "\<not> ok" by simp_all
      with h c show ?thesis by (auto simp: nth_Cons split: nat.splits)
    next
      case True
      obtain ok2 pvs2 ud2 params2 ev2 where
        r: "place_vars be greedy svs pvs0 ud1 params1 = (ok2, pvs2, ud2, params2, ev2)"
        by (cases "place_vars be greedy svs pvs0 ud1 params1")
      from Cons.IH [OF r]
      have ih: "length pvs2 = length pvs0"
        "\<forall>i<length pvs0. pv_type (pvs0 ! i) \<noteq> PASS_VAR_NONE \<longrightarrow> pv_type (pvs2 ! i) \<noteq> PASS_VAR_NONE"
        "greedy \<and> ok2 \<longrightarrow> (\<forall>i<min (length svs) (length pvs0). pv_type (pvs2 ! i) \<noteq> PASS_VAR_NONE)"
        by simp_all
      from a r c True Cons.prems have e: "pvs' = pv1 # pvs2" "ok = ok2" by simp_all
      show ?thesis
        using h ih True by (auto simp: e c nth_Cons split: nat.splits)
    qed
  qed
qed


lemma construct_pass_placed:
  assumes H: "pushc_aligned be" and p0: "pass pass0 = None"
    and s0: "pp_push_constants_size params0 = 0"
    and c: "construct_pass be sh pass0 params0 vparams = Inr (p, sh', ev)"
  shows "pass_placed be p \<and>
         (pass p \<noteq> None \<longrightarrow> length (vars p) = length (sh_vars sh) \<and> sh_vars sh' = sh_vars sh)"
proof -
  let ?vars0 = "replicate (length (sh_vars sh))
                  \<lparr>pv_index = 0, pv_type = PASS_VAR_NONE,
                   pv_layout = \<lparr>lay_offset = 0, lay_stride = 0, lay_size = 0\<rparr>,
                   pv_cached_data = None\<rparr>"
  obtain ok1 vars1 ud1 params1 ev1 where
    a: "place_vars be False (sh_vars sh) ?vars0 (ubo_desc pass0) params0 =
          (ok1, vars1, ud1, params1, ev1)"
    by (cases "place_vars be False (sh_vars sh) ?vars0 (ubo_desc pass0) params0")
  obtain ok2 vars2 ud2 params2 ev2 where
    b: "place_vars be True (sh_vars sh) vars1 ud1 params1 = (ok2, vars2, ud2, params2, ev2)"
    by (cases "place_vars be True (sh_vars sh) vars1 ud1 params1")
  have "pushc_ok be (pp_push_constants_size params0)"
    by (simp add: s0 pushc_ok_def)
  from place_vars_pushc [OF H this a] have "pushc_ok be (pp_push_constants_size params1)" .
  from place_vars_pushc [OF H this b] have "pushc_ok be (pp_push_constants_size params2)" .
  note fin = pushc_ok_final [OF this]
  from place_vars_placed [OF a] have l1: "length vars1 = length (sh_vars sh)" by simp
  from place_vars_placed [OF b] l1 have l2: "length vars2 = length (sh_vars sh)"
    and pl: "ok2 \<longrightarrow> (\<forall>i<length (sh_vars sh). pv_type (vars2 ! i) \<noteq> PASS_VAR_NONE)"
    by simp_all
  have all: "ok2 \<Longrightarrow> \<forall>pv \<in> set vars2. pv_type pv \<noteq> PASS_VAR_NONE"
    using pl l2 by (auto simp: in_set_conv_nth)
  show ?thesis
  proof (cases "pass p")
    case None
    then show ?thesis by (simp add: pass_placed_def)
  next
    case (Some pp)
    from c Some p0 have ok2: ok2
      by (auto simp: construct_pass_def a b Let_def split: if_splits option.splits)
    from c Some p0 have v: "vars p = vars2"
      and sz: "pp_push_constants_size (pass_params pp) =
               PL_ALIGN2 (pp_push_constants_size params2) 4"
      and sh: "sh_vars sh' = sh_vars sh"
      by (auto simp: construct_pass_def a b Let_def split: if_splits option.splits)
    from all [OF ok2] fin show ?thesis
      by (simp add: pass_placed_def Some v sz sh l2)
  qed
qed


lemma gc_passes_subset:
  assumes "garbage_collect_passes dp = (dp1, ev)"
  shows "set (passes dp1) \<subseteq> set (passes dp)"
proof (cases "int (length (passes dp)) \<le> max_passes dp")
  case True
  with assms show ?thesis by (simp add: garbage_collect_passes_def)
next
  case False
  let ?s = "qsort cmp_pass_age (passes dp)"
  from False assms have "passes dp1 = take (gc_scan dp ?s (length ?s div 2)) ?s"
    by (auto simp: garbage_collect_passes_def Let_def split: if_splits)
  moreover have "set ?s = set (passes dp)"
    by (rule mset_eq_setD [OF mset_qsort])
  ultimately show ?thesis
    using set_take_subset [of "gc_scan dp ?s (length ?s div 2)" ?s] by simp
qed

lemma gc_shaders:
  "garbage_collect_passes dp = (dp1, ev) \<Longrightarrow> shaders dp1 = shaders dp"
  by (auto simp: garbage_collect_passes_def Let_def split: if_splits)

lemma lookup_pass_bound:
  "lookup_pass be sh sig target blend load vparams ps k = Inr (Some i) \<Longrightarrow>
   k \<le> i \<and> i < k + length ps"
proof (induction ps arbitrary: k)
  case Nil
  then show ?case by simp
next
  case (Cons q qs)
  show ?case
  proof (cases "lookup_pass be sh sig target blend load vparams (q # qs) k =
                lookup_pass be sh sig target blend load vparams qs (Suc k)")
    case True
    with Cons.prems Cons.IH [of "Suc k"] show ?thesis by simp
  next
    case False
    with Cons.prems have "i = k"
      by (auto split: if_splits option.splits)
    then show ?thesis by simp
  qed
qed

lemma pass_placed_last_index: "pass_placed be (p\<lparr>last_index := k\<rparr>) = pass_placed be p"
  by (simp add: pass_placed_def split: option.splits)

lemma pass_placed_ubo_desc: "pass_placed be (p\<lparr>ubo_desc := d\<rparr>) = pass_placed be p"
  by (simp add: pass_placed_def split: option.splits)

lemma init_params_pushc:
  "init_params sh prog target blend load vparams = Inr params1 \<Longrightarrow>
   pp_push_constants_size params1 = 0"
  by (cases target; cases "sh_is_compute sh") (auto simp: init_params_def)

lemma new_pass_placed:
  assumes H: "pushc_aligned be" and inv: "\<forall>p \<in> set (passes dp). pass_placed be p"
    and np: "new_pass be dp sh sig target blend load vparams = Inr (dp', i, sh', ev)"
  shows "i < length (passes dp') \<and> (\<forall>p \<in> set (passes dp'). pass_placed be p) \<and>
         shaders dp' = shaders dp \<and>
         (pass (passes dp' ! i) \<noteq> None \<longrightarrow> sh_vars sh' = sh_vars sh)"
proof -
  let ?pass0 = "\<lparr>signature = sig, pass = None, last_index = uint (current_index dp),
                 vars = [], ubo = None, ubo_desc = []\<rparr>"
  let ?dp0 = "dp\<lparr>cached_passes := snd (take_cached sig (cached_passes dp))\<rparr>"
  from np obtain params1 pass1 ev1 dp1 evgc where
    ip: "init_params sh (fst (take_cached sig (cached_passes dp))) target blend load vparams =
           Inr params1"
    and cp: "construct_pass be sh ?pass0 params1 vparams = Inr (pass1, sh', ev1)"
    and gc: "garbage_collect_passes ?dp0 = (dp1, evgc)"
    and e: "dp' = dp1\<lparr>passes := passes dp1 @ [pass1\<lparr>ubo_desc := []\<rparr>]\<rparr>"
      "i = length (passes dp1)"
    by (rule new_pass_cases)
  from ip have s0: "pp_push_constants_size params1 = 0"
    by (rule init_params_pushc)
  from construct_pass_placed [OF H _ s0 cp]
  have pl: "pass_placed be pass1"
    and sv: "pass pass1 \<noteq> None \<longrightarrow> sh_vars sh' = sh_vars sh" by simp_all
  from gc_passes_subset [OF gc] inv have "\<forall>p \<in> set (passes dp1). pass_placed be p" by auto
  with pl sv gc_shaders [OF gc] show ?thesis
    by (auto simp: e pass_placed_ubo_desc)
qed

lemma find_pass_placed:
  assumes H: "pushc_aligned be" and inv: "\<forall>p \<in> set (passes dp). pass_placed be p"
    and fp: "find_pass be dp sh target blend load vparams = Inr (dp', i, sh', ev)"
  shows "i < length (passes dp') \<and> (\<forall>p \<in> set (passes dp'). pass_placed be p) \<and>
         shaders dp' = shaders dp"
proof (cases "lookup_pass be sh (pl_shader_signature be sh) target blend load vparams (passes dp) 0")
  case (Inl e)
  with fp show ?thesis by (simp add: find_pass_def bindE_Inl)
next
  case (Inr hit)
  show ?thesis
  proof (cases hit)
    case None
    with Inr fp have "new_pass be dp sh (pl_shader_signature be sh) target blend load vparams =
                      Inr (dp', i, sh', ev)"
      by (simp add: find_pass_def bindE_Inr)
    from new_pass_placed [OF H inv this] show ?thesis by simp
  next
    case (Some j)
    with Inr lookup_pass_bound [of be sh _ target blend load vparams "passes dp" 0 j]
    have j: "j < length (passes dp)" by simp
    from Some Inr fp have e: "i = j"
      "dp' = dp\<lparr>passes := (passes dp)[j := (passes dp ! j)\<lparr>last_index := uint (current_index dp)\<rparr>]\<rparr>"
      by (auto simp: find_pass_def bindE_Inr)
    have "\<forall>p \<in> set (passes dp'). pass_placed be p"
    proof
      fix p assume "p \<in> set (passes dp')"
      then have "p = (passes dp ! j)\<lparr>last_index := uint (current_index dp)\<rparr> \<or> p \<in> set (passes dp)"
        using set_update_subset_insert [of "passes dp" j] by (auto simp: e)
      with inv j show "pass_placed be p"
        by (auto simp: pass_placed_last_index)
    qed
    with j show ?thesis by (simp add: e)
  qed
qed


lemma update_pass_var_type:
  "update_pass_var be p sv pv = Inr (pv', ev) \<Longrightarrow> pv_type pv' = pv_type pv"
  by (auto simp: update_pass_var_def Let_def split: if_splits pass_var_type.splits)

lemma update_vars_types:
  "update_vars be p svs pvs = Inr (pvs', ev) \<Longrightarrow>
   map pv_type pvs' = map pv_type pvs \<and> length svs \<le> length pvs"
proof (induction svs arbitrary: pvs pvs' ev)
  case Nil
  then show ?case by simp
next
  case (Cons sv svs)
  show ?case
  proof (cases pvs)
    case Nil
    with Cons.prems show ?thesis by simp
  next
    case c: (Cons pv pvs0)
    from Cons.prems c obtain pv1 ev1 where
      a: "update_pass_var be p sv pv = Inr (pv1, ev1)"
      by (cases "update_pass_var be p sv pv") (auto simp: bindE_Inl)
    from Cons.prems c a obtain pvs1 ev2 where
      b: "update_vars be p svs pvs0 = Inr (pvs1, ev2)"
      by (cases "update_vars be p svs pvs0") (auto simp: bindE_Inl bindE_Inr)
    from Cons.prems c a b have e: "pvs' = pv1 # pvs1" by (simp add: bindE_Inr)
    from Cons.IH [OF b] update_pass_var_type [OF a] show ?thesis by (simp add: e c)
  qed
qed

lemma pass_placed_vars:
  "map pv_type pvs = map pv_type (vars p) \<Longrightarrow> pass_placed be (p\<lparr>vars := pvs\<rparr>) = pass_placed be p"
proof -
  assume "map pv_type pvs = map pv_type (vars p)"
  then have "pv_type ` set pvs = pv_type ` set (vars p)" by (metis set_map)
  then have "(\<forall>pv \<in> set pvs. pv_type pv \<noteq> PASS_VAR_NONE) =
             (\<forall>pv \<in> set (vars p). pv_type pv \<noteq> PASS_VAR_NONE)"
    by (metis (mono_tags, lifting) image_iff)
  then show ?thesis by (simp add: pass_placed_def split: option.splits)
qed

lemma dispatch_pass_placed:
  assumes H: "pushc_aligned be" and inv: "\<forall>p \<in> set (passes dp). pass_placed be p"
    and d: "dispatch_pass be dp sh target blend load vparams g = Inr (ret, dp', sh', ev)"
  shows "(\<forall>p \<in> set (passes dp'). pass_placed be p) \<and> shaders dp' = shaders dp \<and>
         (ret \<longrightarrow> (\<exists>i<length (passes dp').
                    PassRun i \<in> set ev \<and> pass (passes dp' ! i) \<noteq> None \<and>
                    length (sh_vars sh') \<le> length (vars (passes dp' ! i))))"
proof -
  from d obtain dp1 i sh1 ev1 where
    fp: "find_pass be dp sh target blend load vparams = Inr (dp1, i, sh1, ev1)"
    by (cases "find_pass be dp sh target blend load vparams")
      (auto simp: dispatch_pass_def bindE_Inl)
  from find_pass_placed [OF H inv fp] have i: "i < length (passes dp1)"
    and inv1: "\<forall>p \<in> set (passes dp1). pass_placed be p"
    and sh1: "shaders dp1 = shaders dp" by simp_all
  let ?p = "passes dp1 ! i"
  show ?thesis
  proof (cases "pass ?p = None")
    case True
    with d fp have "ret = False" "dp' = dp1"
      by (simp_all add: dispatch_pass_def bindE_Inr Let_def)
    with inv1 sh1 show ?thesis by simp
  next
    case False
    with d fp obtain pvs ev2 where
      u: "update_vars be ?p (sh_vars sh1) (vars ?p) = Inr (pvs, ev2)"
      by (cases "update_vars be ?p (sh_vars sh1) (vars ?p)")
        (auto simp: dispatch_pass_def bindE_Inr bindE_Inl Let_def)
    from d fp False u have g and e: "ret" "dp' = dp1\<lparr>passes := (passes dp1)[i := ?p\<lparr>vars := pvs\<rparr>]\<rparr>"
      "sh' = sh1" "ev = ev1 @ ev2 @ [PassRun i]"
      by (auto simp: dispatch_pass_def bindE_Inr Let_def split: if_splits)
    note t = update_vars_types [OF u]
    from t have pl: "pass_placed be (?p\<lparr>vars := pvs\<rparr>) = pass_placed be ?p"
      by (simp add: pass_placed_vars)
    have "\<forall>p \<in> set (passes dp'). pass_placed be p"
    proof
      fix p assume "p \<in> set (passes dp')"
      then have "p = ?p\<lparr>vars := pvs\<rparr> \<or> p \<in> set (passes dp1)"
        using set_update_subset_insert [of "passes dp1" i] by (auto simp: e)
      with inv1 i pl show "pass_placed be p" by auto
    qed
    moreover have "length (sh_vars sh') \<le> length (vars (passes dp' ! i))"
      using t i by (simp add: e) (metis length_map)
    moreover have "i < length (passes dp')" "PassRun i \<in> set ev"
      "pass (passes dp' ! i) \<noteq> None" "shaders dp' = shaders dp"
      using i False sh1 by (simp_all add: e)
    ultimately show ?thesis using \<open>ret\<close> by blast
  qed
qed


lemma finish_body_cases:
  "finish_body be dp sh params = Inr (ret, dp1, sh1, ev) \<Longrightarrow>
   (\<not> ret \<and> dp1 = dp \<and> (\<exists>m. ev = [Log PL_LOG_ERR m])) \<or>
   (\<exists>sh2 target blend load vparams g.
      dispatch_pass be dp sh2 target blend load vparams g = Inr (ret, dp1, sh1, ev))"
  unfolding finish_body_def Let_def
  by (auto split: if_splits)

lemma compute_body_cases:
  "compute_body be dp sh params = Inr (ret, dp1, sh1, ev) \<Longrightarrow>
   (\<not> ret \<and> dp1 = dp \<and> (\<exists>m. ev = [Log PL_LOG_ERR m])) \<or>
   (\<exists>sh2 target blend load vparams g.
      dispatch_pass be dp sh2 target blend load vparams g = Inr (ret, dp1, sh1, ev))"
  unfolding compute_body_def Let_def
  by (auto split: if_splits)

lemma vertex_body_cases:
  "vertex_body be dp sh params = Inr (ret, dp1, sh1, ev) \<Longrightarrow>
   (\<not> ret \<and> dp1 = dp \<and> (\<exists>m. ev = [Log PL_LOG_ERR m])) \<or>
   (\<exists>sh2 target blend load vparams g.
      dispatch_pass be dp sh2 target blend load vparams g = Inr (ret, dp1, sh1, ev))"
  unfolding vertex_body_def Let_def
  by (auto split: if_splits)

lemma var_call_result:
  "pl_dispatch_compute example_backend pl_dispatch_create var_call =
     Inr (True, pl_dispatch_create\<lparr>passes := [var_record], shaders := [var_shader]\<rparr>, None,
          [PassCreate 2 var_params,
           PushcWrite \<lparr>lay_offset = 0, lay_stride = 4, lay_size = 4\<rparr>,
           PushcWrite \<lparr>lay_offset = 4, lay_stride = 4, lay_size = 4\<rparr>,
           PassRun 0])"
proof -
  have gc0: "garbage_collect_passes pl_dispatch_create = (pl_dispatch_create, [])"
    by (simp add: gc_noop pl_dispatch_create_def MAX_PASSES_def)
  have fp: "find_pass example_backend pl_dispatch_create var_shader None None False None =
     Inr (pl_dispatch_create\<lparr>passes := [var_record\<lparr>vars := map (\<lambda>pv. pv\<lparr>pv_cached_data := None\<rparr>) (vars var_record)\<rparr>]\<rparr>,
          0, var_shader, [PassCreate 2 var_params])"
    by (simp add: find_pass_def new_pass_def init_params_def bindE_Inr gc_noop MAX_PASSES_def
        construct_pass_def generate_shaders_def add_pass_var_def example_backend_def
        var_shader_def
        compute_shader_def pl_shader_alloc_def PL_ALIGN2_def var_record_def var_params_def
        example_params_def pl_dispatch_create_def)
  show ?thesis
    apply (simp add: pl_dispatch_compute_def var_call_def compute_body_def bindE_Inr int_mul_1_1)
    apply (simp add: var_shader_def compute_shader_def pl_shader_alloc_def)
    apply (simp add: dispatch_pass_def fp [unfolded var_shader_def compute_shader_def pl_shader_alloc_def, simplified] bindE_Inr)
    apply (simp add: var_record_def update_pass_var_def example_backend_def bindE_Inr
        pl_dispatch_abort_def pl_dispatch_create_def Let_def)
    done
qed

text \<open>
  The same dispatch with 65536 by 65536 groups and no width: the product wraps around to
  0 and the assertion on the width fails. And the first lookup of a shader where
  \<^verbatim>\<open>generate_shaders\<close> reaches \<^verbatim>\<open>abort()\<close>.
\<close>

lemma var_call_overflow:
  "pl_dispatch_compute example_backend pl_dispatch_create
     (var_call\<lparr>cp_dispatch_size := (65536, 65536, 1)\<rparr>) = Inl AssertionFailed"
proof -
  have gc0: "garbage_collect_passes pl_dispatch_create = (pl_dispatch_create, [])"
    by (simp add: gc_noop pl_dispatch_create_def MAX_PASSES_def)
  have fp: "find_pass example_backend pl_dispatch_create var_shader None None False None =
     Inr (pl_dispatch_create\<lparr>passes := [var_record\<lparr>vars := map (\<lambda>pv. pv\<lparr>pv_cached_data := None\<rparr>) (vars var_record)\<rparr>]\<rparr>,
          0, var_shader, [PassCreate 2 var_params])"
    by (simp add: find_pass_def new_pass_def init_params_def bindE_Inr gc_noop MAX_PASSES_def
        construct_pass_def generate_shaders_def add_pass_var_def example_backend_def
        var_shader_def compute_shader_def pl_shader_alloc_def PL_ALIGN2_def var_record_def
        var_params_def example_params_def pl_dispatch_create_def)
  have w: "int_mul (int_mul (int_mul 1 65536) 65536) 1 = 0"
    by (simp add: int_mul_def)
  show ?thesis
    apply (simp add: pl_dispatch_compute_def var_call_def compute_body_def bindE_Inr w)
    apply (simp add: var_shader_def compute_shader_def pl_shader_alloc_def)
    apply (simp add: dispatch_pass_def fp [unfolded var_shader_def compute_shader_def pl_shader_alloc_def, simplified] bindE_Inr)
    apply (simp add: var_record_def update_pass_var_def example_backend_def bindE_Inr bindE_Inl
        Let_def)
    done
qed

lemma find_pass_glsl_stop:
  "find_pass (example_backend\<lparr>glsl_stop := \<lambda>params sh vparams. Some Aborted\<rparr>)
     pl_dispatch_create (compute_shader 1) None None False None = Inl Aborted"
  by (simp add: find_pass_def new_pass_def init_params_def bindE_Inr bindE_Inl
      construct_pass_def generate_shaders_def example_backend_def compute_shader_def
      pl_shader_alloc_def pl_dispatch_create_def)

subsection \<open>The dispatch entry points\<close>

lemma find_pass_shaders:
  assumes "find_pass be dp sh target blend load vparams = Inr (dp', i, sh', ev)"
  shows "shaders dp' = shaders dp"
  using assms
proof (cases rule: find_pass_cases)
  case hit
  then show ?thesis by simp
next
  case miss
  from miss(2) obtain pass1 dp1 evgc where
    gc: "garbage_collect_passes
           (dp\<lparr>cached_passes :=
                 snd (take_cached (pl_shader_signature be sh) (cached_passes dp))\<rparr>) = (dp1, evgc)"
    and e: "dp' = dp1\<lparr>passes := passes dp1 @ [pass1\<lparr>ubo_desc := []\<rparr>]\<rparr>"
    by (rule new_pass_cases)
  with gc_shaders [OF gc] show ?thesis by simp
qed

lemma dispatch_pass_shaders:
  assumes "dispatch_pass be dp sh target blend load vparams g = Inr (ret, dp', sh', ev)"
  shows "shaders dp' = shaders dp"
proof -
  from assms obtain dp1 i sh1 ev1 where
    fp: "find_pass be dp sh target blend load vparams = Inr (dp1, i, sh1, ev1)"
    by (cases "find_pass be dp sh target blend load vparams")
      (auto simp: dispatch_pass_def bindE_Inl)
  from assms fp have "shaders dp' = shaders dp1"
    by (auto simp: dispatch_pass_def bindE_def Let_def split: if_splits sum.splits)
  with find_pass_shaders [OF fp] show ?thesis by simp
qed

lemma entry_result:
  assumes "(case h of
              None \<Rightarrow> Inl NullPointer
            | Some sh \<Rightarrow>
                bindE (body sh) (\<lambda>(ret, dp1, sh1, ev).
                  case pl_dispatch_abort dp1 (Some sh1) of
                    (dp2, psh) \<Rightarrow> Inr (ret, dp2, psh, ev))) = Inr (ret, dp', psh, ev)"
  shows "\<exists>sh dp1 sh1. h = Some sh \<and> body sh = Inr (ret, dp1, sh1, ev) \<and>
           dp' = dp1\<lparr>shaders := shaders dp1 @ [sh1]\<rparr> \<and> psh = None"
proof (cases h)
  case None
  with assms show ?thesis by simp
next
  case (Some sh)
  with assms obtain ret1 dp1 sh1 ev1 where b: "body sh = Inr (ret1, dp1, sh1, ev1)"
    by (cases "body sh") (auto simp: bindE_Inl)
  with assms Some show ?thesis
    by (auto simp: bindE_Inr pl_dispatch_abort_def)
qed

lemma entry_cases:
  assumes "r = pl_dispatch_finish be dp fparams \<or> r = pl_dispatch_compute be dp cparams \<or>
           r = pl_dispatch_vertex be dp vparams"
    and "r = Inr (ret, dp', psh, ev)"
  shows "psh = None \<and>
         (\<exists>dp1 sh1. dp' = dp1\<lparr>shaders := shaders dp1 @ [sh1]\<rparr> \<and>
            ((\<not> ret \<and> dp1 = dp \<and> (\<exists>m. ev = [Log PL_LOG_ERR m])) \<or>
             (\<exists>sh2 target blend load vp g.
                dispatch_pass be dp sh2 target blend load vp g = Inr (ret, dp1, sh1, ev))))"
proof -
  from assms consider
    (f) "pl_dispatch_finish be dp fparams = Inr (ret, dp', psh, ev)" |
    (c) "pl_dispatch_compute be dp cparams = Inr (ret, dp', psh, ev)" |
    (v) "pl_dispatch_vertex be dp vparams = Inr (ret, dp', psh, ev)"
    by auto
  then show ?thesis
  proof cases
    case f
    from entry_result [OF f [unfolded pl_dispatch_finish_def]] obtain sh dp1 sh1 where
      "finish_body be dp sh fparams = Inr (ret, dp1, sh1, ev)"
      "dp' = dp1\<lparr>shaders := shaders dp1 @ [sh1]\<rparr>" "psh = None" by blast
    with finish_body_cases [of be dp sh fparams ret dp1 sh1 ev] show ?thesis by blast
  next
    case c
    from entry_result [OF c [unfolded pl_dispatch_compute_def]] obtain sh dp1 sh1 where
      "compute_body be dp sh cparams = Inr (ret, dp1, sh1, ev)"
      "dp' = dp1\<lparr>shaders := shaders dp1 @ [sh1]\<rparr>" "psh = None" by blast
    with compute_body_cases [of be dp sh cparams ret dp1 sh1 ev] show ?thesis by blast
  next
    case v
    from entry_result [OF v [unfolded pl_dispatch_vertex_def]] obtain sh dp1 sh1 where
      "vertex_body be dp sh vparams = Inr (ret, dp1, sh1, ev)"
      "dp' = dp1\<lparr>shaders := shaders dp1 @ [sh1]\<rparr>" "psh = None" by blast
    with vertex_body_cases [of be dp sh vparams ret dp1 sh1 ev] show ?thesis by blast
  qed
qed

text \<open>
  The operations other than the three entry points leave the records \<^verbatim>\<open>dp->passes\<close> as
  they are, so that a property of all records that the entry points preserve holds of
  every dispatch object reached from \<^verbatim>\<open>pl_dispatch_create\<close>.
\<close>

lemma load_entries_passes:
  "load_entries k dp cache = Inr dp' \<Longrightarrow> passes dp' = passes dp"
proof (induction k arbitrary: dp cache)
  case 0
  then show ?case by simp
next
  case (Suc k)
  from Suc.prems show ?case
    by (auto simp: bindE_def split: sum.splits if_splits prod.splits dest!: Suc.IH)
qed

lemma pl_dispatch_load_passes:
  "pl_dispatch_load dp cache = Inr (dp', ev) \<Longrightarrow> passes dp' = passes dp"
  by (auto simp: pl_dispatch_load_def bindE_def split: sum.splits if_splits prod.splits
      dest: load_entries_passes)

lemma pool_ops_passes:
  "passes (snd (pl_dispatch_begin_ex dp u)) = passes dp"
  "passes (pl_dispatch_reset_frame dp) = passes dp"
  "passes (fst (pl_dispatch_abort dp psh)) = passes dp"
  by (simp_all add: pl_dispatch_begin_ex_def Let_def pl_dispatch_reset_frame_def
      pl_dispatch_abort_def split: option.splits)

lemma body_shaders:
  "finish_body be dp sh fparams = Inr (ret, dp1, sh1, ev) \<Longrightarrow> shaders dp1 = shaders dp"
  "compute_body be dp sh cparams = Inr (ret, dp1, sh1, ev) \<Longrightarrow> shaders dp1 = shaders dp"
  "vertex_body be dp sh vparams = Inr (ret, dp1, sh1, ev) \<Longrightarrow> shaders dp1 = shaders dp"
  using finish_body_cases [of be dp sh fparams ret dp1 sh1 ev]
    compute_body_cases [of be dp sh cparams ret dp1 sh1 ev]
    vertex_body_cases [of be dp sh vparams ret dp1 sh1 ev]
    dispatch_pass_shaders [of be dp _ _ _ _ _ _ ret dp1 sh1 ev]
  by blast+

lemma pool_restore:
  "dp2 = dp1\<lparr>shaders := xs @ [s]\<rparr> \<Longrightarrow> shaders dp1 = xs \<Longrightarrow> dp1 = dp2\<lparr>shaders := xs\<rparr>"
  by (cases dp1) simp

text \<open>
  C10: whenever \<^verbatim>\<open>pl_dispatch_finish\<close>, \<^verbatim>\<open>pl_dispatch_compute\<close> or \<^verbatim>\<open>pl_dispatch_vertex\<close>
  returns, with either result, the caller's handle held an accumulator, the body of the
  entry point has reached the label \<^verbatim>\<open>error\<close> with that result and these events and
  with the pool as it was before the call, the caller's handle is null, and the pool is
  the pool before the call with the accumulator appended, in the state in which the body
  has left it. \<^verbatim>\<open>pl_dispatch_abort\<close> on a handle that is already null returns the
  dispatch object and the handle as they are; on any other handle it appends the
  accumulator that the handle holds.
\<close>

theorem dispatch_recycles_shader:
  "(pl_dispatch_finish be dp fparams = Inr (ret, dp', psh, ev) \<longrightarrow>
      psh = None \<and>
      (\<exists>sh dp1 sh1. dp_shader fparams = Some sh \<and>
         finish_body be dp sh fparams = Inr (ret, dp1, sh1, ev) \<and>
         shaders dp1 = shaders dp \<and> dp' = dp1\<lparr>shaders := shaders dp @ [sh1]\<rparr>)) \<and>
   (pl_dispatch_compute be dp cparams = Inr (ret, dp', psh, ev) \<longrightarrow>
      psh = None \<and>
      (\<exists>sh dp1 sh1. cp_shader cparams = Some sh \<and>
         compute_body be dp sh cparams = Inr (ret, dp1, sh1, ev) \<and>
         shaders dp1 = shaders dp \<and> dp' = dp1\<lparr>shaders := shaders dp @ [sh1]\<rparr>)) \<and>
   (pl_dispatch_vertex be dp vparams = Inr (ret, dp', psh, ev) \<longrightarrow>
      psh = None \<and>
      (\<exists>sh dp1 sh1. vp_shader vparams = Some sh \<and>
         vertex_body be dp sh vparams = Inr (ret, dp1, sh1, ev) \<and>
         shaders dp1 = shaders dp \<and> dp' = dp1\<lparr>shaders := shaders dp @ [sh1]\<rparr>)) \<and>
   pl_dispatch_abort dp None = (dp, None) \<and>
   pl_dispatch_abort dp (Some sh0) = (dp\<lparr>shaders := shaders dp @ [sh0]\<rparr>, None)"
proof (intro conjI impI)
  assume f: "pl_dispatch_finish be dp fparams = Inr (ret, dp', psh, ev)"
  from entry_result [OF f [unfolded pl_dispatch_finish_def]] obtain sh dp1 sh1 where
    r: "dp_shader fparams = Some sh" "finish_body be dp sh fparams = Inr (ret, dp1, sh1, ev)"
      "dp' = dp1\<lparr>shaders := shaders dp1 @ [sh1]\<rparr>" "psh = None" by blast
  from r(4) show "psh = None" .
  from r body_shaders(1) [OF r(2)]
  show "\<exists>sh dp1 sh1. dp_shader fparams = Some sh \<and>
         finish_body be dp sh fparams = Inr (ret, dp1, sh1, ev) \<and>
         shaders dp1 = shaders dp \<and> dp' = dp1\<lparr>shaders := shaders dp @ [sh1]\<rparr>"
    by (intro exI [of _ sh] exI [of _ dp1] exI [of _ sh1]) simp
next
  assume c: "pl_dispatch_compute be dp cparams = Inr (ret, dp', psh, ev)"
  from entry_result [OF c [unfolded pl_dispatch_compute_def]] obtain sh dp1 sh1 where
    r: "cp_shader cparams = Some sh" "compute_body be dp sh cparams = Inr (ret, dp1, sh1, ev)"
      "dp' = dp1\<lparr>shaders := shaders dp1 @ [sh1]\<rparr>" "psh = None" by blast
  from r(4) show "psh = None" .
  from r body_shaders(2) [OF r(2)]
  show "\<exists>sh dp1 sh1. cp_shader cparams = Some sh \<and>
         compute_body be dp sh cparams = Inr (ret, dp1, sh1, ev) \<and>
         shaders dp1 = shaders dp \<and> dp' = dp1\<lparr>shaders := shaders dp @ [sh1]\<rparr>"
    by (intro exI [of _ sh] exI [of _ dp1] exI [of _ sh1]) simp
next
  assume v: "pl_dispatch_vertex be dp vparams = Inr (ret, dp', psh, ev)"
  from entry_result [OF v [unfolded pl_dispatch_vertex_def]] obtain sh dp1 sh1 where
    r: "vp_shader vparams = Some sh" "vertex_body be dp sh vparams = Inr (ret, dp1, sh1, ev)"
      "dp' = dp1\<lparr>shaders := shaders dp1 @ [sh1]\<rparr>" "psh = None" by blast
  from r(4) show "psh = None" .
  from r body_shaders(3) [OF r(2)]
  show "\<exists>sh dp1 sh1. vp_shader vparams = Some sh \<and>
         vertex_body be dp sh vparams = Inr (ret, dp1, sh1, ev) \<and>
         shaders dp1 = shaders dp \<and> dp' = dp1\<lparr>shaders := shaders dp @ [sh1]\<rparr>"
    by (intro exI [of _ sh] exI [of _ dp1] exI [of _ sh1]) simp
next
  show "pl_dispatch_abort dp None = (dp, None)"
    by (simp add: pl_dispatch_abort_def)
  show "pl_dispatch_abort dp (Some sh0) = (dp\<lparr>shaders := shaders dp @ [sh0]\<rparr>, None)"
    by (simp add: pl_dispatch_abort_def)
qed

text \<open>
  C10 on a fresh dispatch object: a compute dispatch that succeeds, a raster dispatch of
  a failed shader, and a vertex dispatch whose position index is out of range. Each
  call leaves the accumulator it was handed in the pool.
\<close>

theorem dispatch_recycles_shader_witness:
  "pl_dispatch_compute example_backend pl_dispatch_create var_call =
     Inr (True, pl_dispatch_create\<lparr>passes := [var_record], shaders := [var_shader]\<rparr>, None,
          [PassCreate 2 var_params,
           PushcWrite \<lparr>lay_offset = 0, lay_stride = 4, lay_size = 4\<rparr>,
           PushcWrite \<lparr>lay_offset = 4, lay_stride = 4, lay_size = 4\<rparr>,
           PassRun 0]) \<and>
   compute_body example_backend pl_dispatch_create var_shader var_call =
     Inr (True, pl_dispatch_create\<lparr>passes := [var_record]\<rparr>, var_shader,
          [PassCreate 2 var_params,
           PushcWrite \<lparr>lay_offset = 0, lay_stride = 4, lay_size = 4\<rparr>,
           PushcWrite \<lparr>lay_offset = 4, lay_stride = 4, lay_size = 4\<rparr>,
           PassRun 0]) \<and>
   pl_dispatch_finish example_backend pl_dispatch_create failed_call =
     Inr (False, pl_dispatch_create\<lparr>shaders := [fragment_shader\<lparr>sh_failed := True\<rparr>]\<rparr>, None,
          [Log PL_LOG_ERR ''Trying to dispatch a failed shader.'']) \<and>
   finish_body example_backend pl_dispatch_create (fragment_shader\<lparr>sh_failed := True\<rparr>)
       failed_call =
     Inr (False, pl_dispatch_create, fragment_shader\<lparr>sh_failed := True\<rparr>,
          [Log PL_LOG_ERR ''Trying to dispatch a failed shader.'']) \<and>
   pl_dispatch_vertex example_backend pl_dispatch_create bad_index_call =
     Inr (False, pl_dispatch_create\<lparr>shaders := [fragment_shader]\<rparr>, None,
          [Log PL_LOG_ERR ''Vertex position index out of range?'']) \<and>
   vertex_body example_backend pl_dispatch_create fragment_shader bad_index_call =
     Inr (False, pl_dispatch_create, fragment_shader,
          [Log PL_LOG_ERR ''Vertex position index out of range?''])"
proof -
  let ?ev = "[PassCreate 2 var_params,
              PushcWrite \<lparr>lay_offset = 0, lay_stride = 4, lay_size = 4\<rparr>,
              PushcWrite \<lparr>lay_offset = 4, lay_stride = 4, lay_size = 4\<rparr>,
              PassRun 0]"
  have pool: "shaders pl_dispatch_create = []"
    by (simp add: pl_dispatch_create_def)
  note rest = pool_restore [where xs = "[]"]
  have f: "pl_dispatch_finish example_backend pl_dispatch_create failed_call =
     Inr (False, pl_dispatch_create\<lparr>shaders := [fragment_shader\<lparr>sh_failed := True\<rparr>]\<rparr>, None,
          [Log PL_LOG_ERR ''Trying to dispatch a failed shader.''])"
    by (simp add: pl_dispatch_finish_def failed_call_def finish_body_def bindE_Inr
        pl_dispatch_abort_def pl_dispatch_create_def)
  have v: "pl_dispatch_vertex example_backend pl_dispatch_create bad_index_call =
     Inr (False, pl_dispatch_create\<lparr>shaders := [fragment_shader]\<rparr>, None,
          [Log PL_LOG_ERR ''Vertex position index out of range?''])"
    by (simp add: pl_dispatch_vertex_def bad_index_call_def vertex_body_def bindE_Inr
        pl_dispatch_abort_def pl_dispatch_create_def fragment_shader_def pl_shader_alloc_def
        example_tex_def)
  from dispatch_recycles_shader
    [of example_backend pl_dispatch_create failed_call True
        "pl_dispatch_create\<lparr>passes := [var_record], shaders := [var_shader]\<rparr>" None ?ev
        var_call bad_index_call]
    var_call_result
  obtain sh dp1 sh1 where c1: "cp_shader var_call = Some sh"
    "compute_body example_backend pl_dispatch_create sh var_call = Inr (True, dp1, sh1, ?ev)"
    "shaders dp1 = shaders pl_dispatch_create"
    "pl_dispatch_create\<lparr>passes := [var_record], shaders := [var_shader]\<rparr> =
       dp1\<lparr>shaders := shaders pl_dispatch_create @ [sh1]\<rparr>"
    by blast
  from c1(1) have "sh = var_shader" by (simp add: var_call_def)
  moreover from c1(4) have "sh1 = var_shader"
    by (cases dp1) (simp add: pool pl_dispatch_create_def)
  moreover from rest [OF c1(4) [unfolded pool] c1(3) [unfolded pool]]
  have "dp1 = pl_dispatch_create\<lparr>passes := [var_record]\<rparr>"
    by (simp add: pl_dispatch_create_def)
  ultimately have cb: "compute_body example_backend pl_dispatch_create var_shader var_call =
     Inr (True, pl_dispatch_create\<lparr>passes := [var_record]\<rparr>, var_shader, ?ev)"
    using c1(2) by simp
  from dispatch_recycles_shader
    [of example_backend pl_dispatch_create failed_call False
        "pl_dispatch_create\<lparr>shaders := [fragment_shader\<lparr>sh_failed := True\<rparr>]\<rparr>" None
        "[Log PL_LOG_ERR ''Trying to dispatch a failed shader.'']" var_call bad_index_call]
    f
  obtain sh dp1 sh1 where f1: "dp_shader failed_call = Some sh"
    "finish_body example_backend pl_dispatch_create sh failed_call =
       Inr (False, dp1, sh1, [Log PL_LOG_ERR ''Trying to dispatch a failed shader.''])"
    "shaders dp1 = shaders pl_dispatch_create"
    "pl_dispatch_create\<lparr>shaders := [fragment_shader\<lparr>sh_failed := True\<rparr>]\<rparr> =
       dp1\<lparr>shaders := shaders pl_dispatch_create @ [sh1]\<rparr>"
    by blast
  from f1(1) have "sh = fragment_shader\<lparr>sh_failed := True\<rparr>" by (simp add: failed_call_def)
  moreover from f1(4) have "sh1 = fragment_shader\<lparr>sh_failed := True\<rparr>"
    by (cases dp1) (simp add: pool pl_dispatch_create_def)
  moreover from rest [OF f1(4) [unfolded pool] f1(3) [unfolded pool]]
  have "dp1 = pl_dispatch_create"
    by (simp add: pl_dispatch_create_def)
  ultimately have fb: "finish_body example_backend pl_dispatch_create
       (fragment_shader\<lparr>sh_failed := True\<rparr>) failed_call =
     Inr (False, pl_dispatch_create, fragment_shader\<lparr>sh_failed := True\<rparr>,
          [Log PL_LOG_ERR ''Trying to dispatch a failed shader.''])"
    using f1(2) by simp
  from dispatch_recycles_shader
    [of example_backend pl_dispatch_create failed_call False
        "pl_dispatch_create\<lparr>shaders := [fragment_shader]\<rparr>" None
        "[Log PL_LOG_ERR ''Vertex position index out of range?'']" var_call bad_index_call]
    v
  obtain sh dp1 sh1 where v1: "vp_shader bad_index_call = Some sh"
    "vertex_body example_backend pl_dispatch_create sh bad_index_call =
       Inr (False, dp1, sh1, [Log PL_LOG_ERR ''Vertex position index out of range?''])"
    "shaders dp1 = shaders pl_dispatch_create"
    "pl_dispatch_create\<lparr>shaders := [fragment_shader]\<rparr> =
       dp1\<lparr>shaders := shaders pl_dispatch_create @ [sh1]\<rparr>"
    by blast
  from v1(1) have "sh = fragment_shader" by (simp add: bad_index_call_def)
  moreover from v1(4) have "sh1 = fragment_shader"
    by (cases dp1) (simp add: pool pl_dispatch_create_def)
  moreover from rest [OF v1(4) [unfolded pool] v1(3) [unfolded pool]]
  have "dp1 = pl_dispatch_create"
    by (simp add: pl_dispatch_create_def)
  ultimately have vb: "vertex_body example_backend pl_dispatch_create fragment_shader
       bad_index_call =
     Inr (False, pl_dispatch_create, fragment_shader,
          [Log PL_LOG_ERR ''Vertex position index out of range?''])"
    using v1(2) by simp
  from var_call_result cb f fb v vb show ?thesis by simp
qed

text \<open>
  C6: let the push-constant budget be a multiple of 4 or every std430 layout end on a
  multiple of 4, and let every record of the dispatch object be placed, as it is for a
  new dispatch object. Then after a call of one of the three entry points every record
  is placed again, and if the call returned \<^verbatim>\<open>true\<close>, the pass has been run on a record
  with a pass that has an entry for every variable of the accumulator, all of whose
  entries have a placement other than \<^verbatim>\<open>PASS_VAR_NONE\<close>, and whose push-constant size is
  a multiple of 4 and at most \<^verbatim>\<open>max_pushc_size\<close>.
\<close>

theorem dispatch_placement:
  assumes "pushc_aligned be" and "\<forall>p \<in> set (passes dp). pass_placed be p"
    and "r = pl_dispatch_finish be dp fparams \<or> r = pl_dispatch_compute be dp cparams \<or>
         r = pl_dispatch_vertex be dp vparams"
    and "r = Inr (ret, dp', psh, ev)"
  shows "(\<forall>p \<in> set (passes dp'). pass_placed be p) \<and>
         (ret \<longrightarrow>
            (\<exists>i<length (passes dp'). \<exists>pp.
               PassRun i \<in> set ev \<and> pass (passes dp' ! i) = Some pp \<and>
               length (sh_vars (last (shaders dp'))) \<le> length (vars (passes dp' ! i)) \<and>
               (\<forall>pv \<in> set (vars (passes dp' ! i)). pv_type pv \<noteq> PASS_VAR_NONE) \<and>
               4 dvd pp_push_constants_size (pass_params pp) \<and>
               pp_push_constants_size (pass_params pp) \<le> max_pushc_size be))"
proof -
  from entry_cases [OF assms(3,4)]
  obtain dp1 sh1 where e: "dp' = dp1\<lparr>shaders := shaders dp1 @ [sh1]\<rparr>"
    and d: "(\<not> ret \<and> dp1 = dp) \<or>
             (\<exists>sh2 target blend load vp g.
                dispatch_pass be dp sh2 target blend load vp g = Inr (ret, dp1, sh1, ev))"
    by blast
  from d show ?thesis
  proof
    assume "\<not> ret \<and> dp1 = dp"
    with assms(2) show ?thesis by (simp add: e)
  next
    assume "\<exists>sh2 target blend load vp g.
                dispatch_pass be dp sh2 target blend load vp g = Inr (ret, dp1, sh1, ev)"
    then obtain sh2 target blend load vp g where
      dd: "dispatch_pass be dp sh2 target blend load vp g = Inr (ret, dp1, sh1, ev)" by blast
    from dispatch_pass_placed [OF assms(1,2) dd]
    have inv: "\<forall>p \<in> set (passes dp1). pass_placed be p"
      and run: "ret \<longrightarrow> (\<exists>i<length (passes dp1).
                    PassRun i \<in> set ev \<and> pass (passes dp1 ! i) \<noteq> None \<and>
                    length (sh_vars sh1) \<le> length (vars (passes dp1 ! i)))"
      by simp_all
    have "\<exists>i<length (passes dp'). \<exists>pp.
               PassRun i \<in> set ev \<and> pass (passes dp' ! i) = Some pp \<and>
               length (sh_vars (last (shaders dp'))) \<le> length (vars (passes dp' ! i)) \<and>
               (\<forall>pv \<in> set (vars (passes dp' ! i)). pv_type pv \<noteq> PASS_VAR_NONE) \<and>
               4 dvd pp_push_constants_size (pass_params pp) \<and>
               pp_push_constants_size (pass_params pp) \<le> max_pushc_size be" if ret
    proof -
      from run that obtain i where i: "i < length (passes dp1)" "PassRun i \<in> set ev"
        "pass (passes dp1 ! i) \<noteq> None" "length (sh_vars sh1) \<le> length (vars (passes dp1 ! i))"
        by blast
      then obtain pp where pp: "pass (passes dp1 ! i) = Some pp" by auto
      from inv i(1) have "pass_placed be (passes dp1 ! i)" by simp
      with pp have "(\<forall>pv \<in> set (vars (passes dp1 ! i)). pv_type pv \<noteq> PASS_VAR_NONE) \<and>
               4 dvd pp_push_constants_size (pass_params pp) \<and>
               pp_push_constants_size (pass_params pp) \<le> max_pushc_size be"
        by (simp add: pass_placed_def)
      with i pp show ?thesis by (auto simp: e)
    qed
    with inv show ?thesis by (simp add: e)
  qed
qed

text \<open>
  C6 for the shader with two variables on a fresh dispatch object and the example
  backend, whose budget of 128 bytes is a multiple of 4.
\<close>

theorem dispatch_placement_witness:
  "pl_dispatch_compute example_backend pl_dispatch_create var_call =
     Inr (True, pl_dispatch_create\<lparr>passes := [var_record], shaders := [var_shader]\<rparr>, None,
          [PassCreate 2 var_params,
           PushcWrite \<lparr>lay_offset = 0, lay_stride = 4, lay_size = 4\<rparr>,
           PushcWrite \<lparr>lay_offset = 4, lay_stride = 4, lay_size = 4\<rparr>,
           PassRun 0]) \<and>
   length (sh_vars var_shader) \<le> length (vars var_record) \<and>
   pv_type (vars var_record ! 0) \<noteq> PASS_VAR_NONE \<and>
   pv_type (vars var_record ! 1) \<noteq> PASS_VAR_NONE \<and>
   4 dvd pp_push_constants_size var_params \<and>
   pp_push_constants_size var_params \<le> max_pushc_size example_backend"
proof -
  let ?dp = "pl_dispatch_create\<lparr>passes := [var_record], shaders := [var_shader]\<rparr>"
  let ?ev = "[PassCreate 2 var_params,
              PushcWrite \<lparr>lay_offset = 0, lay_stride = 4, lay_size = 4\<rparr>,
              PushcWrite \<lparr>lay_offset = 4, lay_stride = 4, lay_size = 4\<rparr>,
              PassRun 0]"
  have h1: "pushc_aligned example_backend"
    by (simp add: pushc_aligned_def example_backend_def)
  have h2: "\<forall>p \<in> set (passes pl_dispatch_create). pass_placed example_backend p"
    by (simp add: pl_dispatch_create_def)
  have h3: "pl_dispatch_compute example_backend pl_dispatch_create var_call =
              pl_dispatch_finish example_backend pl_dispatch_create failed_call \<or>
            pl_dispatch_compute example_backend pl_dispatch_create var_call =
              pl_dispatch_compute example_backend pl_dispatch_create var_call \<or>
            pl_dispatch_compute example_backend pl_dispatch_create var_call =
              pl_dispatch_vertex example_backend pl_dispatch_create bad_index_call"
    by simp
  from dispatch_placement [OF h1 h2 h3 var_call_result]
  obtain i pp where i: "i < length (passes ?dp)" "PassRun i \<in> set ?ev"
    "pass (passes ?dp ! i) = Some pp"
    "length (sh_vars (last (shaders ?dp))) \<le> length (vars (passes ?dp ! i))"
    "\<forall>pv \<in> set (vars (passes ?dp ! i)). pv_type pv \<noteq> PASS_VAR_NONE"
    "4 dvd pp_push_constants_size (pass_params pp)"
    "pp_push_constants_size (pass_params pp) \<le> max_pushc_size example_backend"
    by blast
  from i(2) have i0: "i = 0" by simp
  from i(3) have pp: "pass_params pp = var_params\<lparr>pp_cached_program := [0x2A]\<rparr>"
    by (auto simp: i0 var_record_def)
  have two: "length (vars var_record) = 2" by (simp add: var_record_def)
  from i(5) two have "pv_type (vars var_record ! 0) \<noteq> PASS_VAR_NONE"
    "pv_type (vars var_record ! 1) \<noteq> PASS_VAR_NONE"
    by (simp_all add: i0)
  moreover from i(4) have "length (sh_vars var_shader) \<le> length (vars var_record)"
    by (simp add: i0)
  moreover from i(6,7) pp have "4 dvd pp_push_constants_size var_params"
    "pp_push_constants_size var_params \<le> max_pushc_size example_backend"
    by simp_all
  ultimately show ?thesis using var_call_result by simp
qed

subsection \<open>Failed passes stay until they are evicted\<close>

lemma add_pass_var_events:
  "add_pass_var be ud params sv pv g = (ok, pv', ud', params', ev) \<Longrightarrow>
   \<forall>e \<in> set ev. \<exists>l m. e = Log l m"
  by (auto simp: add_pass_var_def Let_def split: if_splits option.splits prod.splits)

lemma place_vars_events:
  "place_vars be g svs pvs ud params = (ok, pvs', ud', params', ev) \<Longrightarrow>
   \<forall>e \<in> set ev. \<exists>l m. e = Log l m"
proof (induction svs arbitrary: pvs ud params ok pvs' ud' params' ev)
  case Nil
  then show ?case by simp
next
  case (Cons sv svs)
  show ?case
  proof (cases pvs)
    case Nil
    with Cons.prems show ?thesis by simp
  next
    case c: (Cons pv pvs0)
    obtain ok1 pv1 ud1 params1 ev1 where
      a: "add_pass_var be ud params sv pv g = (ok1, pv1, ud1, params1, ev1)"
      by (cases "add_pass_var be ud params sv pv g")
    note l1 = add_pass_var_events [OF a]
    show ?thesis
    proof (cases ok1)
      case False
      with Cons.prems c a l1 show ?thesis by simp
    next
      case True
      obtain ok2 pvs2 ud2 params2 ev2 where
        b: "place_vars be g svs pvs0 ud1 params1 = (ok2, pvs2, ud2, params2, ev2)"
        by (cases "place_vars be g svs pvs0 ud1 params1")
      from Cons.prems c a b True have "ev = ev1 @ ev2" by simp
      with l1 Cons.IH [OF b] show ?thesis by auto
    qed
  qed
qed

lemma construct_pass_events:
  assumes c: "construct_pass be sh pass0 params0 vparams = Inr (p, sh', ev)"
    and p0: "pass pass0 = None"
  shows "signature p = signature pass0"
    and "PassCreate s prm \<in> set ev \<Longrightarrow> s = signature pass0"
    and "PassCreate s prm \<in> set ev \<Longrightarrow> pl_pass_create be prm sh' = None \<Longrightarrow> pass p = None"
    and "PassDestroy s \<notin> set ev"
proof -
  let ?vars0 = "replicate (length (sh_vars sh))
                  \<lparr>pv_index = 0, pv_type = PASS_VAR_NONE,
                   pv_layout = \<lparr>lay_offset = 0, lay_stride = 0, lay_size = 0\<rparr>,
                   pv_cached_data = None\<rparr>"
  obtain ok1 vars1 ud1 params1 ev1 where
    a: "place_vars be False (sh_vars sh) ?vars0 (ubo_desc pass0) params0 =
          (ok1, vars1, ud1, params1, ev1)"
    by (cases "place_vars be False (sh_vars sh) ?vars0 (ubo_desc pass0) params0")
  obtain ok2 vars2 ud2 params2 ev2 where
    b: "place_vars be True (sh_vars sh) vars1 ud1 params1 = (ok2, vars2, ud2, params2, ev2)"
    by (cases "place_vars be True (sh_vars sh) vars1 ud1 params1")
  from place_vars_events [OF a] place_vars_events [OF b]
  have l: "PassCreate s prm \<notin> set ev1" "PassCreate s prm \<notin> set ev2"
    "PassDestroy s \<notin> set ev1" "PassDestroy s \<notin> set ev2" for s prm
    by auto
  from c show "signature p = signature pass0"
    by (auto simp: construct_pass_def a b Let_def split: if_splits option.splits)
  from c l show "PassCreate s prm \<in> set ev \<Longrightarrow> s = signature pass0"
    by (auto simp: construct_pass_def a b Let_def split: if_splits option.splits)
  from c l p0
  show "PassCreate s prm \<in> set ev \<Longrightarrow> pl_pass_create be prm sh' = None \<Longrightarrow> pass p = None"
    by (auto simp: construct_pass_def a b Let_def split: if_splits option.splits)
  from c l show "PassDestroy s \<notin> set ev"
    by (auto simp: construct_pass_def a b Let_def split: if_splits option.splits)
qed

lemma gc_events:
  assumes "garbage_collect_passes dp = (dp1, ev)"
  shows "PassCreate s prm \<notin> set ev"
    and "p \<in> set (passes dp) \<Longrightarrow> p \<in> set (passes dp1) \<or> PassDestroy (signature p) \<in> set ev"
proof -
  from assms show "PassCreate s prm \<notin> set ev"
    by (auto simp: garbage_collect_passes_def Let_def split: if_splits)
  show "p \<in> set (passes dp1) \<or> PassDestroy (signature p) \<in> set ev" if p: "p \<in> set (passes dp)"
  proof (cases "int (length (passes dp)) \<le> max_passes dp")
    case True
    with assms p show ?thesis by (simp add: garbage_collect_passes_def)
  next
    case False
    let ?s = "qsort cmp_pass_age (passes dp)"
    let ?i = "gc_scan dp ?s (length ?s div 2)"
    from False assms have e: "passes dp1 = take ?i ?s"
      "ev = map (\<lambda>p. PassDestroy (signature p)) (drop ?i ?s)"
      by (auto simp: garbage_collect_passes_def Let_def split: if_splits)
    have "set ?s = set (passes dp)"
      by (rule mset_eq_setD [OF mset_qsort])
    with p have "p \<in> set (take ?i ?s @ drop ?i ?s)" by simp
    then have "p \<in> set (take ?i ?s) \<or> p \<in> set (drop ?i ?s)"
      unfolding set_append by blast
    with e show ?thesis by auto
  qed
qed

lemma lookup_pass_sentinel:
  assumes "\<exists>p \<in> set ps. signature p = sig"
    and "\<forall>p \<in> set ps. signature p = sig \<longrightarrow> pass p = None"
  shows "\<exists>j<length ps. lookup_pass be sh sig target blend load vparams ps i = Inr (Some (i + j)) \<and>
           signature (ps ! j) = sig \<and> pass (ps ! j) = None"
  using assms
proof (induction ps arbitrary: i)
  case Nil
  then show ?case by simp
next
  case (Cons q qs)
  show ?case
  proof (cases "signature q = sig")
    case True
    with Cons.prems(2) have "pass q = None" by simp
    with True have "0 < length (q # qs) \<and>
        lookup_pass be sh sig target blend load vparams (q # qs) i = Inr (Some (i + 0)) \<and>
        signature ((q # qs) ! 0) = sig \<and> pass ((q # qs) ! 0) = None"
      by simp
    then show ?thesis by blast
  next
    case False
    with Cons.prems have "\<exists>p \<in> set qs. signature p = sig"
      "\<forall>p \<in> set qs. signature p = sig \<longrightarrow> pass p = None" by auto
    from Cons.IH [OF this, of "Suc i"] obtain j where j: "j < length qs"
      "lookup_pass be sh sig target blend load vparams qs (Suc i) = Inr (Some (Suc i + j))"
      "signature (qs ! j) = sig" "pass (qs ! j) = None" by blast
    with False have "Suc j < length (q # qs) \<and>
        lookup_pass be sh sig target blend load vparams (q # qs) i = Inr (Some (i + Suc j)) \<and>
        signature ((q # qs) ! Suc j) = sig \<and> pass ((q # qs) ! Suc j) = None"
      by simp
    then show ?thesis by blast
  qed
qed

lemma lookup_pass_none:
  "lookup_pass be sh sig target blend load vparams ps i = Inr None \<Longrightarrow>
   \<forall>p \<in> set ps. signature p = sig \<longrightarrow> pass p \<noteq> None"
  by (induction ps arbitrary: i) (auto split: if_splits option.splits)

lemma sentinel_only_shaders [simp]:
  "sentinel_only s (dp\<lparr>shaders := xs\<rparr>) = sentinel_only s dp"
  by (simp add: sentinel_only_def)

lemma sentinel_only_update:
  assumes "\<And>p. signature (f p) = signature p" and "\<And>p. pass (f p) = pass p"
  shows "sentinel_only s (dp\<lparr>passes := (passes dp)[i := f (passes dp ! i)]\<rparr>) = sentinel_only s dp"
proof -
  let ?g = "\<lambda>p. (signature p, pass p)"
  have m: "map ?g ((passes dp)[i := f (passes dp ! i)]) = map ?g (passes dp)"
    by (cases "i < length (passes dp)")
      (auto simp: list_eq_iff_nth_eq nth_list_update assms)
  have s: "sentinel_only s d =
           ((s, None) \<in> set (map ?g (passes d)) \<and>
            (\<forall>x \<in> set (map ?g (passes d)). fst x = s \<longrightarrow> snd x = None))" for d
    by (force simp: sentinel_only_def)
  have p: "passes (dp\<lparr>passes := (passes dp)[i := f (passes dp ! i)]\<rparr>) =
           (passes dp)[i := f (passes dp ! i)]"
    by simp
  show ?thesis
    by (simp only: s p m)
qed

lemma find_pass_sticky:
  assumes so: "sentinel_only s dp"
    and fp: "find_pass be dp sh target blend load vparams = Inr (dp', i, sh', ev)"
  shows "PassCreate s prm \<notin> set ev" and "sentinel_only s dp' \<or> PassDestroy s \<in> set ev"
proof -
  let ?sig = "pl_shader_signature be sh"
  let ?pass0 = "\<lparr>signature = ?sig, pass = None, last_index = uint (current_index dp),
                 vars = [], ubo = None, ubo_desc = []\<rparr>"
  let ?dp0 = "dp\<lparr>cached_passes := snd (take_cached ?sig (cached_passes dp))\<rparr>"
  have "PassCreate s prm \<notin> set ev \<and> (sentinel_only s dp' \<or> PassDestroy s \<in> set ev)"
    using fp
  proof (cases rule: find_pass_cases)
    case hit
    have "sentinel_only s dp' = sentinel_only s dp"
      unfolding hit(2)
      by (rule sentinel_only_update [where f = "\<lambda>p. p\<lparr>last_index := uint (current_index dp)\<rparr>"])
        simp_all
    with so hit show ?thesis by simp
  next
    case miss
    from lookup_pass_none [OF miss(1)] so have ne: "?sig \<noteq> s"
      by (auto simp: sentinel_only_def)
    from miss(2) obtain params1 pass1 ev1 dp1 evgc where
      cp: "construct_pass be sh ?pass0 params1 vparams = Inr (pass1, sh', ev1)"
      and gc: "garbage_collect_passes ?dp0 = (dp1, evgc)"
      and e: "dp' = dp1\<lparr>passes := passes dp1 @ [pass1\<lparr>ubo_desc := []\<rparr>]\<rparr>" "ev = ev1 @ evgc"
      by (rule new_pass_cases)
    from construct_pass_events(1,2) [OF cp] ne
    have s1: "signature pass1 \<noteq> s" and c1: "PassCreate s prm \<notin> set ev1"
      by auto
    from gc_events(1) [OF gc] have c2: "PassCreate s prm \<notin> set evgc" .
    have sub: "set (passes dp1) \<subseteq> set (passes dp)"
      using gc_passes_subset [OF gc] by simp
    have "sentinel_only s dp' \<or> PassDestroy s \<in> set evgc"
    proof (cases "\<exists>p \<in> set (passes dp1). signature p = s")
      case True
      with so sub s1 show ?thesis by (auto simp: sentinel_only_def e)
    next
      case False
      from so obtain p where p: "p \<in> set (passes dp)" "signature p = s"
        by (auto simp: sentinel_only_def)
      with gc_events(2) [OF gc, of p] False show ?thesis by auto
    qed
    with c1 c2 show ?thesis by (auto simp: e)
  qed
  then show "PassCreate s prm \<notin> set ev" and "sentinel_only s dp' \<or> PassDestroy s \<in> set ev"
    by simp_all
qed

lemma update_pass_var_events:
  "update_pass_var be p sv pv = Inr (pv', ev) \<Longrightarrow>
   PassCreate s prm \<notin> set ev \<and> PassDestroy s \<notin> set ev"
  by (auto simp: update_pass_var_def Let_def split: if_splits pass_var_type.splits)

lemma update_vars_events:
  "update_vars be p svs pvs = Inr (pvs', ev) \<Longrightarrow>
   PassCreate s prm \<notin> set ev \<and> PassDestroy s \<notin> set ev"
proof (induction svs arbitrary: pvs pvs' ev)
  case Nil
  then show ?case by simp
next
  case (Cons sv svs)
  show ?case
  proof (cases pvs)
    case Nil
    with Cons.prems show ?thesis by simp
  next
    case c: (Cons pv pvs0)
    from Cons.prems c obtain pv1 ev1 where
      a: "update_pass_var be p sv pv = Inr (pv1, ev1)"
      by (cases "update_pass_var be p sv pv") (auto simp: bindE_Inl)
    from Cons.prems c a obtain pvs1 ev2 where
      b: "update_vars be p svs pvs0 = Inr (pvs1, ev2)"
      by (cases "update_vars be p svs pvs0") (auto simp: bindE_Inl bindE_Inr)
    from Cons.prems c a b have e: "ev = ev1 @ ev2" by (simp add: bindE_Inr)
    from Cons.IH [OF b] update_pass_var_events [OF a] show ?thesis by (simp add: e)
  qed
qed

lemma dispatch_pass_sticky:
  assumes so: "sentinel_only s dp"
    and d: "dispatch_pass be dp sh target blend load vparams g = Inr (ret, dp', sh', ev)"
  shows "PassCreate s prm \<notin> set ev \<and> (sentinel_only s dp' \<or> PassDestroy s \<in> set ev)"
  using d
proof (cases rule: dispatch_pass_cases)
  case (failed dp1 i)
  from find_pass_sticky [OF so failed(1)] failed(4) show ?thesis by simp
next
  case (run dp1 i ev1 pvs ev2)
  note f = find_pass_sticky [OF so run(1)]
  have "sentinel_only s dp' = sentinel_only s dp1"
    unfolding run(5)
    by (rule sentinel_only_update [where f = "\<lambda>p. p\<lparr>vars := pvs\<rparr>"]) simp_all
  with f update_vars_events [OF run(3)] show ?thesis
    by (auto simp: run(6))
qed

lemma find_pass_failed_create:
  assumes fp: "find_pass be dp sh target blend load vparams = Inr (dp', i, sh', ev)"
    and ev: "PassCreate s prm \<in> set ev" and f: "pl_pass_create be prm sh' = None"
  shows "s = pl_shader_signature be sh \<and> passes dp' \<noteq> [] \<and> i = length (passes dp') - 1 \<and>
         signature (passes dp' ! i) = s \<and> pass (passes dp' ! i) = None \<and>
         (s \<notin> signature ` set (passes dp) \<longrightarrow> sentinel_only s dp')"
  using fp
proof (cases rule: find_pass_cases)
  case hit
  with ev show ?thesis by simp
next
  case miss
  let ?sig = "pl_shader_signature be sh"
  let ?pass0 = "\<lparr>signature = ?sig, pass = None, last_index = uint (current_index dp),
                 vars = [], ubo = None, ubo_desc = []\<rparr>"
  let ?dp0 = "dp\<lparr>cached_passes := snd (take_cached ?sig (cached_passes dp))\<rparr>"
  from miss(2) obtain params1 pass1 ev1 dp1 evgc where
    cp: "construct_pass be sh ?pass0 params1 vparams = Inr (pass1, sh', ev1)"
    and gc: "garbage_collect_passes ?dp0 = (dp1, evgc)"
    and e: "dp' = dp1\<lparr>passes := passes dp1 @ [pass1\<lparr>ubo_desc := []\<rparr>]\<rparr>"
      "i = length (passes dp1)" "ev = ev1 @ evgc"
    by (rule new_pass_cases)
  from ev gc_events(1) [OF gc] have ev1: "PassCreate s prm \<in> set ev1"
    by (simp add: e)
  from construct_pass_events(1-3) [OF cp _ ] ev1 f
  have s: "s = ?sig" "signature pass1 = ?sig" "pass pass1 = None"
    by simp_all
  have sub: "set (passes dp1) \<subseteq> set (passes dp)"
    using gc_passes_subset [OF gc] by simp
  have "sentinel_only s dp'" if "s \<notin> signature ` set (passes dp)"
  proof -
    from that sub have "\<forall>p \<in> set (passes dp1). signature p \<noteq> s" by blast
    with s show ?thesis by (auto simp: sentinel_only_def e)
  qed
  with s show ?thesis by (simp add: e)
qed

lemma entry_sticky:
  assumes so: "sentinel_only s dp"
    and r: "r = pl_dispatch_finish be dp fparams \<or> r = pl_dispatch_compute be dp cparams \<or>
            r = pl_dispatch_vertex be dp vtparams"
      "r = Inr (ret, dp2, psh, ev2)"
  shows "(\<forall>prm2. PassCreate s prm2 \<notin> set ev2) \<and>
         (sentinel_only s dp2 \<or> PassDestroy s \<in> set ev2)"
proof -
  from r entry_cases [of r be dp fparams cparams vtparams ret dp2 psh ev2]
  obtain dp1 sh1 where e: "dp2 = dp1\<lparr>shaders := shaders dp1 @ [sh1]\<rparr>"
    and d: "(\<not> ret \<and> dp1 = dp \<and> (\<exists>m. ev2 = [Log PL_LOG_ERR m])) \<or>
            (\<exists>sh2 target blend load vp g.
               dispatch_pass be dp sh2 target blend load vp g = Inr (ret, dp1, sh1, ev2))"
    by blast
  from d have "(\<forall>prm2. PassCreate s prm2 \<notin> set ev2) \<and>
               (sentinel_only s dp1 \<or> PassDestroy s \<in> set ev2)"
  proof
    assume "\<not> ret \<and> dp1 = dp \<and> (\<exists>m. ev2 = [Log PL_LOG_ERR m])"
    with so show ?thesis by auto
  next
    assume "\<exists>sh2 target blend load vp g.
               dispatch_pass be dp sh2 target blend load vp g = Inr (ret, dp1, sh1, ev2)"
    then obtain sh2 target blend load vp g where
      "dispatch_pass be dp sh2 target blend load vp g = Inr (ret, dp1, sh1, ev2)" by blast
    from dispatch_pass_sticky [OF so this] show ?thesis by blast
  qed
  then show ?thesis by (simp add: e)
qed

lemma sentinel_only_passes:
  "passes dp' = passes dp \<Longrightarrow> sentinel_only s dp' = sentinel_only s dp"
  by (simp add: sentinel_only_def)

lemma pl_dispatch_load_events:
  "pl_dispatch_load dp cache = Inr (dp', ev) \<Longrightarrow>
   PassCreate s prm \<notin> set ev \<and> PassDestroy s \<notin> set ev"
  by (auto simp: pl_dispatch_load_def bindE_def split: sum.splits if_splits prod.splits)

lemma run_api_step:
  assumes "bindE m (\<lambda>(dp1, ev). bindE (run_api be dp1 cs) (\<lambda>(dp2, ev'). Inr (dp2, ev @ ev'))) =
           Inr (dp', evs)"
  obtains dp1 ev ev' where "m = Inr (dp1, ev)" "run_api be dp1 cs = Inr (dp', ev')"
    "evs = ev @ ev'"
proof -
  from assms obtain x where m: "m = Inr x"
    by (cases m) (auto simp: bindE_Inl)
  obtain dp1 ev where x: "x = (dp1, ev)" by (cases x)
  from assms m x obtain y where r: "run_api be dp1 cs = Inr y"
    by (cases "run_api be dp1 cs") (auto simp: bindE_Inl bindE_Inr)
  obtain dp2 ev' where y: "y = (dp2, ev')" by (cases y)
  from assms m x r y have "dp' = dp2" "evs = ev @ ev'" by (simp_all add: bindE_Inr)
  with m x r y that show thesis by simp
qed

lemma run_api_entry:
  assumes "bindE m (\<lambda>(ret, dp1, psh, ev).
             bindE (run_api be dp1 cs) (\<lambda>(dp2, ev'). Inr (dp2, ev @ ev'))) = Inr (dp', evs)"
  obtains ret dp1 psh ev ev' where "m = Inr (ret, dp1, psh, ev)"
    "run_api be dp1 cs = Inr (dp', ev')" "evs = ev @ ev'"
proof -
  from assms obtain x where m: "m = Inr x"
    by (cases m) (auto simp: bindE_Inl)
  obtain ret dp1 psh ev where x: "x = (ret, dp1, psh, ev)" by (cases x)
  from assms m x obtain y where r: "run_api be dp1 cs = Inr y"
    by (cases "run_api be dp1 cs") (auto simp: bindE_Inl bindE_Inr)
  obtain dp2 ev' where y: "y = (dp2, ev')" by (cases y)
  from assms m x r y have "dp' = dp2" "evs = ev @ ev'" by (simp_all add: bindE_Inr)
  with m x r y that show thesis by simp
qed

lemma run_api_sticky:
  assumes "sentinel_only s dp" and "run_api be dp cs = Inr (dp', evs)"
    and "PassDestroy s \<notin> set evs"
  shows "(\<forall>prm. PassCreate s prm \<notin> set evs) \<and> sentinel_only s dp'"
  using assms
proof (induction cs arbitrary: dp evs)
  case Nil
  then show ?case by simp
next
  case (Cons c cs)
  note so = Cons.prems(1) and run = Cons.prems(2) and nd = Cons.prems(3)
  have entry: ?case
    if m: "r = pl_dispatch_finish be dp fparams \<or> r = pl_dispatch_compute be dp cparams \<or>
           r = pl_dispatch_vertex be dp vtparams"
      and b: "bindE r (\<lambda>(ret, dp1, psh, ev).
               bindE (run_api be dp1 cs) (\<lambda>(dp2, ev'). Inr (dp2, ev @ ev'))) = Inr (dp', evs)"
    for r fparams cparams vtparams
  proof -
    from b obtain ret dp1 psh ev ev' where
      e: "r = Inr (ret, dp1, psh, ev)" "run_api be dp1 cs = Inr (dp', ev')" "evs = ev @ ev'"
      by (rule run_api_entry)
    from entry_sticky [OF so m e(1)] nd e(3)
    have "\<forall>prm2. PassCreate s prm2 \<notin> set ev" "sentinel_only s dp1" by auto
    with Cons.IH [OF _ e(2)] nd e(3) show ?thesis by auto
  qed
  show ?case
  proof (cases c)
    case ApiResetFrame
    have "sentinel_only s (pl_dispatch_reset_frame dp)"
      using so by (simp add: sentinel_only_def pl_dispatch_reset_frame_def)
    from Cons.IH [OF this _ nd] run ApiResetFrame show ?thesis by simp
  next
    case (ApiBegin u)
    have "sentinel_only s (snd (pl_dispatch_begin_ex dp u))"
      using so by (simp add: sentinel_only_def pl_dispatch_begin_ex_def Let_def)
    from Cons.IH [OF this _ nd] run ApiBegin show ?thesis by simp
  next
    case (ApiAbort psh)
    have "sentinel_only s (fst (pl_dispatch_abort dp psh))"
      using so by (simp add: sentinel_only_def pl_dispatch_abort_def split: option.splits)
    from Cons.IH [OF this _ nd] run ApiAbort show ?thesis by simp
  next
    case (ApiLoad cache)
    with run obtain dp1 ev ev' where
      e: "pl_dispatch_load dp cache = Inr (dp1, ev)" "run_api be dp1 cs = Inr (dp', ev')"
        "evs = ev @ ev'"
      by (auto elim: run_api_step)
    from pl_dispatch_load_passes [OF e(1)] so have "sentinel_only s dp1"
      by (simp add: sentinel_only_def)
    with Cons.IH [OF _ e(2)] nd e(3) pl_dispatch_load_events [OF e(1)]
    show ?thesis by auto
  next
    case (ApiFinish params)
    with run show ?thesis
      by (intro entry [of "pl_dispatch_finish be dp params" params]) simp_all
  next
    case (ApiCompute params)
    with run show ?thesis
      by (intro entry [of "pl_dispatch_compute be dp params" _ params]) simp_all
  next
    case (ApiVertex params)
    with run show ?thesis
      by (intro entry [of "pl_dispatch_vertex be dp params" _ _ params]) simp_all
  qed
qed

text \<open>
  C5 (amended). First: whenever \<^verbatim>\<open>find_pass\<close> returns after a \<^verbatim>\<open>pl_pass_create\<close> for a
  signature that failed, the signature is that of the shader, and the record returned is
  the last of the live records, has that signature and has a null pass; if there was no
  record with that signature before, its records are sentinels afterwards. Second: while
  the records of a signature are sentinels, a lookup of a shader with that signature
  returns, gives one of these records with a null pass, calls nothing of the backend (no
  event), changes nothing but \<^verbatim>\<open>last_index\<close> of that record, and the records of the
  signature are sentinels afterwards. Third: while the records of a signature are
  sentinels, a call of any of the three entry points that returns has not called
  \<^verbatim>\<open>pl_pass_create\<close> for that signature, and afterwards the records of the signature are
  sentinels again unless the call has destroyed a record of that signature in
  \<^verbatim>\<open>garbage_collect_passes\<close>. Fourth: from a state in which the records of a signature
  are sentinels, no sequence of calls that returns without destroying a record of that
  signature has called \<^verbatim>\<open>pl_pass_create\<close> for it, and the records of the signature are
  sentinels at its end.
\<close>

theorem failed_pass_sticky_until_evicted:
  "(find_pass be dp sh target blend load vparams = Inr (dp', i, sh', ev) \<and>
    PassCreate s prm \<in> set ev \<and> pl_pass_create be prm sh' = None \<longrightarrow>
      s = pl_shader_signature be sh \<and> passes dp' \<noteq> [] \<and> i = length (passes dp') - 1 \<and>
      signature (passes dp' ! i) = s \<and> pass (passes dp' ! i) = None \<and>
      (s \<notin> signature ` set (passes dp) \<longrightarrow> sentinel_only s dp')) \<and>
   (sentinel_only s dp \<and> pl_shader_signature be sh = s \<longrightarrow>
      (\<exists>j<length (passes dp).
         find_pass be dp sh target blend load vparams =
           Inr (dp\<lparr>passes := (passes dp)
                      [j := (passes dp ! j)\<lparr>last_index := uint (current_index dp)\<rparr>]\<rparr>,
                j, sh, []) \<and>
         signature (passes dp ! j) = s \<and> pass (passes dp ! j) = None \<and>
         sentinel_only s
           (dp\<lparr>passes := (passes dp)
                  [j := (passes dp ! j)\<lparr>last_index := uint (current_index dp)\<rparr>]\<rparr>))) \<and>
   (sentinel_only s dp \<and>
    (r = pl_dispatch_finish be dp fparams \<or> r = pl_dispatch_compute be dp cparams \<or>
     r = pl_dispatch_vertex be dp vtparams) \<and>
    r = Inr (ret, dp2, psh, ev2) \<longrightarrow>
      (\<forall>prm2. PassCreate s prm2 \<notin> set ev2) \<and>
      (sentinel_only s dp2 \<or> PassDestroy s \<in> set ev2)) \<and>
   (sentinel_only s dp \<and> run_api be dp cs = Inr (dp3, ev3) \<and> PassDestroy s \<notin> set ev3 \<longrightarrow>
      (\<forall>prm3. PassCreate s prm3 \<notin> set ev3) \<and> sentinel_only s dp3)"
proof -
  have p1: "find_pass be dp sh target blend load vparams = Inr (dp', i, sh', ev) \<and>
      PassCreate s prm \<in> set ev \<and> pl_pass_create be prm sh' = None \<longrightarrow>
      s = pl_shader_signature be sh \<and> passes dp' \<noteq> [] \<and> i = length (passes dp') - 1 \<and>
      signature (passes dp' ! i) = s \<and> pass (passes dp' ! i) = None \<and>
      (s \<notin> signature ` set (passes dp) \<longrightarrow> sentinel_only s dp')"
  proof (rule impI)
    assume "find_pass be dp sh target blend load vparams = Inr (dp', i, sh', ev) \<and>
            PassCreate s prm \<in> set ev \<and> pl_pass_create be prm sh' = None"
    then have a: "find_pass be dp sh target blend load vparams = Inr (dp', i, sh', ev)"
      "PassCreate s prm \<in> set ev" "pl_pass_create be prm sh' = None" by simp_all
    from find_pass_failed_create [OF a]
    show "s = pl_shader_signature be sh \<and> passes dp' \<noteq> [] \<and> i = length (passes dp') - 1 \<and>
        signature (passes dp' ! i) = s \<and> pass (passes dp' ! i) = None \<and>
        (s \<notin> signature ` set (passes dp) \<longrightarrow> sentinel_only s dp')" .
  qed
  have p2: "sentinel_only s dp \<and> pl_shader_signature be sh = s \<longrightarrow>
      (\<exists>j<length (passes dp).
         find_pass be dp sh target blend load vparams =
           Inr (dp\<lparr>passes := (passes dp)
                      [j := (passes dp ! j)\<lparr>last_index := uint (current_index dp)\<rparr>]\<rparr>,
                j, sh, []) \<and>
         signature (passes dp ! j) = s \<and> pass (passes dp ! j) = None \<and>
         sentinel_only s
           (dp\<lparr>passes := (passes dp)
                  [j := (passes dp ! j)\<lparr>last_index := uint (current_index dp)\<rparr>]\<rparr>))"
  proof (rule impI)
    assume "sentinel_only s dp \<and> pl_shader_signature be sh = s"
    then have so: "sentinel_only s dp" and sg: "pl_shader_signature be sh = s" by simp_all
    from so have "\<exists>p \<in> set (passes dp). signature p = s"
      "\<forall>p \<in> set (passes dp). signature p = s \<longrightarrow> pass p = None"
      by (simp_all add: sentinel_only_def)
    from lookup_pass_sentinel [OF this, of be sh target blend load vparams 0]
    obtain j where j: "j < length (passes dp)"
      "lookup_pass be sh s target blend load vparams (passes dp) 0 = Inr (Some j)"
      "signature (passes dp ! j) = s" "pass (passes dp ! j) = None"
      by auto
    let ?dp' = "dp\<lparr>passes := (passes dp)
                    [j := (passes dp ! j)\<lparr>last_index := uint (current_index dp)\<rparr>]\<rparr>"
    from j(2) have "find_pass be dp sh target blend load vparams = Inr (?dp', j, sh, [])"
      by (simp add: find_pass_def sg bindE_Inr)
    moreover have "sentinel_only s ?dp' = sentinel_only s dp"
      by (rule sentinel_only_update [where f = "\<lambda>p. p\<lparr>last_index := uint (current_index dp)\<rparr>"])
        simp_all
    ultimately show "\<exists>j<length (passes dp).
           find_pass be dp sh target blend load vparams =
             Inr (dp\<lparr>passes := (passes dp)
                        [j := (passes dp ! j)\<lparr>last_index := uint (current_index dp)\<rparr>]\<rparr>,
                  j, sh, []) \<and>
           signature (passes dp ! j) = s \<and> pass (passes dp ! j) = None \<and>
           sentinel_only s
             (dp\<lparr>passes := (passes dp)
                    [j := (passes dp ! j)\<lparr>last_index := uint (current_index dp)\<rparr>]\<rparr>)"
      using j so by blast
  qed
  have p3: "sentinel_only s dp \<and>
      (r = pl_dispatch_finish be dp fparams \<or> r = pl_dispatch_compute be dp cparams \<or>
       r = pl_dispatch_vertex be dp vtparams) \<and>
      r = Inr (ret, dp2, psh, ev2) \<longrightarrow>
        (\<forall>prm2. PassCreate s prm2 \<notin> set ev2) \<and>
        (sentinel_only s dp2 \<or> PassDestroy s \<in> set ev2)"
    using entry_sticky [of s dp r be fparams cparams vtparams ret dp2 psh ev2] by blast
  have p4: "sentinel_only s dp \<and> run_api be dp cs = Inr (dp3, ev3) \<and>
      PassDestroy s \<notin> set ev3 \<longrightarrow>
        (\<forall>prm3. PassCreate s prm3 \<notin> set ev3) \<and> sentinel_only s dp3"
    using run_api_sticky [of s dp be cs dp3 ev3] by blast
  show ?thesis
    by (rule conjI [OF p1 conjI [OF p2 conjI [OF p3 p4]]])
qed

text \<open>
  The four parts of C5 (amended) for signature 13, which the example backend refuses:
  the first lookup on a fresh dispatch object; a lookup three frames later on the state
  that it leaves behind; a dispatch of the shader with signature 1 in that state, after
  which the record of 13 is still there without a pass; and, from that state, a new
  frame followed by dispatches of the shaders with signatures 1 and 13.
\<close>

theorem failed_pass_sticky_witness:
  "find_pass example_backend pl_dispatch_create (compute_shader 13) None None False None =
     Inr (pl_dispatch_create\<lparr>passes := [failed_pass 13 0]\<rparr>, 0, compute_shader 13,
          [PassCreate 13 (compute_params 13),
           Log PL_LOG_ERR ''Failed creating render pass for dispatch'']) \<and>
   pl_pass_create example_backend (compute_params 13) (compute_shader 13) = None \<and>
   signature (passes (pl_dispatch_create\<lparr>passes := [failed_pass 13 0]\<rparr>) ! 0) = 13 \<and>
   pass (passes (pl_dispatch_create\<lparr>passes := [failed_pass 13 0]\<rparr>) ! 0) = None \<and>
   find_pass example_backend
       (pl_dispatch_create\<lparr>current_index := 3, passes := [failed_pass 13 0]\<rparr>)
       (compute_shader 13) None None False None =
     Inr (pl_dispatch_create\<lparr>current_index := 3, passes := [failed_pass 13 3]\<rparr>, 0,
          compute_shader 13, []) \<and>
   pl_dispatch_compute example_backend
       (pl_dispatch_create\<lparr>current_index := 3, passes := [failed_pass 13 0]\<rparr>)
       (compute_call 1) =
     Inr (True,
          pl_dispatch_create\<lparr>current_index := 3,
            passes := [failed_pass 13 0, compute_record 1 3], shaders := [compute_shader 1]\<rparr>,
          None, [PassCreate 1 (compute_params 1), PassRun 1]) \<and>
   pass (passes (pl_dispatch_create\<lparr>current_index := 3,
            passes := [failed_pass 13 0, compute_record 1 3],
            shaders := [compute_shader 1]\<rparr>) ! 0) = None \<and>
   run_api example_backend
       (pl_dispatch_create\<lparr>current_index := 3, passes := [failed_pass 13 0]\<rparr>)
       [ApiResetFrame, ApiCompute (compute_call 1), ApiCompute (compute_call 13)] =
     Inr (pl_dispatch_create\<lparr>current_index := 4,
            passes := [failed_pass 13 4, compute_record 1 4],
            shaders := [compute_shader 1, compute_shader 13]\<rparr>,
          [PassCreate 1 (compute_params 1), PassRun 1]) \<and>
   pass (passes (pl_dispatch_create\<lparr>current_index := 4,
            passes := [failed_pass 13 4, compute_record 1 4],
            shaders := [compute_shader 1, compute_shader 13]\<rparr>) ! 0) = None"
proof -
  let ?dp4 = "pl_dispatch_create\<lparr>current_index := 4, passes := [failed_pass 13 0]\<rparr>"
  let ?dp5 = "pl_dispatch_create\<lparr>current_index := 4,
            passes := [failed_pass 13 0, compute_record 1 4], shaders := [compute_shader 1]\<rparr>"
  let ?dp6 = "pl_dispatch_create\<lparr>current_index := 4,
            passes := [failed_pass 13 4, compute_record 1 4],
            shaders := [compute_shader 1, compute_shader 13]\<rparr>"
  let ?dp = "pl_dispatch_create\<lparr>current_index := 3, passes := [failed_pass 13 0]\<rparr>"
  let ?dp1 = "pl_dispatch_create\<lparr>passes := [failed_pass 13 0]\<rparr>"
  let ?dp2 = "pl_dispatch_create\<lparr>current_index := 3,
            passes := [failed_pass 13 0, compute_record 1 3], shaders := [compute_shader 1]\<rparr>"
  let ?ev1 = "[PassCreate 13 (compute_params 13),
               Log PL_LOG_ERR ''Failed creating render pass for dispatch'']"
  have sig: "pl_shader_signature example_backend (compute_shader 13) = 13"
    by (simp add: example_backend_def compute_shader_def pl_shader_alloc_def)
  have fail: "pl_pass_create example_backend (compute_params 13) (compute_shader 13) = None"
    by (simp add: example_backend_def compute_shader_def)
  have so: "sentinel_only 13 ?dp"
    by (simp add: sentinel_only_def failed_pass_def)
  have first: "find_pass example_backend pl_dispatch_create (compute_shader 13) None None False None =
     Inr (?dp1, 0, compute_shader 13, ?ev1)"
  proof -
    have gc0: "garbage_collect_passes pl_dispatch_create = (pl_dispatch_create, [])"
      by (simp add: gc_noop pl_dispatch_create_def MAX_PASSES_def)
    have "word_of_nat 13 \<notin> signature ` set (passes pl_dispatch_create)"
      "word_of_nat 13 \<notin> cp_signature ` set (cached_passes pl_dispatch_create)"
      by (simp_all add: pl_dispatch_create_def)
    from example_find_miss [OF this gc0] show ?thesis
      by (simp add: pl_dispatch_create_def)
  qed
  have disp: "pl_dispatch_compute example_backend ?dp (compute_call 1) =
     Inr (True, ?dp2, None, [PassCreate 1 (compute_params 1), PassRun 1])"
  proof -
    have gc0: "garbage_collect_passes ?dp = (?dp, [])"
      by (simp add: gc_noop pl_dispatch_create_def MAX_PASSES_def)
    have "word_of_nat 1 \<notin> signature ` set (passes ?dp)"
      "word_of_nat 1 \<notin> cp_signature ` set (cached_passes ?dp)"
      by (simp_all add: pl_dispatch_create_def failed_pass_def)
    from example_compute_miss [OF this gc0] show ?thesis
      by (simp add: pl_dispatch_create_def)
  qed
  from failed_pass_sticky_until_evicted
    [of example_backend pl_dispatch_create "compute_shader 13" None None False None
        ?dp1 0 "compute_shader 13" ?ev1 13 "compute_params 13"]
    first fail
  have a: "signature (passes ?dp1 ! 0) = 13" "pass (passes ?dp1 ! 0) = None"
    by simp_all
  from failed_pass_sticky_until_evicted
    [of example_backend ?dp "compute_shader 13" None None False None _ _ _ _ 13]
    so sig
  have "\<exists>j<length (passes ?dp).
         find_pass example_backend ?dp (compute_shader 13) None None False None =
           Inr (?dp\<lparr>passes := (passes ?dp)
                      [j := (passes ?dp ! j)\<lparr>last_index := uint (current_index ?dp)\<rparr>]\<rparr>,
                j, compute_shader 13, [])"
    by blast
  then have b: "find_pass example_backend ?dp (compute_shader 13) None None False None =
     Inr (pl_dispatch_create\<lparr>current_index := 3, passes := [failed_pass 13 3]\<rparr>, 0,
          compute_shader 13, [])"
    by (auto simp: failed_pass_def pl_dispatch_create_def)
  from failed_pass_sticky_until_evicted
    [of example_backend ?dp _ _ _ _ _ _ _ _ _ 13 _
        "pl_dispatch_compute example_backend ?dp (compute_call 1)" _ "compute_call 1" _
        True ?dp2 None "[PassCreate 1 (compute_params 1), PassRun 1]"]
    so disp
  have "sentinel_only 13 ?dp2 \<or>
        PassDestroy 13 \<in> set [PassCreate 1 (compute_params 1), PassRun 1]"
    by blast
  then have "sentinel_only 13 ?dp2" by simp
  then have c: "pass (passes ?dp2 ! 0) = None"
    by (simp add: sentinel_only_def failed_pass_def)
  have step1: "pl_dispatch_compute example_backend ?dp4 (compute_call 1) =
     Inr (True, ?dp5, None, [PassCreate 1 (compute_params 1), PassRun 1])"
  proof -
    have gc0: "garbage_collect_passes ?dp4 = (?dp4, [])"
      by (simp add: gc_noop pl_dispatch_create_def MAX_PASSES_def)
    have "word_of_nat 1 \<notin> signature ` set (passes ?dp4)"
      "word_of_nat 1 \<notin> cp_signature ` set (cached_passes ?dp4)"
      by (simp_all add: pl_dispatch_create_def failed_pass_def)
    from example_compute_miss [OF this gc0] show ?thesis
      by (simp add: pl_dispatch_create_def)
  qed
  have step2: "pl_dispatch_compute example_backend ?dp5 (compute_call 13) =
     Inr (False, ?dp6, None, [])"
    by (simp add: pl_dispatch_compute_def compute_call_def compute_body_def dispatch_pass_def
        find_pass_def sig bindE_Inr pl_dispatch_abort_def int_mul_1_1 failed_pass_def
        compute_record_def pl_dispatch_create_def compute_shader_def pl_shader_alloc_def
        example_backend_def)
  have api: "run_api example_backend ?dp
       [ApiResetFrame, ApiCompute (compute_call 1), ApiCompute (compute_call 13)] =
     Inr (?dp6, [PassCreate 1 (compute_params 1), PassRun 1])"
  proof -
    have rf: "pl_dispatch_reset_frame ?dp = ?dp4"
      by (simp add: pl_dispatch_reset_frame_def pl_dispatch_create_def)
    show ?thesis
      by (simp only: run_api.simps rf step1 step2 bindE_Inr prod.case append_Nil2)
  qed
  from failed_pass_sticky_until_evicted
    [of example_backend ?dp _ _ _ _ _ _ _ _ _ 13 _ _ _ _ _ _ _ _ _
        "[ApiResetFrame, ApiCompute (compute_call 1), ApiCompute (compute_call 13)]" ?dp6
        "[PassCreate 1 (compute_params 1), PassRun 1]"]
    so api
  have "sentinel_only 13 ?dp6" by simp
  then have d: "pass (passes ?dp6 ! 0) = None"
    by (simp add: sentinel_only_def failed_pass_def)
  from first fail a b disp c api d show ?thesis by simp
qed

end
